theory Spec2Isabelle
  imports Complex_Main
begin

section \<open>E-learning backend: data model\<close>

text \<open>
  Shallow embedding of \<^verbatim>\<open>backend/server.py\<close>. The MongoDB database is a record of
  four collections, each a list of documents in insertion order. Every route handler is a
  function from the database (and the request) to either an error or the new database
  together with the response. The values the handlers draw from their environment are
  parameters: \<^verbatim>\<open>uuid.uuid4()\<close> is the identifier argument, \<^verbatim>\<open>datetime.now\<close> the clock
  argument (seconds), \<^verbatim>\<open>random.choices\<close> a sequence of draws, \<^verbatim>\<open>bcrypt.gensalt\<close> the
  salt argument and \<^verbatim>\<open>JWT_SECRET\<close> the secret argument.
\<close>

definition TEACHER :: string where "TEACHER = ''TEACHER''"
definition STUDENT :: string where "STUDENT = ''STUDENT''"

definition TEXT :: string where "TEXT = ''TEXT''"
definition FILE :: string where "FILE = ''FILE''"
definition VIDEO :: string where "VIDEO = ''VIDEO''"
definition MODEL3D :: string where "MODEL3D = ''MODEL3D''"

definition JWT_EXPIRATION_HOURS :: nat where "JWT_EXPIRATION_HOURS = 24"

text \<open>
  What a handler can raise: an \<^verbatim>\<open>HTTPException\<close> with its status code and detail, the
  driver's \<^verbatim>\<open>DuplicateKeyError\<close> when an insert violates a unique index of
  \<^verbatim>\<open>startup_db\<close>, Python's \<^verbatim>\<open>TypeError\<close> when \<^verbatim>\<open>None\<close> is subscripted, and the
  driver's \<^verbatim>\<open>OverflowError\<close> when a document to write holds an integer outside the
  signed 64-bit range of BSON.
\<close>

datatype error = HTTPException nat string | DuplicateKeyError | TypeError | OverflowError

text \<open>The integers BSON can encode.\<close>

definition int64 :: "int \<Rightarrow> bool" where
  "int64 v \<longleftrightarrow> - 9223372036854775808 \<le> v \<and> v \<le> 9223372036854775807"

text \<open>A bcrypt hash keeps its salt and answers \<^verbatim>\<open>checkpw\<close> for the hashed password.\<close>

datatype pwhash = BcryptHash string string

record user =
  u_id :: string
  u_email :: string
  u_password :: pwhash
  u_name :: string
  u_role :: string
  u_avatar :: "string option"
  u_createdAt :: nat
  u_updatedAt :: nat

record classroom =
  c_id :: string
  c_name :: string
  c_description :: "string option"
  c_subject :: string
  c_code :: string
  c_coverImage :: "string option"
  c_isActive :: bool
  c_teacherId :: string
  c_createdAt :: nat
  c_updatedAt :: nat

record enrollment =
  e_id :: string
  e_studentId :: string
  e_classroomId :: string
  e_joinedAt :: nat

record material =
  m_id :: string
  m_title :: string
  m_description :: "string option"
  m_type :: string
  m_content :: "string option"
  m_fileUrl :: "string option"
  m_fileName :: "string option"
  m_videoUrl :: "string option"
  m_modelUrl :: "string option"
  m_arEnabled :: bool
  m_modelScale :: real
  m_order :: int
  m_isPublished :: bool
  m_classroomId :: string
  m_createdById :: string
  m_createdAt :: nat
  m_updatedAt :: nat

record db =
  users :: "user list"
  classrooms :: "classroom list"
  enrollments :: "enrollment list"
  materials :: "material list"

definition empty_db :: db where
  "empty_db = \<lparr>users = [], classrooms = [], enrollments = [], materials = []\<rparr>"

subsection \<open>Request bodies (the pydantic models)\<close>

record UserCreate =
  uc_email :: string
  uc_password :: string
  uc_name :: string
  uc_role :: string

record UserUpdate =
  uu_name :: "string option"
  uu_avatar :: "string option"

record PasswordChange =
  pc_currentPassword :: string
  pc_newPassword :: string

record ClassroomCreate =
  cc_name :: string
  cc_description :: "string option"
  cc_subject :: string
  cc_coverImage :: "string option"

record ClassroomUpdate =
  cu_name :: "string option"
  cu_description :: "string option"
  cu_subject :: "string option"
  cu_coverImage :: "string option"
  cu_isActive :: "bool option"

record MaterialCreate =
  mc_title :: string
  mc_description :: "string option"
  mc_type :: string
  mc_content :: "string option"
  mc_fileUrl :: "string option"
  mc_fileName :: "string option"
  mc_videoUrl :: "string option"
  mc_modelUrl :: "string option"
  mc_arEnabled :: "bool option"
  mc_modelScale :: "real option"
  mc_isPublished :: "bool option"

record MaterialUpdate =
  mu_title :: "string option"
  mu_description :: "string option"
  mu_type :: "string option"
  mu_content :: "string option"
  mu_fileUrl :: "string option"
  mu_fileName :: "string option"
  mu_videoUrl :: "string option"
  mu_modelUrl :: "string option"
  mu_arEnabled :: "bool option"
  mu_modelScale :: "real option"
  mu_isPublished :: "bool option"
  mu_order :: "int option"

subsection \<open>Collection primitives\<close>

text \<open>
  \<^verbatim>\<open>find_one\<close> is the first document that matches, \<^verbatim>\<open>update_one\<close> and
  \<^verbatim>\<open>delete_one\<close> act on the first match only, \<^verbatim>\<open>delete_many\<close> on every match.
\<close>

definition find_one :: "('a \<Rightarrow> bool) \<Rightarrow> 'a list \<Rightarrow> 'a option" where
  "find_one P xs = find P xs"

fun update_one :: "('a \<Rightarrow> bool) \<Rightarrow> ('a \<Rightarrow> 'a) \<Rightarrow> 'a list \<Rightarrow> 'a list" where
  "update_one P f [] = []"
| "update_one P f (x # xs) = (if P x then f x # xs else x # update_one P f xs)"

fun delete_one :: "('a \<Rightarrow> bool) \<Rightarrow> 'a list \<Rightarrow> 'a list" where
  "delete_one P [] = []"
| "delete_one P (x # xs) = (if P x then xs else x # delete_one P xs)"

definition deleted_count :: "('a \<Rightarrow> bool) \<Rightarrow> 'a list \<Rightarrow> nat" where
  "deleted_count P xs = (case find_one P xs of None \<Rightarrow> 0 | Some _ \<Rightarrow> 1)"

definition delete_many :: "('a \<Rightarrow> bool) \<Rightarrow> 'a list \<Rightarrow> 'a list" where
  "delete_many P xs = filter (\<lambda>x. \<not> P x) xs"

definition count_documents :: "('a \<Rightarrow> bool) \<Rightarrow> 'a list \<Rightarrow> nat" where
  "count_documents P xs = length (filter P xs)"

text \<open>
  The inserts check the unique indexes that \<^verbatim>\<open>startup_db\<close> creates: \<^verbatim>\<open>users.email\<close>,
  \<^verbatim>\<open>users.id\<close>, \<^verbatim>\<open>classrooms.id\<close>, \<^verbatim>\<open>classrooms.code\<close>, \<^verbatim>\<open>enrollments.id\<close>,
  the pair \<^verbatim>\<open>(studentId, classroomId)\<close> of an enrollment, and \<^verbatim>\<open>materials.id\<close>.
  A material holds the one integer of the documents, its \<^verbatim>\<open>order\<close>: \<^verbatim>\<open>insert_one\<close> encodes
  the document first and raises \<^verbatim>\<open>OverflowError\<close> when the order is outside the 64-bit
  range.
\<close>

definition insert_user :: "user \<Rightarrow> db \<Rightarrow> error + db" where
  "insert_user doc s =
     (if u_email doc \<in> set (map u_email (users s)) \<or> u_id doc \<in> set (map u_id (users s))
      then Inl DuplicateKeyError
      else Inr (s\<lparr>users := users s @ [doc]\<rparr>))"

definition insert_classroom :: "classroom \<Rightarrow> db \<Rightarrow> error + db" where
  "insert_classroom doc s =
     (if c_id doc \<in> set (map c_id (classrooms s)) \<or> c_code doc \<in> set (map c_code (classrooms s))
      then Inl DuplicateKeyError
      else Inr (s\<lparr>classrooms := classrooms s @ [doc]\<rparr>))"

definition insert_enrollment :: "enrollment \<Rightarrow> db \<Rightarrow> error + db" where
  "insert_enrollment doc s =
     (if e_id doc \<in> set (map e_id (enrollments s))
         \<or> (e_studentId doc, e_classroomId doc)
              \<in> set (map (\<lambda>e. (e_studentId e, e_classroomId e)) (enrollments s))
      then Inl DuplicateKeyError
      else Inr (s\<lparr>enrollments := enrollments s @ [doc]\<rparr>))"

definition insert_material :: "material \<Rightarrow> db \<Rightarrow> error + db" where
  "insert_material doc s =
     (if int64 (m_order doc)
      then (if m_id doc \<in> set (map m_id (materials s))
            then Inl DuplicateKeyError
            else Inr (s\<lparr>materials := materials s @ [doc]\<rparr>))
      else Inl OverflowError)"

section \<open>Helper functions and authentication\<close>

text \<open>
  \<^verbatim>\<open>generate_code\<close>: \<^verbatim>\<open>random.choices(string.ascii_uppercase + string.digits, k=length)\<close>.
  The generator is a sequence of draws \<open>rnd\<close> read from position \<open>pos\<close>; each draw
  selects one character of the population.
\<close>

definition code_alphabet :: string where
  "code_alphabet = ''ABCDEFGHIJKLMNOPQRSTUVWXYZ0123456789''"

definition generate_code :: "(nat \<Rightarrow> nat) \<Rightarrow> nat \<Rightarrow> nat \<Rightarrow> string" where
  "generate_code rnd pos len =
     map (\<lambda>i. code_alphabet ! (rnd (pos + i) mod length code_alphabet)) [0..<len]"

definition hash_password :: "string \<Rightarrow> string \<Rightarrow> pwhash" where
  "hash_password password salt = BcryptHash salt password"

fun verify_password :: "string \<Rightarrow> pwhash \<Rightarrow> bool" where
  "verify_password password (BcryptHash salt p) = (p = password)"

text \<open>
  A token is its payload together with the key that signed it; any other bearer string is
  \<open>Malformed\<close>. \<^verbatim>\<open>jwt.decode\<close> checks the signature first and the expiry second
  (a token whose \<^verbatim>\<open>exp\<close> is not after the clock has expired).
\<close>

record payload =
  p_sub :: "string option"
  p_email :: string
  p_role :: string
  p_exp :: nat

datatype token = Signed payload string | Malformed string

datatype jwt_error = ExpiredSignatureError | InvalidTokenError

fun jwt_decode :: "token \<Rightarrow> string \<Rightarrow> nat \<Rightarrow> jwt_error + payload" where
  "jwt_decode (Malformed t) secret now = Inl InvalidTokenError"
| "jwt_decode (Signed p k) secret now =
     (if k \<noteq> secret then Inl InvalidTokenError
      else if p_exp p \<le> now then Inl ExpiredSignatureError
      else Inr p)"

definition create_token :: "string \<Rightarrow> nat \<Rightarrow> string \<Rightarrow> string \<Rightarrow> string \<Rightarrow> token" where
  "create_token secret now user_id email role =
     Signed \<lparr>p_sub = Some user_id, p_email = email, p_role = role,
             p_exp = now + JWT_EXPIRATION_HOURS * 3600\<rparr> secret"

definition get_current_user :: "string \<Rightarrow> nat \<Rightarrow> db \<Rightarrow> token \<Rightarrow> error + user" where
  "get_current_user secret now s tok =
     (case jwt_decode tok secret now of
        Inl ExpiredSignatureError \<Rightarrow> Inl (HTTPException 401 ''Token expired'')
      | Inl InvalidTokenError \<Rightarrow> Inl (HTTPException 401 ''Invalid token'')
      | Inr p \<Rightarrow>
          (case p_sub p of
             None \<Rightarrow> Inl (HTTPException 401 ''Invalid token'')
           | Some user_id \<Rightarrow>
               (case find_one (\<lambda>u. u_id u = user_id) (users s) of
                  None \<Rightarrow> Inl (HTTPException 401 ''User not found'')
                | Some u \<Rightarrow> Inr u)))"

record UserResponse =
  ur_id :: string
  ur_email :: string
  ur_name :: string
  ur_role :: string
  ur_avatar :: "string option"
  ur_createdAt :: nat

definition user_response :: "user \<Rightarrow> UserResponse" where
  "user_response u =
     \<lparr>ur_id = u_id u, ur_email = u_email u, ur_name = u_name u, ur_role = u_role u,
      ur_avatar = u_avatar u, ur_createdAt = u_createdAt u\<rparr>"

definition register ::
  "string \<Rightarrow> nat \<Rightarrow> string \<Rightarrow> string \<Rightarrow> db \<Rightarrow> UserCreate \<Rightarrow> error + db \<times> UserResponse \<times> token" where
  "register secret now user_id salt s data =
     (if find_one (\<lambda>u. u_email u = uc_email data) (users s) \<noteq> None
      then Inl (HTTPException 400 ''Email already registered'')
      else if uc_role data \<notin> set [TEACHER, STUDENT]
      then Inl (HTTPException 400 ''Invalid role'')
      else
        let user_doc =
              \<lparr>u_id = user_id, u_email = uc_email data,
               u_password = hash_password (uc_password data) salt,
               u_name = uc_name data, u_role = uc_role data, u_avatar = None,
               u_createdAt = now, u_updatedAt = now\<rparr>
        in case insert_user user_doc s of
             Inl e \<Rightarrow> Inl e
           | Inr s' \<Rightarrow>
               Inr (s', user_response user_doc,
                    create_token secret now user_id (uc_email data) (uc_role data)))"

text \<open>
  \<^verbatim>\<open>update_profile\<close>: \<^verbatim>\<open>if data.name:\<close> is a truthiness test (a string is truthy when
  it is not empty), \<^verbatim>\<open>if data.avatar is not None:\<close> a presence test. \<open>set_user\<close> is the
  \<^verbatim>\<open>$set\<close> of the collected fields and \<^verbatim>\<open>updatedAt\<close>.
\<close>

definition truthy :: "string option \<Rightarrow> string option" where
  "truthy v = (case v of None \<Rightarrow> None | Some x \<Rightarrow> if x = [] then None else Some x)"

definition set_user :: "string option \<Rightarrow> string option \<Rightarrow> nat \<Rightarrow> user \<Rightarrow> user" where
  "set_user name avatar now u =
     u\<lparr>u_name := (case name of None \<Rightarrow> u_name u | Some v \<Rightarrow> v),
       u_avatar := (case avatar of None \<Rightarrow> u_avatar u | Some v \<Rightarrow> Some v),
       u_updatedAt := now\<rparr>"

definition update_profile :: "nat \<Rightarrow> db \<Rightarrow> UserUpdate \<Rightarrow> user \<Rightarrow> error + db \<times> UserResponse" where
  "update_profile now s data u =
     (let name = truthy (uu_name data);
          avatar = uu_avatar data;
          s' = (if \<not> (name = None \<and> avatar = None)
                then s\<lparr>users := update_one (\<lambda>x. u_id x = u_id u) (set_user name avatar now) (users s)\<rparr>
                else s)
      in case find_one (\<lambda>x. u_id x = u_id u) (users s') of
           None \<Rightarrow> Inl TypeError
         | Some updated_user \<Rightarrow> Inr (s', user_response updated_user))"

definition change_password :: "nat \<Rightarrow> string \<Rightarrow> db \<Rightarrow> PasswordChange \<Rightarrow> user \<Rightarrow> error + db" where
  "change_password now salt s data u =
     (if \<not> verify_password (pc_currentPassword data) (u_password u)
      then Inl (HTTPException 400 ''Current password is incorrect'')
      else Inr (s\<lparr>users := update_one (\<lambda>x. u_id x = u_id u)
                     (\<lambda>x. x\<lparr>u_password := hash_password (pc_newPassword data) salt,
                             u_updatedAt := now\<rparr>) (users s)\<rparr>))"

section \<open>Classroom routes\<close>

text \<open>
  The enriched classroom of the responses: the document, its \<^verbatim>\<open>_count\<close> of enrollments
  and materials, and the teacher's id, name and email when the teacher is found.
\<close>

type_synonym classroom_view = "classroom \<times> (nat \<times> nat) \<times> (string \<times> string \<times> string) option"

definition teacher_summary :: "user \<Rightarrow> string \<times> string \<times> string" where
  "teacher_summary t = (u_id t, u_name t, u_email t)"

definition enrich_classroom :: "db \<Rightarrow> classroom \<Rightarrow> classroom_view" where
  "enrich_classroom s c =
     (c,
      (count_documents (\<lambda>e. e_classroomId e = c_id c) (enrollments s),
       count_documents (\<lambda>m. m_classroomId m = c_id c) (materials s)),
      map_option teacher_summary (find_one (\<lambda>u. u_id u = c_teacherId c) (users s)))"

text \<open>
  The loop of \<^verbatim>\<open>create_classroom\<close> that draws codes until no classroom holds the code.
  It need not stop: a generator that keeps drawing a code in use gives \<open>None\<close>.
\<close>

partial_function (option) unique_code :: "(nat \<Rightarrow> nat) \<Rightarrow> nat \<Rightarrow> classroom list \<Rightarrow> string option" where
  "unique_code rnd pos cs =
     (let code = generate_code rnd pos 6
      in if find_one (\<lambda>c. c_code c = code) cs \<noteq> None
         then unique_code rnd (pos + 6) cs
         else Some code)"

definition create_classroom ::
  "nat \<Rightarrow> string \<Rightarrow> (nat \<Rightarrow> nat) \<Rightarrow> db \<Rightarrow> ClassroomCreate \<Rightarrow> user
     \<Rightarrow> (error + db \<times> classroom_view) option" where
  "create_classroom now classroom_id rnd s data u =
     (if u_role u \<noteq> TEACHER
      then Some (Inl (HTTPException 403 ''Only teachers can create classrooms''))
      else
        case unique_code rnd 0 (classrooms s) of
          None \<Rightarrow> None
        | Some code \<Rightarrow>
            let classroom_doc =
                  \<lparr>c_id = classroom_id, c_name = cc_name data,
                   c_description = cc_description data, c_subject = cc_subject data,
                   c_code = code, c_coverImage = cc_coverImage data, c_isActive = True,
                   c_teacherId = u_id u, c_createdAt = now, c_updatedAt = now\<rparr>
            in Some (case insert_classroom classroom_doc s of
                       Inl e \<Rightarrow> Inl e
                     | Inr s' \<Rightarrow> Inr (s', classroom_doc, (0, 0), Some (teacher_summary u))))"

definition get_classroom :: "db \<Rightarrow> string \<Rightarrow> user \<Rightarrow> error + classroom_view" where
  "get_classroom s ident u =
     (case find_one (\<lambda>c. c_id c = ident) (classrooms s) of
        None \<Rightarrow> Inl (HTTPException 404 ''Classroom not found'')
      | Some classroom \<Rightarrow>
          if u_role u = TEACHER
          then (if c_teacherId classroom \<noteq> u_id u
                then Inl (HTTPException 403 ''Not authorized'')
                else Inr (enrich_classroom s classroom))
          else (if find_one (\<lambda>e. e_studentId e = u_id u \<and> e_classroomId e = ident)
                     (enrollments s) = None
                then Inl (HTTPException 403 ''Not enrolled in this classroom'')
                else Inr (enrich_classroom s classroom)))"

definition set_classroom :: "ClassroomUpdate \<Rightarrow> nat \<Rightarrow> classroom \<Rightarrow> classroom" where
  "set_classroom data now c =
     c\<lparr>c_name := (case cu_name data of None \<Rightarrow> c_name c | Some v \<Rightarrow> v),
       c_description := (case cu_description data of None \<Rightarrow> c_description c | Some v \<Rightarrow> Some v),
       c_subject := (case cu_subject data of None \<Rightarrow> c_subject c | Some v \<Rightarrow> v),
       c_coverImage := (case cu_coverImage data of None \<Rightarrow> c_coverImage c | Some v \<Rightarrow> Some v),
       c_isActive := (case cu_isActive data of None \<Rightarrow> c_isActive c | Some v \<Rightarrow> v),
       c_updatedAt := now\<rparr>"

definition update_classroom ::
  "nat \<Rightarrow> db \<Rightarrow> string \<Rightarrow> ClassroomUpdate \<Rightarrow> user \<Rightarrow> error + db \<times> classroom" where
  "update_classroom now s ident data u =
     (case find_one (\<lambda>c. c_id c = ident) (classrooms s) of
        None \<Rightarrow> Inl (HTTPException 404 ''Classroom not found'')
      | Some classroom \<Rightarrow>
          if c_teacherId classroom \<noteq> u_id u
          then Inl (HTTPException 403 ''Not authorized'')
          else
            let s' = (if \<not> (cu_name data = None \<and> cu_description data = None
                             \<and> cu_subject data = None \<and> cu_coverImage data = None
                             \<and> cu_isActive data = None)
                      then s\<lparr>classrooms := update_one (\<lambda>c. c_id c = ident)
                                (set_classroom data now) (classrooms s)\<rparr>
                      else s)
            in (case find_one (\<lambda>c. c_id c = ident) (classrooms s') of
                  None \<Rightarrow> Inl TypeError
                | Some updated \<Rightarrow> Inr (s', updated)))"

text \<open>
  \<^verbatim>\<open>delete_classroom\<close> issues three writes in this order; \<open>delete_classroom_writes\<close> is
  the database after each of them.
\<close>

definition delete_classroom_writes :: "db \<Rightarrow> string \<Rightarrow> db list" where
  "delete_classroom_writes s ident =
     (let s1 = s\<lparr>enrollments := delete_many (\<lambda>e. e_classroomId e = ident) (enrollments s)\<rparr>;
          s2 = s1\<lparr>materials := delete_many (\<lambda>m. m_classroomId m = ident) (materials s1)\<rparr>;
          s3 = s2\<lparr>classrooms := delete_one (\<lambda>c. c_id c = ident) (classrooms s2)\<rparr>
      in [s1, s2, s3])"

definition delete_classroom :: "db \<Rightarrow> string \<Rightarrow> user \<Rightarrow> error + db" where
  "delete_classroom s ident u =
     (case find_one (\<lambda>c. c_id c = ident) (classrooms s) of
        None \<Rightarrow> Inl (HTTPException 404 ''Classroom not found'')
      | Some classroom \<Rightarrow>
          if c_teacherId classroom \<noteq> u_id u
          then Inl (HTTPException 403 ''Not authorized'')
          else Inr (last (delete_classroom_writes s ident)))"

text \<open>
  \<^verbatim>\<open>str.upper\<close>. A string is its UTF-8 bytes. On a string of ASCII characters
  \<^verbatim>\<open>str.upper\<close> maps the letters a to z to A to Z and keeps every other character. On any
  other string it is Python's Unicode case mapping, which is not part of this program and
  can change the length of the string (the sharp s becomes SS): it is the parameter
  \<open>unicode_upper\<close>.
\<close>

definition upper_char :: "char \<Rightarrow> char" where
  "upper_char c =
     (let n = (of_char c :: nat) in if 97 \<le> n \<and> n \<le> 122 then char_of (n - 32) else c)"

definition is_ascii :: "char \<Rightarrow> bool" where
  "is_ascii c \<longleftrightarrow> (of_char c :: nat) < 128"

definition upper :: "(string \<Rightarrow> string) \<Rightarrow> string \<Rightarrow> string" where
  "upper unicode_upper str =
     (if list_all is_ascii str then map upper_char str else unicode_upper str)"

definition join_classroom ::
  "(string \<Rightarrow> string) \<Rightarrow> nat \<Rightarrow> string \<Rightarrow> db \<Rightarrow> string \<Rightarrow> user
     \<Rightarrow> error + db \<times> classroom" where
  "join_classroom unicode_upper now enrollment_id s code u =
     (if u_role u \<noteq> STUDENT
      then Inl (HTTPException 403 ''Only students can join classrooms'')
      else
        case find_one (\<lambda>c. c_code c = upper unicode_upper code) (classrooms s) of
          None \<Rightarrow> Inl (HTTPException 404 ''Invalid classroom code'')
        | Some classroom \<Rightarrow>
            if \<not> c_isActive classroom
            then Inl (HTTPException 400 ''Classroom is not active'')
            else if find_one (\<lambda>e. e_studentId e = u_id u \<and> e_classroomId e = c_id classroom)
                      (enrollments s) \<noteq> None
            then Inl (HTTPException 400 ''Already enrolled in this classroom'')
            else
              (case insert_enrollment
                      \<lparr>e_id = enrollment_id, e_studentId = u_id u,
                       e_classroomId = c_id classroom, e_joinedAt = now\<rparr> s of
                 Inl e \<Rightarrow> Inl e
               | Inr s' \<Rightarrow> Inr (s', classroom)))"

definition leave_classroom :: "db \<Rightarrow> string \<Rightarrow> user \<Rightarrow> error + db" where
  "leave_classroom s ident u =
     (if u_role u \<noteq> STUDENT
      then Inl (HTTPException 403 ''Only students can leave classrooms'')
      else
        let q = (\<lambda>e. e_studentId e = u_id u \<and> e_classroomId e = ident)
        in if deleted_count q (enrollments s) = 0
           then Inl (HTTPException 404 ''Not enrolled in this classroom'')
           else Inr (s\<lparr>enrollments := delete_one q (enrollments s)\<rparr>))"

section \<open>Material routes\<close>

text \<open>A material of a response: the document and its creator's id and name when found.\<close>

type_synonym material_view = "material \<times> (string \<times> string) option"

definition creator_summary :: "user \<Rightarrow> string \<times> string" where
  "creator_summary c = (u_id c, u_name c)"

definition enrich_material :: "db \<Rightarrow> material \<Rightarrow> material_view" where
  "enrich_material s m =
     (m, map_option creator_summary (find_one (\<lambda>u. u_id u = m_createdById m) (users s)))"

text \<open>
  The query of \<^verbatim>\<open>get_materials\<close>: the classroom's materials, for a student the published
  ones only, \<^verbatim>\<open>.sort("order", 1).to_list(100)\<close>.
\<close>

definition materials_query :: "db \<Rightarrow> string \<Rightarrow> user \<Rightarrow> material list" where
  "materials_query s classroomId u =
     take 100 (sort_key m_order
       (filter (\<lambda>m. m_classroomId m = classroomId
                      \<and> (if u_role u = STUDENT then m_isPublished m = True else True))
          (materials s)))"

definition get_materials :: "db \<Rightarrow> string \<Rightarrow> user \<Rightarrow> error + material_view list" where
  "get_materials s classroomId u =
     (case find_one (\<lambda>c. c_id c = classroomId) (classrooms s) of
        None \<Rightarrow> Inl (HTTPException 404 ''Classroom not found'')
      | Some classroom \<Rightarrow>
          if u_role u = TEACHER
          then (if c_teacherId classroom \<noteq> u_id u
                then Inl (HTTPException 403 ''Not authorized'')
                else Inr (map (enrich_material s) (materials_query s classroomId u)))
          else (if find_one (\<lambda>e. e_studentId e = u_id u \<and> e_classroomId e = classroomId)
                     (enrollments s) = None
                then Inl (HTTPException 403 ''Not enrolled'')
                else Inr (map (enrich_material s) (materials_query s classroomId u))))"

text \<open>
  \<^verbatim>\<open>get_material\<close> reads \<^verbatim>\<open>classroom["teacherId"]\<close> in the teacher branch without a
  test that the classroom was found: on \<^verbatim>\<open>None\<close> Python raises \<^verbatim>\<open>TypeError\<close>.
\<close>

definition get_material :: "db \<Rightarrow> string \<Rightarrow> user \<Rightarrow> error + material_view" where
  "get_material s ident u =
     (case find_one (\<lambda>m. m_id m = ident) (materials s) of
        None \<Rightarrow> Inl (HTTPException 404 ''Material not found'')
      | Some material \<Rightarrow>
          let classroom = find_one (\<lambda>c. c_id c = m_classroomId material) (classrooms s)
          in if u_role u = TEACHER
             then (case classroom of
                     None \<Rightarrow> Inl TypeError
                   | Some c \<Rightarrow>
                       if c_teacherId c \<noteq> u_id u
                       then Inl (HTTPException 403 ''Not authorized'')
                       else Inr (enrich_material s material))
             else (if find_one (\<lambda>e. e_studentId e = u_id u
                                     \<and> e_classroomId e = m_classroomId material)
                        (enrollments s) = None
                      \<or> \<not> m_isPublished material
                   then Inl (HTTPException 403 ''Not authorized'')
                   else Inr (enrich_material s material)))"

text \<open>
  \<^verbatim>\<open>find_one(filter, sort=[("order", -1)])\<close>: the first document of the matches in
  descending order.
\<close>

definition find_one_order_desc :: "(material \<Rightarrow> bool) \<Rightarrow> material list \<Rightarrow> material option" where
  "find_one_order_desc P ms =
     (case sort_key (\<lambda>m. - m_order m) (filter P ms) of [] \<Rightarrow> None | m # _ \<Rightarrow> Some m)"

definition create_material ::
  "nat \<Rightarrow> string \<Rightarrow> db \<Rightarrow> string \<Rightarrow> MaterialCreate \<Rightarrow> user \<Rightarrow> error + db \<times> material_view" where
  "create_material now material_id s classroomId data u =
     (case find_one (\<lambda>c. c_id c = classroomId) (classrooms s) of
        None \<Rightarrow> Inl (HTTPException 404 ''Classroom not found'')
      | Some classroom \<Rightarrow>
          if c_teacherId classroom \<noteq> u_id u
          then Inl (HTTPException 403 ''Not authorized'')
          else if mc_type data \<notin> set [TEXT, FILE, VIDEO, MODEL3D]
          then Inl (HTTPException 400 ''Invalid material type'')
          else
            let next_order =
                  (case find_one_order_desc (\<lambda>m. m_classroomId m = classroomId) (materials s) of
                     None \<Rightarrow> 1
                   | Some last_material \<Rightarrow> m_order last_material + 1);
                material_doc =
                  \<lparr>m_id = material_id, m_title = mc_title data,
                   m_description = mc_description data, m_type = mc_type data,
                   m_content = mc_content data, m_fileUrl = mc_fileUrl data,
                   m_fileName = mc_fileName data, m_videoUrl = mc_videoUrl data,
                   m_modelUrl = mc_modelUrl data,
                   m_arEnabled = (case mc_arEnabled data of None \<Rightarrow> True | Some v \<Rightarrow> v),
                   m_modelScale = (case mc_modelScale data of None \<Rightarrow> 1.0 | Some v \<Rightarrow> v),
                   m_order = next_order,
                   m_isPublished = (case mc_isPublished data of None \<Rightarrow> True | Some v \<Rightarrow> v),
                   m_classroomId = classroomId, m_createdById = u_id u,
                   m_createdAt = now, m_updatedAt = now\<rparr>
            in (case insert_material material_doc s of
                  Inl e \<Rightarrow> Inl e
                | Inr s' \<Rightarrow> Inr (s', material_doc, Some (creator_summary u))))"

definition set_material :: "MaterialUpdate \<Rightarrow> nat \<Rightarrow> material \<Rightarrow> material" where
  "set_material data now m =
     m\<lparr>m_title := (case mu_title data of None \<Rightarrow> m_title m | Some v \<Rightarrow> v),
       m_description := (case mu_description data of None \<Rightarrow> m_description m | Some v \<Rightarrow> Some v),
       m_type := (case mu_type data of None \<Rightarrow> m_type m | Some v \<Rightarrow> v),
       m_content := (case mu_content data of None \<Rightarrow> m_content m | Some v \<Rightarrow> Some v),
       m_fileUrl := (case mu_fileUrl data of None \<Rightarrow> m_fileUrl m | Some v \<Rightarrow> Some v),
       m_fileName := (case mu_fileName data of None \<Rightarrow> m_fileName m | Some v \<Rightarrow> Some v),
       m_videoUrl := (case mu_videoUrl data of None \<Rightarrow> m_videoUrl m | Some v \<Rightarrow> Some v),
       m_modelUrl := (case mu_modelUrl data of None \<Rightarrow> m_modelUrl m | Some v \<Rightarrow> Some v),
       m_arEnabled := (case mu_arEnabled data of None \<Rightarrow> m_arEnabled m | Some v \<Rightarrow> v),
       m_modelScale := (case mu_modelScale data of None \<Rightarrow> m_modelScale m | Some v \<Rightarrow> v),
       m_isPublished := (case mu_isPublished data of None \<Rightarrow> m_isPublished m | Some v \<Rightarrow> v),
       m_order := (case mu_order data of None \<Rightarrow> m_order m | Some v \<Rightarrow> v),
       m_updatedAt := now\<rparr>"

definition update_data_empty :: "MaterialUpdate \<Rightarrow> bool" where
  "update_data_empty data \<longleftrightarrow>
     mu_title data = None \<and> mu_description data = None \<and> mu_type data = None
     \<and> mu_content data = None \<and> mu_fileUrl data = None \<and> mu_fileName data = None
     \<and> mu_videoUrl data = None \<and> mu_modelUrl data = None \<and> mu_arEnabled data = None
     \<and> mu_modelScale data = None \<and> mu_isPublished data = None \<and> mu_order data = None"

text \<open>
  An \<^verbatim>\<open>order\<close> of the update outside the 64-bit range makes \<^verbatim>\<open>update_one\<close> raise
  \<^verbatim>\<open>OverflowError\<close> when it encodes the \<^verbatim>\<open>$set\<close> document.
\<close>

definition order_overflows :: "int option \<Rightarrow> bool" where
  "order_overflows v = (case v of None \<Rightarrow> False | Some k \<Rightarrow> \<not> int64 k)"

definition update_material ::
  "nat \<Rightarrow> db \<Rightarrow> string \<Rightarrow> MaterialUpdate \<Rightarrow> user \<Rightarrow> error + db \<times> material_view" where
  "update_material now s ident data u =
     (case find_one (\<lambda>m. m_id m = ident) (materials s) of
        None \<Rightarrow> Inl (HTTPException 404 ''Material not found'')
      | Some material \<Rightarrow>
          (case find_one (\<lambda>c. c_id c = m_classroomId material) (classrooms s) of
             None \<Rightarrow> Inl TypeError
           | Some classroom \<Rightarrow>
               if c_teacherId classroom \<noteq> u_id u
               then Inl (HTTPException 403 ''Not authorized'')
               else if order_overflows (mu_order data)
               then Inl OverflowError
               else
                 let s' = (if \<not> update_data_empty data
                           then s\<lparr>materials := update_one (\<lambda>m. m_id m = ident)
                                     (set_material data now) (materials s)\<rparr>
                           else s)
                 in (case find_one (\<lambda>m. m_id m = ident) (materials s') of
                       None \<Rightarrow> Inl TypeError
                     | Some updated \<Rightarrow> Inr (s', enrich_material s' updated))))"

definition delete_material :: "db \<Rightarrow> string \<Rightarrow> user \<Rightarrow> error + db" where
  "delete_material s ident u =
     (case find_one (\<lambda>m. m_id m = ident) (materials s) of
        None \<Rightarrow> Inl (HTTPException 404 ''Material not found'')
      | Some material \<Rightarrow>
          (case find_one (\<lambda>c. c_id c = m_classroomId material) (classrooms s) of
             None \<Rightarrow> Inl TypeError
           | Some classroom \<Rightarrow>
               if c_teacherId classroom \<noteq> u_id u
               then Inl (HTTPException 403 ''Not authorized'')
               else Inr (s\<lparr>materials := delete_one (\<lambda>m. m_id m = ident) (materials s)\<rparr>)))"

text \<open>The loop of \<^verbatim>\<open>reorder_materials\<close> over \<^verbatim>\<open>enumerate(data.materialIds)\<close>.\<close>

fun reorder_loop :: "nat \<Rightarrow> string list \<Rightarrow> material list \<Rightarrow> material list" where
  "reorder_loop index [] ms = ms"
| "reorder_loop index (material_id # rest) ms =
     reorder_loop (index + 1) rest
       (update_one (\<lambda>m. m_id m = material_id) (\<lambda>m. m\<lparr>m_order := int index + 1\<rparr>) ms)"

definition reorder_materials :: "db \<Rightarrow> string \<Rightarrow> string list \<Rightarrow> user \<Rightarrow> error + db" where
  "reorder_materials s classroomId materialIds u =
     (case find_one (\<lambda>c. c_id c = classroomId) (classrooms s) of
        None \<Rightarrow> Inl (HTTPException 404 ''Classroom not found'')
      | Some classroom \<Rightarrow>
          if c_teacherId classroom \<noteq> u_id u
          then Inl (HTTPException 403 ''Not authorized'')
          else Inr (s\<lparr>materials := reorder_loop 0 materialIds (materials s)\<rparr>))"

section \<open>Reachable databases\<close>

text \<open>
  One step is one successful mutating request. Every route but \<^verbatim>\<open>register\<close> receives
  its user from \<^verbatim>\<open>get_current_user\<close>. The routes that only read leave the database as
  it is and are no steps. The secret is fixed for the process.
\<close>

inductive step :: "string \<Rightarrow> db \<Rightarrow> db \<Rightarrow> bool" for secret :: string where
  step_register:
    "register secret now user_id salt s ucreate = Inr (s', resp) \<Longrightarrow> step secret s s'"
| step_update_profile:
    "get_current_user secret now s tok = Inr u \<Longrightarrow>
     update_profile now s uupdate u = Inr (s', uresp) \<Longrightarrow> step secret s s'"
| step_change_password:
    "get_current_user secret now s tok = Inr u \<Longrightarrow>
     change_password now salt s pchange u = Inr s' \<Longrightarrow> step secret s s'"
| step_create_classroom:
    "get_current_user secret now s tok = Inr u \<Longrightarrow>
     create_classroom now classroom_id rnd s ccreate u = Some (Inr (s', cview)) \<Longrightarrow>
     step secret s s'"
| step_update_classroom:
    "get_current_user secret now s tok = Inr u \<Longrightarrow>
     update_classroom now s ident cupdate u = Inr (s', c) \<Longrightarrow> step secret s s'"
| step_delete_classroom:
    "get_current_user secret now s tok = Inr u \<Longrightarrow>
     delete_classroom s ident u = Inr s' \<Longrightarrow> step secret s s'"
| step_join_classroom:
    "get_current_user secret now s tok = Inr u \<Longrightarrow>
     join_classroom unicode_upper now enrollment_id s code u = Inr (s', c) \<Longrightarrow>
     step secret s s'"
| step_leave_classroom:
    "get_current_user secret now s tok = Inr u \<Longrightarrow>
     leave_classroom s ident u = Inr s' \<Longrightarrow> step secret s s'"
| step_create_material:
    "get_current_user secret now s tok = Inr u \<Longrightarrow>
     create_material now material_id s classroomId mcreate u = Inr (s', mview) \<Longrightarrow>
     step secret s s'"
| step_update_material:
    "get_current_user secret now s tok = Inr u \<Longrightarrow>
     update_material now s ident mupdate u = Inr (s', mview) \<Longrightarrow> step secret s s'"
| step_delete_material:
    "get_current_user secret now s tok = Inr u \<Longrightarrow>
     delete_material s ident u = Inr s' \<Longrightarrow> step secret s s'"
| step_reorder_materials:
    "get_current_user secret now s tok = Inr u \<Longrightarrow>
     reorder_materials s classroomId materialIds u = Inr s' \<Longrightarrow> step secret s s'"

inductive reachable :: "string \<Rightarrow> db \<Rightarrow> bool" for secret :: string where
  reachable_empty: "reachable secret empty_db"
| reachable_step: "reachable secret s \<Longrightarrow> step secret s s' \<Longrightarrow> reachable secret s'"

text \<open>The constraints of the unique indexes, as a predicate of the database.\<close>

definition indexes_ok :: "db \<Rightarrow> bool" where
  "indexes_ok s \<longleftrightarrow>
     distinct (map u_id (users s)) \<and> distinct (map u_email (users s))
     \<and> distinct (map c_id (classrooms s)) \<and> distinct (map c_code (classrooms s))
     \<and> distinct (map e_id (enrollments s))
     \<and> distinct (map (\<lambda>e. (e_studentId e, e_classroomId e)) (enrollments s))
     \<and> distinct (map m_id (materials s))"

text \<open>A well-formed classroom code: six characters of the uppercase letters and digits.\<close>

definition valid_code :: "string \<Rightarrow> bool" where
  "valid_code code \<longleftrightarrow> length code = 6 \<and> list_all (\<lambda>ch. ch \<in> set code_alphabet) code"

text \<open>Every stored code is well-formed.\<close>

definition codes_ok :: "db \<Rightarrow> bool" where
  "codes_ok s \<longleftrightarrow> list_all (\<lambda>c. valid_code (c_code c)) (classrooms s)"

text \<open>Example data: a teacher who registers and creates two classrooms with the same generator.\<close>

definition ex_secret :: string where "ex_secret = ''key''"

definition ex_teacher :: user where
  "ex_teacher = \<lparr>u_id = ''t1'', u_email = ''t@x'', u_password = BcryptHash ''na'' ''pw'',
     u_name = ''T'', u_role = TEACHER, u_avatar = None, u_createdAt = 0, u_updatedAt = 0\<rparr>"

definition ex_teacher_token :: token where
  "ex_teacher_token = create_token ex_secret 0 ''t1'' ''t@x'' TEACHER"

definition ex_classroom1 :: classroom where
  "ex_classroom1 = \<lparr>c_id = ''c1'', c_name = ''Biology 101'', c_description = None,
     c_subject = ''Science'', c_code = ''ABCDEF'', c_coverImage = None, c_isActive = True,
     c_teacherId = ''t1'', c_createdAt = 1, c_updatedAt = 1\<rparr>"

definition ex_classroom2 :: classroom where
  "ex_classroom2 = ex_classroom1\<lparr>c_id := ''c2'', c_code := ''GHIJKL''\<rparr>"

definition ex_cc :: ClassroomCreate where
  "ex_cc = \<lparr>cc_name = ''Biology 101'', cc_description = None, cc_subject = ''Science'',
     cc_coverImage = None\<rparr>"

definition ex_db1 :: db where
  "ex_db1 = \<lparr>users = [ex_teacher], classrooms = [], enrollments = [], materials = []\<rparr>"

definition ex_db2 :: db where
  "ex_db2 = ex_db1\<lparr>classrooms := [ex_classroom1]\<rparr>"

definition ex_db3 :: db where
  "ex_db3 = ex_db1\<lparr>classrooms := [ex_classroom1, ex_classroom2]\<rparr>"

text \<open>
  The lowercase form of an ASCII string, to state what a lowercase code is: A to Z become
  a to z.
\<close>

definition lower_char :: "char \<Rightarrow> char" where
  "lower_char c =
     (let n = (of_char c :: nat) in if 65 \<le> n \<and> n \<le> 90 then char_of (n + 32) else c)"

definition lower :: "string \<Rightarrow> string" where
  "lower str = map lower_char str"

text \<open>Example data: a Unicode case mapping for the examples (no example code needs it).\<close>

definition ex_up :: "string \<Rightarrow> string" where
  "ex_up str = str"

definition enrolled :: "db \<Rightarrow> string \<Rightarrow> string \<Rightarrow> bool" where
  "enrolled s student_id classroom_id \<longleftrightarrow>
     (student_id, classroom_id) \<in> set (map (\<lambda>e. (e_studentId e, e_classroomId e)) (enrollments s))"

definition ex_student_a :: user where
  "ex_student_a = \<lparr>u_id = ''s1'', u_email = ''a@x'', u_password = BcryptHash ''na'' ''pw'',
     u_name = ''A'', u_role = STUDENT, u_avatar = None, u_createdAt = 2, u_updatedAt = 2\<rparr>"

definition ex_student_b :: user where
  "ex_student_b = ex_student_a\<lparr>u_id := ''s2'', u_email := ''b@x'', u_name := ''B''\<rparr>"

definition ex_enrollment_a :: enrollment where
  "ex_enrollment_a = \<lparr>e_id = ''e1'', e_studentId = ''s1'', e_classroomId = ''c1'', e_joinedAt = 5\<rparr>"

definition ex_db_join :: db where
  "ex_db_join = \<lparr>users = [ex_teacher, ex_student_a, ex_student_b],
     classrooms = [ex_classroom1], enrollments = [], materials = []\<rparr>"

definition ex_db_joined :: db where
  "ex_db_joined = ex_db_join\<lparr>enrollments := [ex_enrollment_a]\<rparr>"

definition ex_db_inactive :: db where
  "ex_db_inactive = ex_db_join\<lparr>classrooms := [ex_classroom1\<lparr>c_isActive := False\<rparr>]\<rparr>"

definition ex_material1 :: material where
  "ex_material1 = \<lparr>m_id = ''m1'', m_title = ''Cells'', m_description = None, m_type = TEXT,
     m_content = Some ''text'', m_fileUrl = None, m_fileName = None, m_videoUrl = None,
     m_modelUrl = None, m_arEnabled = True, m_modelScale = 1, m_order = 1,
     m_isPublished = True, m_classroomId = ''c1'', m_createdById = ''t1'',
     m_createdAt = 3, m_updatedAt = 3\<rparr>"

definition ex_material2 :: material where
  "ex_material2 = ex_material1\<lparr>m_id := ''m2'', m_title := ''Draft'', m_order := 2,
     m_isPublished := False\<rparr>"

definition ex_material3 :: material where
  "ex_material3 = ex_material1\<lparr>m_id := ''m3'', m_title := ''Skeleton'', m_order := 3\<rparr>"

definition ex_db_mat :: db where
  "ex_db_mat = \<lparr>users = [ex_teacher, ex_student_a, ex_student_b],
     classrooms = [ex_classroom1], enrollments = [ex_enrollment_a],
     materials = [ex_material1, ex_material2, ex_material3]\<rparr>"

definition ex_db_deleted :: db where
  "ex_db_deleted = \<lparr>users = [ex_teacher, ex_student_a, ex_student_b],
     classrooms = [], enrollments = [], materials = []\<rparr>"

definition ex_mc :: MaterialCreate where
  "ex_mc = \<lparr>mc_title = ''Skeleton'', mc_description = None, mc_type = MODEL3D,
     mc_content = None, mc_fileUrl = None, mc_fileName = None, mc_videoUrl = None,
     mc_modelUrl = Some ''skeleton.glb'', mc_arEnabled = None, mc_modelScale = None,
     mc_isPublished = None\<rparr>"

text \<open>The order \<^verbatim>\<open>create_material\<close> is claimed to assign: the greatest order of the classroom plus 1, or 1.\<close>

definition next_order :: "db \<Rightarrow> string \<Rightarrow> int" where
  "next_order s classroomId =
     (if filter (\<lambda>m. m_classroomId m = classroomId) (materials s) = [] then 1
      else Max (set (map m_order (filter (\<lambda>m. m_classroomId m = classroomId) (materials s)))) + 1)"

text \<open>
  Example data: the classroom of \<open>ex_db2\<close> after its teacher has created \<open>n\<close> text
  materials, the 101st of them unpublished.
\<close>

definition ex_bulk :: "nat \<Rightarrow> material" where
  "ex_bulk i = ex_material1\<lparr>m_id := replicate i (CHR ''x''), m_order := int i,
     m_isPublished := (i \<noteq> 101)\<rparr>"

definition ex_bulk_create :: "nat \<Rightarrow> MaterialCreate" where
  "ex_bulk_create i = \<lparr>mc_title = ''Cells'', mc_description = None, mc_type = TEXT,
     mc_content = Some ''text'', mc_fileUrl = None, mc_fileName = None, mc_videoUrl = None,
     mc_modelUrl = None, mc_arEnabled = None, mc_modelScale = None,
     mc_isPublished = Some (i \<noteq> 101)\<rparr>"

definition ex_db_bulk :: "nat \<Rightarrow> db" where
  "ex_db_bulk n = ex_db2\<lparr>materials := map ex_bulk [1..<Suc n]\<rparr>"

text \<open>Example data: the database of the example with its classroom document removed.\<close>

definition ex_db_orphan :: db where
  "ex_db_orphan = ex_db_mat\<lparr>classrooms := []\<rparr>"

definition ex_mu :: MaterialUpdate where
  "ex_mu = \<lparr>mu_title = Some ''Cells and tissues'', mu_description = None, mu_type = None,
     mu_content = None, mu_fileUrl = None, mu_fileName = None, mu_videoUrl = None,
     mu_modelUrl = None, mu_arEnabled = None, mu_modelScale = None, mu_isPublished = None,
     mu_order = None\<rparr>"

text \<open>
  The orders of the materials of a classroom, and their density: they are the numbers
  1 to N, each once, for the N materials of the classroom.
\<close>

definition classroom_orders :: "db \<Rightarrow> string \<Rightarrow> int list" where
  "classroom_orders s cid = map m_order (filter (\<lambda>m. m_classroomId m = cid) (materials s))"

definition dense_orders :: "db \<Rightarrow> string \<Rightarrow> bool" where
  "dense_orders s cid \<longleftrightarrow>
     distinct (classroom_orders s cid)
     \<and> set (classroom_orders s cid) = set (map int [1..<Suc (length (classroom_orders s cid))])"

text \<open>The position of the first occurrence of a value in a list.\<close>

fun position :: "'a list \<Rightarrow> 'a \<Rightarrow> nat" where
  "position [] k = 0"
| "position (x # xs) k = (if x = k then 0 else Suc (position xs k))"

text \<open>Example data: two materials are created and the first is deleted.\<close>

definition ex_db_gap :: db where
  "ex_db_gap = ex_db2\<lparr>materials := [ex_bulk 2]\<rparr>"

text \<open>
  Example data: an update of the order alone to the greatest signed 64-bit integer, and
  the classroom of \<open>ex_db2\<close> after its teacher has created one material and given it
  that order.
\<close>

definition ex_mu_max :: MaterialUpdate where
  "ex_mu_max = ex_mu\<lparr>mu_title := None, mu_order := Some 9223372036854775807\<rparr>"

definition ex_db_max :: db where
  "ex_db_max = ex_db2\<lparr>materials := [set_material ex_mu_max 9 (ex_bulk 1)]\<rparr>"

section \<open>Facts about the collection primitives and the unique indexes\<close>

lemma find_one_Some_mem: "find_one P xs = Some x \<Longrightarrow> x \<in> set xs \<and> P x"
  by (auto simp: find_one_def find_Some_iff)

lemma find_one_None_iff: "find_one P xs = None \<longleftrightarrow> (\<forall>x\<in>set xs. \<not> P x)"
  by (auto simp: find_one_def find_None_iff)

lemma map_update_one: "(\<And>x. g (f x) = g x) \<Longrightarrow> map g (update_one P f xs) = map g xs"
  by (induction xs) auto

lemma set_delete_one: "set (delete_one P xs) \<subseteq> set xs"
  by (induction xs) auto

lemma distinct_map_delete_one: "distinct (map g xs) \<Longrightarrow> distinct (map g (delete_one P xs))"
proof (induction xs)
  case Nil
  then show ?case by simp
next
  case (Cons x xs)
  then show ?case using set_delete_one [of P xs] by auto
qed

lemma distinct_map_delete_many: "distinct (map g xs) \<Longrightarrow> distinct (map g (delete_many P xs))"
  by (simp add: delete_many_def distinct_map_filter)

lemma map_reorder_loop: "(\<And>m v. g (m\<lparr>m_order := v\<rparr>) = g m) \<Longrightarrow> map g (reorder_loop i ids ms) = map g ms"
  by (induction i ids ms rule: reorder_loop.induct) (simp_all add: map_update_one)

lemma get_current_user_mem: "get_current_user secret now s tok = Inr u \<Longrightarrow> u \<in> set (users s)"
  by (auto simp: get_current_user_def split: sum.splits jwt_error.splits option.splits dest: find_one_Some_mem)

lemma step_indexes_ok: "step secret s s' \<Longrightarrow> indexes_ok s \<Longrightarrow> indexes_ok s'"
proof (induction rule: step.induct)
  case (step_register now user_id salt s ucreate s' resp)
  then show ?case
    by (auto simp: register_def insert_user_def indexes_ok_def Let_def split: if_splits sum.splits)
next
  case (step_update_profile now s tok u uupdate s' uresp)
  then show ?case
    by (auto simp: update_profile_def indexes_ok_def Let_def map_update_one set_user_def split: if_splits option.splits)
next
  case (step_change_password now s tok u salt pchange s')
  then show ?case 
    by (auto simp: change_password_def indexes_ok_def map_update_one split: if_splits)
next
  case (step_create_classroom now s tok u classroom_id rnd ccreate s' cview)
  then show ?case 
    by (auto simp: create_classroom_def insert_classroom_def indexes_ok_def Let_def split: if_splits option.splits sum.splits)
next
  case (step_update_classroom now s tok u ident cupdate s' c)
  then show ?case 
    by (auto simp: update_classroom_def indexes_ok_def Let_def map_update_one set_classroom_def split: if_splits option.splits)
next
  case (step_delete_classroom now s tok u ident s')
  then show ?case
    by (auto simp: delete_classroom_def delete_classroom_writes_def indexes_ok_def Let_def distinct_map_delete_one distinct_map_delete_many split: if_splits option.splits)
next
  case (step_join_classroom now s tok u unicode_upper enrollment_id code s' c)
  then show ?case
    by (auto simp: join_classroom_def insert_enrollment_def indexes_ok_def split: if_splits option.splits sum.splits)
next
  case (step_leave_classroom now s tok u ident s')
  then show ?case
    by (auto simp: leave_classroom_def indexes_ok_def Let_def distinct_map_delete_one split: if_splits)
next
  case (step_create_material now s tok u material_id classroomId mcreate s' mview)
  then show ?case
    by (auto simp: create_material_def insert_material_def indexes_ok_def Let_def split: if_splits option.splits sum.splits)
next
  case (step_update_material now s tok u ident mupdate s' mview)
  then show ?case
    by (auto simp: update_material_def indexes_ok_def Let_def map_update_one set_material_def split: if_splits option.splits)
next
  case (step_delete_material now s tok u ident s')
  then show ?case
    by (auto simp: delete_material_def indexes_ok_def distinct_map_delete_one split: if_splits option.splits)
next
  case (step_reorder_materials now s tok u classroomId materialIds s')
  then show ?case
    by (auto simp: reorder_materials_def indexes_ok_def map_reorder_loop split: if_splits option.splits)
qed

lemma reachable_indexes_ok: "reachable secret s \<Longrightarrow> indexes_ok s"
proof (induction rule: reachable.induct)
  case reachable_empty
  show ?case by (simp add: indexes_ok_def empty_db_def)
next
  case (reachable_step s s')
  from reachable_step(2) reachable_step(3) show ?case by (rule step_indexes_ok)
qed

section \<open>Profile update\<close>

text \<open>
  Claim C8. \<^verbatim>\<open>update_profile\<close> is claimed to apply every provided field, a provided name
  regardless of its value. The code tests the name for truthiness, so the provided empty
  name is dropped: with an empty name and no avatar nothing is written (neither the name
  nor \<^verbatim>\<open>updatedAt\<close>), the database is returned as it was and the response carries the
  stored user.
\<close>

theorem update_profile_empty_name_dropped:
  "update_profile now s \<lparr>uu_name = Some [], uu_avatar = None\<rparr> u =
     (case find_one (\<lambda>x. u_id x = u_id u) (users s) of
        None \<Rightarrow> Inl TypeError
      | Some stored \<Rightarrow> Inr (s, user_response stored))"
  by (simp add: update_profile_def truthy_def)

section \<open>Classroom codes\<close>

lemma find_one_key_None_iff:
  "find_one (\<lambda>x. g x = k) xs = None \<longleftrightarrow> k \<notin> set (map g xs)"
  by (induction xs) (auto simp: find_one_def)

lemma length_code_alphabet: "length code_alphabet = 36"
  by (simp add: code_alphabet_def)

lemma valid_generate_code: "valid_code (generate_code rnd pos 6)"
  unfolding valid_code_def generate_code_def
  by (simp add: list_all_iff length_code_alphabet)

lemma unique_code_Some:
  assumes "unique_code rnd pos cs = Some code"
  shows "valid_code code \<and> code \<notin> set (map c_code cs)"
proof (rule unique_code.raw_induct
    [where P = "\<lambda>rnd pos cs code. valid_code code \<and> code \<notin> set (map c_code cs)", OF _ assms])
  fix f rnd pos cs code
  assume IH: "\<And>rnd pos cs code. f rnd pos cs = Some code \<Longrightarrow>
                 valid_code code \<and> code \<notin> set (map c_code cs)"
    and body: "(let code = generate_code rnd pos 6
                in if find_one (\<lambda>c. c_code c = code) cs \<noteq> None
                   then f rnd (pos + 6) cs else Some code) = Some code"
  show "valid_code code \<and> code \<notin> set (map c_code cs)"
  proof (cases "find_one (\<lambda>c. c_code c = generate_code rnd pos 6) cs = None")
    case True
    with body have "code = generate_code rnd pos 6" by (simp add: Let_def)
    with True show ?thesis by (simp add: valid_generate_code find_one_key_None_iff)
  next
    case False
    with body have "f rnd (pos + 6) cs = Some code" by (simp add: Let_def)
    then show ?thesis by (rule IH)
  qed
qed

lemma unique_code_terminates:
  "generate_code rnd (pos + 6 * k) 6 \<notin> set (map c_code cs) \<Longrightarrow>
     \<exists>code. unique_code rnd pos cs = Some code"
proof (induction k arbitrary: pos)
  case 0
  then have "find_one (\<lambda>c. c_code c = generate_code rnd pos 6) cs = None"
    by (simp add: find_one_key_None_iff)
  then show ?case
    by (subst unique_code.simps) (simp add: Let_def)
next
  case (Suc k)
  from Suc.prems have "generate_code rnd ((pos + 6) + 6 * k) 6 \<notin> set (map c_code cs)"
    by (simp add: add.assoc)
  from Suc.IH [OF this] show ?case
    by (subst unique_code.simps) (auto simp: Let_def)
qed

lemma set_update_one: "set (update_one P f xs) \<subseteq> set xs \<union> f ` set xs"
  by (induction xs) auto

lemma step_classrooms_cases:
  assumes "step secret s s'"
  shows "classrooms s' = classrooms s
     \<or> (\<exists>doc. classrooms s' = classrooms s @ [doc]
            \<and> c_id doc \<notin> set (map c_id (classrooms s))
            \<and> c_code doc \<notin> set (map c_code (classrooms s))
            \<and> valid_code (c_code doc))
     \<or> (\<exists>ident data now. classrooms s' =
            update_one (\<lambda>c. c_id c = ident) (set_classroom data now) (classrooms s))
     \<or> (\<exists>ident. classrooms s' = delete_one (\<lambda>c. c_id c = ident) (classrooms s))"
  using assms
proof (cases rule: step.cases)
  case (step_register now user_id salt ucreate resp)
  then show ?thesis
    by (auto simp: register_def insert_user_def Let_def split: if_splits)
next
  case (step_update_profile now tok u uupdate uresp)
  then show ?thesis
    by (auto simp: update_profile_def Let_def split: if_splits option.splits)
next
  case (step_change_password now tok u salt pchange)
  then show ?thesis
    by (auto simp: change_password_def split: if_splits)
next
  case (step_create_classroom now tok u classroom_id rnd ccreate cview)
  from step_create_classroom(2) obtain code where
    code: "unique_code rnd 0 (classrooms s) = Some code"
    by (auto simp: create_classroom_def split: if_splits option.splits)
  from unique_code_Some [OF code] step_create_classroom(2) code show ?thesis
    by (auto simp: create_classroom_def insert_classroom_def Let_def split: if_splits)
next
  case (step_update_classroom now tok u ident cupdate c)
  then have "classrooms s' = classrooms s
      \<or> classrooms s' = update_one (\<lambda>c. c_id c = ident) (set_classroom cupdate now) (classrooms s)"
    by (auto simp: update_classroom_def Let_def split: if_splits option.splits)
  then show ?thesis by blast
next
  case (step_delete_classroom now tok u ident)
  then have "classrooms s' = delete_one (\<lambda>c. c_id c = ident) (classrooms s)"
    by (auto simp: delete_classroom_def delete_classroom_writes_def Let_def
        split: if_splits option.splits)
  then show ?thesis by blast
next
  case (step_join_classroom now tok u unicode_upper enrollment_id code c)
  then show ?thesis
    by (auto simp: join_classroom_def insert_enrollment_def split: if_splits option.splits)
next
  case (step_leave_classroom now tok u ident)
  then show ?thesis
    by (auto simp: leave_classroom_def Let_def split: if_splits)
next
  case (step_create_material now tok u material_id classroomId mcreate mview)
  then show ?thesis
    by (auto simp: create_material_def insert_material_def Let_def
        split: if_splits option.splits)
next
  case (step_update_material now tok u ident mupdate mview)
  then show ?thesis
    by (auto simp: update_material_def Let_def split: if_splits option.splits)
next
  case (step_delete_material now tok u ident)
  then show ?thesis
    by (auto simp: delete_material_def split: if_splits option.splits)
next
  case (step_reorder_materials now tok u classroomId materialIds)
  then show ?thesis
    by (auto simp: reorder_materials_def split: if_splits option.splits)
qed

lemma step_classroom_origin:
  assumes "step secret s s'" and "c' \<in> set (classrooms s')"
  shows "(\<exists>c\<in>set (classrooms s). c_id c = c_id c' \<and> c_code c = c_code c')
     \<or> (c_id c' \<notin> set (map c_id (classrooms s)) \<and> valid_code (c_code c')
          \<and> c_code c' \<notin> set (map c_code (classrooms s)))"
proof -
  from step_classrooms_cases [OF assms(1)]
  consider (same) "classrooms s' = classrooms s"
    | (new) doc where "classrooms s' = classrooms s @ [doc]"
        "c_id doc \<notin> set (map c_id (classrooms s))"
        "c_code doc \<notin> set (map c_code (classrooms s))" "valid_code (c_code doc)"
    | (upd) ident data now where
        "classrooms s' = update_one (\<lambda>c. c_id c = ident) (set_classroom data now) (classrooms s)"
    | (del) ident where "classrooms s' = delete_one (\<lambda>c. c_id c = ident) (classrooms s)"
    by blast
  then show ?thesis
  proof cases
    case same
    with assms(2) show ?thesis by auto
  next
    case new
    with assms(2) show ?thesis by auto
  next
    case upd
    with assms(2) set_update_one [of "\<lambda>c. c_id c = ident" "set_classroom data now" "classrooms s"]
    have "c' \<in> set (classrooms s) \<or> (\<exists>c\<in>set (classrooms s). c' = set_classroom data now c)"
      by auto
    then show ?thesis by (auto simp: set_classroom_def)
  next
    case del
    with assms(2) set_delete_one [of "\<lambda>c. c_id c = ident" "classrooms s"] show ?thesis
      by auto
  qed
qed

lemma step_codes_ok:
  assumes "step secret s s'" and "codes_ok s"
  shows "codes_ok s'"
  unfolding codes_ok_def list_all_iff
proof
  fix c' assume "c' \<in> set (classrooms s')"
  from step_classroom_origin [OF assms(1) this] assms(2)
  show "valid_code (c_code c')"
    by (auto simp: codes_ok_def list_all_iff)
qed

lemma reachable_codes_ok: "reachable secret s \<Longrightarrow> codes_ok s"
proof (induction rule: reachable.induct)
  case reachable_empty
  show ?case by (simp add: codes_ok_def empty_db_def)
next
  case (reachable_step s s')
  from reachable_step(2) reachable_step(3) show ?case by (rule step_codes_ok)
qed

lemma step_code_stable:
  assumes "step secret s s'" and "indexes_ok s"
    and "c \<in> set (classrooms s)" and "c' \<in> set (classrooms s')" and "c_id c' = c_id c"
  shows "c_code c' = c_code c"
proof -
  from step_classroom_origin [OF assms(1) assms(4)] assms(3) assms(5)
  obtain c0 where c0: "c0 \<in> set (classrooms s)" "c_id c0 = c_id c'" "c_code c0 = c_code c'"
    by force
  from assms(2) have "inj_on c_id (set (classrooms s))"
    by (simp add: indexes_ok_def distinct_map)
  with c0 assms(3) assms(5) have "c0 = c" by (auto dest: inj_onD)
  with c0 show ?thesis by simp
qed

lemma create_classroom_Some:
  assumes "create_classroom now classroom_id rnd s data u = Some (Inr (s', cv))"
  shows "valid_code (c_code (fst cv)) \<and> c_code (fst cv) \<notin> set (map c_code (classrooms s))
         \<and> classrooms s' = classrooms s @ [fst cv]"
proof -
  from assms obtain code where code: "unique_code rnd 0 (classrooms s) = Some code"
    by (auto simp: create_classroom_def split: if_splits option.splits)
  from unique_code_Some [OF code] assms code show ?thesis
    by (auto simp: create_classroom_def insert_classroom_def Let_def split: if_splits)
qed

lemma create_classroom_returns:
  assumes "generate_code rnd (6 * k) 6 \<notin> set (map c_code (classrooms s))"
  shows "create_classroom now classroom_id rnd s data u \<noteq> None"
proof -
  from assms have "generate_code rnd (0 + 6 * k) 6 \<notin> set (map c_code (classrooms s))" by simp
  from unique_code_terminates [OF this] show ?thesis
    by (auto simp: create_classroom_def Let_def)
qed

lemma unique_code_first_free:
  assumes "\<forall>j<k. generate_code rnd (pos + 6 * j) 6 \<in> set (map c_code cs)"
    and "generate_code rnd (pos + 6 * k) 6 \<notin> set (map c_code cs)"
  shows "unique_code rnd pos cs = Some (generate_code rnd (pos + 6 * k) 6)"
  using assms
proof (induction k arbitrary: pos)
  case 0
  then have "find_one (\<lambda>c. c_code c = generate_code rnd pos 6) cs = None"
    by (simp add: find_one_key_None_iff)
  then show ?case
    by (subst unique_code.simps) (simp add: Let_def)
next
  case (Suc k)
  from Suc.prems(1) have "generate_code rnd (pos + 6 * 0) 6 \<in> set (map c_code cs)" by blast
  then have hit: "find_one (\<lambda>c. c_code c = generate_code rnd pos 6) cs \<noteq> None"
    by (simp add: find_one_key_None_iff)
  have "\<forall>j<k. generate_code rnd ((pos + 6) + 6 * j) 6 \<in> set (map c_code cs)"
  proof (intro allI impI)
    fix j assume "j < k"
    then have "Suc j < Suc k" by simp
    with Suc.prems(1) have "generate_code rnd (pos + 6 * Suc j) 6 \<in> set (map c_code cs)"
      by blast
    then show "generate_code rnd ((pos + 6) + 6 * j) 6 \<in> set (map c_code cs)"
      by (simp add: add.assoc)
  qed
  moreover from Suc.prems(2)
  have "generate_code rnd ((pos + 6) + 6 * k) 6 \<notin> set (map c_code cs)"
    by (simp add: add.assoc)
  ultimately have "unique_code rnd (pos + 6) cs = Some (generate_code rnd ((pos + 6) + 6 * k) 6)"
    by (rule Suc.IH)
  with hit show ?case
    by (subst unique_code.simps) (simp add: Let_def add.assoc)
qed

lemma unique_code_draw:
  assumes "unique_code rnd pos cs = Some code"
  shows "\<exists>k. code = generate_code rnd (pos + 6 * k) 6"
proof (rule unique_code.raw_induct
    [where P = "\<lambda>rnd pos cs code. \<exists>k. code = generate_code rnd (pos + 6 * k) 6", OF _ assms])
  fix f rnd pos cs code
  assume IH: "\<And>rnd pos cs code. f rnd pos cs = Some code \<Longrightarrow>
                 \<exists>k. code = generate_code rnd (pos + 6 * k) 6"
    and body: "(let code = generate_code rnd pos 6
                in if find_one (\<lambda>c. c_code c = code) cs \<noteq> None
                   then f rnd (pos + 6) cs else Some code) = Some code"
  show "\<exists>k. code = generate_code rnd (pos + 6 * k) 6"
  proof (cases "find_one (\<lambda>c. c_code c = generate_code rnd pos 6) cs = None")
    case True
    with body have "code = generate_code rnd (pos + 6 * 0) 6" by (simp add: Let_def)
    then show ?thesis by (rule exI)
  next
    case False
    with body have "f rnd (pos + 6) cs = Some code" by (simp add: Let_def)
    from IH [OF this] obtain k where "code = generate_code rnd ((pos + 6) + 6 * k) 6" by blast
    then have "code = generate_code rnd (pos + 6 * Suc k) 6" by (simp add: add.assoc)
    then show ?thesis by (rule exI)
  qed
qed

lemma unique_code_diverges:
  assumes "\<forall>k. generate_code rnd (pos + 6 * k) 6 \<in> set (map c_code cs)"
  shows "unique_code rnd pos cs = None"
proof (cases "unique_code rnd pos cs")
  case None
  then show ?thesis .
next
  case (Some code)
  from unique_code_draw [OF Some] obtain k where "code = generate_code rnd (pos + 6 * k) 6"
    by blast
  with assms have "code \<in> set (map c_code cs)" by simp
  with unique_code_Some [OF Some] show ?thesis by simp
qed

lemma create_classroom_first_free:
  assumes "u_role u = TEACHER" and "classroom_id \<notin> set (map c_id (classrooms s))"
    and "\<forall>j<k. generate_code rnd (6 * j) 6 \<in> set (map c_code (classrooms s))"
    and "generate_code rnd (6 * k) 6 \<notin> set (map c_code (classrooms s))"
  shows "(let doc = \<lparr>c_id = classroom_id, c_name = cc_name data,
                   c_description = cc_description data, c_subject = cc_subject data,
                   c_code = generate_code rnd (6 * k) 6, c_coverImage = cc_coverImage data,
                   c_isActive = True, c_teacherId = u_id u, c_createdAt = now,
                   c_updatedAt = now\<rparr>
          in create_classroom now classroom_id rnd s data u
             = Some (Inr (s\<lparr>classrooms := classrooms s @ [doc]\<rparr>, doc, (0, 0),
                     Some (teacher_summary u))))"
proof -
  from assms(3) have "\<forall>j<k. generate_code rnd (0 + 6 * j) 6 \<in> set (map c_code (classrooms s))"
    by simp
  moreover from assms(4)
  have "generate_code rnd (0 + 6 * k) 6 \<notin> set (map c_code (classrooms s))" by simp
  ultimately have "unique_code rnd 0 (classrooms s) = Some (generate_code rnd (0 + 6 * k) 6)"
    by (rule unique_code_first_free)
  then have "unique_code rnd 0 (classrooms s) = Some (generate_code rnd (6 * k) 6)" by simp
  with assms(1,2,4) show ?thesis
    by (simp add: create_classroom_def insert_classroom_def Let_def)
qed

lemma create_classroom_diverges:
  assumes "u_role u = TEACHER"
    and "\<forall>k. generate_code rnd (6 * k) 6 \<in> set (map c_code (classrooms s))"
  shows "create_classroom now classroom_id rnd s data u = None"
proof -
  from assms(2) have "\<forall>k. generate_code rnd (0 + 6 * k) 6 \<in> set (map c_code (classrooms s))"
    by simp
  then have "unique_code rnd 0 (classrooms s) = None" by (rule unique_code_diverges)
  with assms(1) show ?thesis by (simp add: create_classroom_def)
qed

text \<open>
  Claim C4. In every reachable database each classroom code has six characters drawn from
  the uppercase letters and digits, and no two classrooms hold the same code.
  \<^verbatim>\<open>create_classroom\<close> draws codes until one is held by no classroom. When the draws
  before the \<open>k\<close>-th are all codes in use and the \<open>k\<close>-th is free, the loop returns the
  \<open>k\<close>-th draw, and for a teacher and a fresh id \<^verbatim>\<open>create_classroom\<close> appends the
  classroom carrying that code and returns it; when every draw is a code in use the loop
  never returns. Whatever classroom \<^verbatim>\<open>create_classroom\<close> inserts carries a well-formed
  code that none of the existing classrooms holds. No step changes the code of a
  classroom: a classroom found after a step under the id of a classroom before the step
  has the same code.
\<close>

theorem classroom_codes_valid_unique_immutable:
  assumes "reachable secret s"
  shows "list_all (\<lambda>c. valid_code (c_code c)) (classrooms s)
    \<and> distinct (map c_code (classrooms s))
    \<and> (\<forall>now classroom_id rnd data u s' cv.
          create_classroom now classroom_id rnd s data u = Some (Inr (s', cv)) \<longrightarrow>
            valid_code (c_code (fst cv)) \<and> c_code (fst cv) \<notin> set (map c_code (classrooms s))
            \<and> classrooms s' = classrooms s @ [fst cv])
    \<and> (\<forall>now classroom_id rnd data u k.
          generate_code rnd (6 * k) 6 \<notin> set (map c_code (classrooms s)) \<longrightarrow>
            create_classroom now classroom_id rnd s data u \<noteq> None)
    \<and> (\<forall>s' c c'. step secret s s' \<and> c \<in> set (classrooms s) \<and> c' \<in> set (classrooms s')
          \<and> c_id c' = c_id c \<longrightarrow> c_code c' = c_code c)
    \<and> (\<forall>rnd k.
          (\<forall>j<k. generate_code rnd (6 * j) 6 \<in> set (map c_code (classrooms s)))
          \<and> generate_code rnd (6 * k) 6 \<notin> set (map c_code (classrooms s)) \<longrightarrow>
            unique_code rnd 0 (classrooms s) = Some (generate_code rnd (6 * k) 6)
            \<and> valid_code (generate_code rnd (6 * k) 6)
            \<and> (\<forall>now classroom_id data u.
                  u_role u = TEACHER \<and> classroom_id \<notin> set (map c_id (classrooms s)) \<longrightarrow>
                  (let doc = \<lparr>c_id = classroom_id, c_name = cc_name data,
                        c_description = cc_description data, c_subject = cc_subject data,
                        c_code = generate_code rnd (6 * k) 6, c_coverImage = cc_coverImage data,
                        c_isActive = True, c_teacherId = u_id u, c_createdAt = now,
                        c_updatedAt = now\<rparr>
                   in create_classroom now classroom_id rnd s data u
                      = Some (Inr (s\<lparr>classrooms := classrooms s @ [doc]\<rparr>, doc, (0, 0),
                              Some (teacher_summary u))))))
    \<and> (\<forall>rnd.
          (\<forall>k. generate_code rnd (6 * k) 6 \<in> set (map c_code (classrooms s))) \<longrightarrow>
            unique_code rnd 0 (classrooms s) = None
            \<and> (\<forall>now classroom_id data u. u_role u = TEACHER \<longrightarrow>
                  create_classroom now classroom_id rnd s data u = None))"
proof -
  from assms have idx: "indexes_ok s" by (rule reachable_indexes_ok)
  from assms have "codes_ok s" by (rule reachable_codes_ok)
  then have a: "list_all (\<lambda>c. valid_code (c_code c)) (classrooms s)" by (simp add: codes_ok_def)
  from idx have b: "distinct (map c_code (classrooms s))" by (simp add: indexes_ok_def)
  have c: "\<forall>now classroom_id rnd data u s' cv.
          create_classroom now classroom_id rnd s data u = Some (Inr (s', cv)) \<longrightarrow>
            valid_code (c_code (fst cv)) \<and> c_code (fst cv) \<notin> set (map c_code (classrooms s))
            \<and> classrooms s' = classrooms s @ [fst cv]"
    using create_classroom_Some by blast
  have d: "\<forall>now classroom_id rnd data u k.
          generate_code rnd (6 * k) 6 \<notin> set (map c_code (classrooms s)) \<longrightarrow>
            create_classroom now classroom_id rnd s data u \<noteq> None"
    using create_classroom_returns by blast
  have e: "\<forall>s' c c'. step secret s s' \<and> c \<in> set (classrooms s) \<and> c' \<in> set (classrooms s')
          \<and> c_id c' = c_id c \<longrightarrow> c_code c' = c_code c"
    using step_code_stable [OF _ idx] by blast
  have f: "\<forall>rnd k.
          (\<forall>j<k. generate_code rnd (6 * j) 6 \<in> set (map c_code (classrooms s)))
          \<and> generate_code rnd (6 * k) 6 \<notin> set (map c_code (classrooms s)) \<longrightarrow>
            unique_code rnd 0 (classrooms s) = Some (generate_code rnd (6 * k) 6)
            \<and> valid_code (generate_code rnd (6 * k) 6)
            \<and> (\<forall>now classroom_id data u.
                  u_role u = TEACHER \<and> classroom_id \<notin> set (map c_id (classrooms s)) \<longrightarrow>
                  (let doc = \<lparr>c_id = classroom_id, c_name = cc_name data,
                        c_description = cc_description data, c_subject = cc_subject data,
                        c_code = generate_code rnd (6 * k) 6, c_coverImage = cc_coverImage data,
                        c_isActive = True, c_teacherId = u_id u, c_createdAt = now,
                        c_updatedAt = now\<rparr>
                   in create_classroom now classroom_id rnd s data u
                      = Some (Inr (s\<lparr>classrooms := classrooms s @ [doc]\<rparr>, doc, (0, 0),
                              Some (teacher_summary u)))))"
  proof (intro allI impI conjI)
    fix rnd k
    assume h: "(\<forall>j<k. generate_code rnd (6 * j) 6 \<in> set (map c_code (classrooms s)))
          \<and> generate_code rnd (6 * k) 6 \<notin> set (map c_code (classrooms s))"
    then have "\<forall>j<k. generate_code rnd (0 + 6 * j) 6 \<in> set (map c_code (classrooms s))"
      and "generate_code rnd (0 + 6 * k) 6 \<notin> set (map c_code (classrooms s))"
      by simp_all
    then have "unique_code rnd 0 (classrooms s) = Some (generate_code rnd (0 + 6 * k) 6)"
      by (rule unique_code_first_free)
    then show "unique_code rnd 0 (classrooms s) = Some (generate_code rnd (6 * k) 6)" by simp
    show "valid_code (generate_code rnd (6 * k) 6)" by (rule valid_generate_code)
    fix now classroom_id data and u :: user
    assume t: "u_role u = TEACHER \<and> classroom_id \<notin> set (map c_id (classrooms s))"
    from t h show "(let doc = \<lparr>c_id = classroom_id, c_name = cc_name data,
                        c_description = cc_description data, c_subject = cc_subject data,
                        c_code = generate_code rnd (6 * k) 6, c_coverImage = cc_coverImage data,
                        c_isActive = True, c_teacherId = u_id u, c_createdAt = now,
                        c_updatedAt = now\<rparr>
                   in create_classroom now classroom_id rnd s data u
                      = Some (Inr (s\<lparr>classrooms := classrooms s @ [doc]\<rparr>, doc, (0, 0),
                              Some (teacher_summary u))))"
      by (intro create_classroom_first_free) simp_all
  qed
  have g: "\<forall>rnd.
          (\<forall>k. generate_code rnd (6 * k) 6 \<in> set (map c_code (classrooms s))) \<longrightarrow>
            unique_code rnd 0 (classrooms s) = None
            \<and> (\<forall>now classroom_id data u. u_role u = TEACHER \<longrightarrow>
                  create_classroom now classroom_id rnd s data u = None)"
  proof (intro allI impI conjI)
    fix rnd
    assume h: "\<forall>k. generate_code rnd (6 * k) 6 \<in> set (map c_code (classrooms s))"
    then have "\<forall>k. generate_code rnd (0 + 6 * k) 6 \<in> set (map c_code (classrooms s))" by simp
    then show "unique_code rnd 0 (classrooms s) = None" by (rule unique_code_diverges)
    fix now classroom_id data and u :: user
    assume "u_role u = TEACHER"
    then show "create_classroom now classroom_id rnd s data u = None"
      using h by (rule create_classroom_diverges)
  qed
  from a b c d e f g show ?thesis by (intro conjI)
qed

lemmas ex_defs = ex_secret_def ex_teacher_def ex_teacher_token_def ex_classroom1_def
  ex_classroom2_def ex_cc_def ex_db1_def ex_db2_def ex_db3_def

lemma ex_teacher_authenticated:
  "users s = [ex_teacher] \<Longrightarrow> get_current_user ex_secret 1 s ex_teacher_token = Inr ex_teacher"
  by (simp add: get_current_user_def create_token_def JWT_EXPIRATION_HOURS_def find_one_def ex_defs)

lemma ex_generate_first: "generate_code (\<lambda>n. n) 0 6 = ''ABCDEF''"
  by (simp add: generate_code_def code_alphabet_def upt_rec)

lemma ex_generate_second: "generate_code (\<lambda>n. n) 6 6 = ''GHIJKL''"
  by (simp add: generate_code_def code_alphabet_def upt_rec)

lemma ex_unique_code_first: "unique_code (\<lambda>n. n) 0 [] = Some ''ABCDEF''"
  by (subst unique_code.simps) (simp add: ex_generate_first find_one_def)

lemma ex_unique_code_second: "unique_code (\<lambda>n. n) 0 [ex_classroom1] = Some ''GHIJKL''"
  apply (subst unique_code.simps)
  apply (simp add: ex_generate_first find_one_def ex_classroom1_def)
  apply (subst unique_code.simps)
  apply (simp add: ex_generate_second find_one_def)
  done

lemma ex_create_second:
  "create_classroom 1 ''c2'' (\<lambda>n. n) ex_db2 ex_cc ex_teacher =
     Some (Inr (ex_db3, ex_classroom2, (0, 0), Some (teacher_summary ex_teacher)))"
  using ex_unique_code_second
  by (simp add: create_classroom_def insert_classroom_def ex_db2_def ex_db3_def ex_db1_def
      ex_classroom1_def ex_classroom2_def ex_cc_def ex_teacher_def TEACHER_def Let_def)

lemma ex_create_first:
  "create_classroom 1 ''c1'' (\<lambda>n. n) ex_db1 ex_cc ex_teacher =
     Some (Inr (ex_db2, ex_classroom1, (0, 0), Some (teacher_summary ex_teacher)))"
  using ex_unique_code_first
  by (simp add: create_classroom_def insert_classroom_def ex_db2_def ex_db1_def
      ex_classroom1_def ex_cc_def ex_teacher_def TEACHER_def Let_def)

lemma ex_reachable1: "reachable ex_secret ex_db1"
proof -
  have "register ex_secret 0 ''t1'' ''na'' empty_db
          \<lparr>uc_email = ''t@x'', uc_password = ''pw'', uc_name = ''T'', uc_role = TEACHER\<rparr>
        = Inr (ex_db1, user_response ex_teacher, ex_teacher_token)"
    by (simp add: register_def insert_user_def hash_password_def find_one_def empty_db_def
        user_response_def ex_defs TEACHER_def STUDENT_def)
  then have "step ex_secret empty_db ex_db1" by (rule step_register)
  with reachable_empty show ?thesis by (rule reachable_step)
qed

lemma ex_reachable2: "reachable ex_secret ex_db2"
proof -
  have "get_current_user ex_secret 1 ex_db1 ex_teacher_token = Inr ex_teacher"
    by (rule ex_teacher_authenticated) (simp add: ex_db1_def)
  then have "step ex_secret ex_db1 ex_db2" using ex_create_first by (rule step_create_classroom)
  with ex_reachable1 show ?thesis by (rule reachable_step)
qed

lemma ex_step23: "step ex_secret ex_db2 ex_db3"
proof -
  have "get_current_user ex_secret 1 ex_db2 ex_teacher_token = Inr ex_teacher"
    by (rule ex_teacher_authenticated) (simp add: ex_db2_def ex_db1_def)
  then show ?thesis using ex_create_second by (rule step_create_classroom)
qed

lemma ex_generate_constant: "generate_code (\<lambda>n. n mod 6) (6 * k) 6 = ''ABCDEF''"
  by (simp add: generate_code_def code_alphabet_def upt_rec)

text \<open>
  The theorem at the database with one classroom. With the draws 0, 1, 2, ... the first
  code drawn is the code in use and the second is free: the loop returns the second and the
  classroom c2 is appended with it. With the draws 0 to 5 repeated every code drawn is the
  code in use, and \<^verbatim>\<open>create_classroom\<close> does not return.
\<close>

theorem classroom_codes_witness:
  "reachable ex_secret ex_db2
   \<and> generate_code (\<lambda>n. n) 0 6 \<in> set (map c_code (classrooms ex_db2))
   \<and> generate_code (\<lambda>n. n) (6 * 1) 6 \<notin> set (map c_code (classrooms ex_db2))
   \<and> unique_code (\<lambda>n. n) 0 (classrooms ex_db2) = Some ''GHIJKL''
   \<and> create_classroom 1 ''c2'' (\<lambda>n. n) ex_db2 ex_cc ex_teacher =
       Some (Inr (ex_db3, ex_classroom2, (0, 0), Some (teacher_summary ex_teacher)))
   \<and> unique_code (\<lambda>n. n mod 6) 0 (classrooms ex_db2) = None
   \<and> create_classroom 1 ''c2'' (\<lambda>n. n mod 6) ex_db2 ex_cc ex_teacher = None
   \<and> step ex_secret ex_db2 ex_db3
   \<and> map c_code (classrooms ex_db2) = [''ABCDEF'']
   \<and> map c_code (classrooms ex_db3) = [''ABCDEF'', ''GHIJKL'']
   \<and> valid_code ''ABCDEF'' \<and> valid_code ''GHIJKL''
   \<and> distinct (map c_code (classrooms ex_db2))"
proof -
  have codes2: "map c_code (classrooms ex_db2) = [''ABCDEF'']"
    by (simp add: ex_db2_def ex_db1_def ex_classroom1_def)
  have codes3: "map c_code (classrooms ex_db3) = [''ABCDEF'', ''GHIJKL'']"
    by (simp add: ex_db3_def ex_db1_def ex_classroom1_def ex_classroom2_def)
  note main = classroom_codes_valid_unique_immutable [OF ex_reachable2]
  note on_free = main [THEN conjunct2, THEN conjunct2, THEN conjunct2, THEN conjunct2,
      THEN conjunct2, THEN conjunct1, rule_format, where rnd = "\<lambda>n. n" and k = 1]
  note on_busy = main [THEN conjunct2, THEN conjunct2, THEN conjunct2, THEN conjunct2,
      THEN conjunct2, THEN conjunct2, rule_format, where rnd = "\<lambda>n. n mod 6"]
  have free: "(\<forall>j<1. generate_code (\<lambda>n. n) (6 * j) 6 \<in> set (map c_code (classrooms ex_db2)))
      \<and> generate_code (\<lambda>n. n) (6 * 1) 6 \<notin> set (map c_code (classrooms ex_db2))"
    unfolding codes2 by (simp add: ex_generate_first ex_generate_second)
  have busy: "\<forall>k. generate_code (\<lambda>n. n mod 6) (6 * k) 6 \<in> set (map c_code (classrooms ex_db2))"
    unfolding codes2 ex_generate_constant by simp
  have fresh: "u_role ex_teacher = TEACHER \<and> ''c2'' \<notin> set (map c_id (classrooms ex_db2))"
    by (simp add: ex_teacher_def ex_db2_def ex_db1_def ex_classroom1_def)
  from on_free [OF free] have u1: "unique_code (\<lambda>n. n) 0 (classrooms ex_db2) = Some ''GHIJKL''"
    and v2: "valid_code ''GHIJKL''"
    by (simp_all add: ex_generate_second)
  from on_free [OF free, THEN conjunct2, THEN conjunct2, rule_format, OF fresh,
      where now = 1 and data = ex_cc]
  have c1: "create_classroom 1 ''c2'' (\<lambda>n. n) ex_db2 ex_cc ex_teacher =
       Some (Inr (ex_db3, ex_classroom2, (0, 0), Some (teacher_summary ex_teacher)))"
    by (simp add: Let_def ex_generate_second ex_db2_def ex_db3_def ex_db1_def
        ex_classroom1_def ex_classroom2_def ex_cc_def ex_teacher_def)
  from on_busy [OF busy [rule_format]] have u2: "unique_code (\<lambda>n. n mod 6) 0 (classrooms ex_db2) = None"
    by (rule conjunct1)
  from on_busy [OF busy [rule_format], THEN conjunct2, rule_format, OF conjunct1 [OF fresh]]
  have c2: "create_classroom 1 ''c2'' (\<lambda>n. n mod 6) ex_db2 ex_cc ex_teacher = None" .
  from main have "list_all (\<lambda>c. valid_code (c_code c)) (classrooms ex_db2)" by (rule conjunct1)
  then have v1: "valid_code ''ABCDEF''" by (simp add: ex_db2_def ex_classroom1_def)
  from main have d: "distinct (map c_code (classrooms ex_db2))"
    by (rule conjunct1 [OF conjunct2])
  from free have g1: "generate_code (\<lambda>n. n) 0 6 \<in> set (map c_code (classrooms ex_db2))"
    and g2: "generate_code (\<lambda>n. n) (6 * 1) 6 \<notin> set (map c_code (classrooms ex_db2))"
    by simp_all
  from ex_reachable2 g1 g2 u1 c1 u2 c2 ex_step23 codes2 codes3 v1 v2 d show ?thesis
    by (intro conjI)
qed

section \<open>Registration and authentication\<close>

lemma find_one_append_new:
  "k \<notin> set (map g xs) \<Longrightarrow> g doc = k \<Longrightarrow> find_one (\<lambda>x. g x = k) (xs @ [doc]) = Some doc"
  by (induction xs) (auto simp: find_one_def)

lemma register_succeeds:
  assumes "uc_email data \<notin> set (map u_email (users s))"
    and "uc_role data = TEACHER \<or> uc_role data = STUDENT"
    and "user_id \<notin> set (map u_id (users s))"
  shows "register secret now user_id salt s data =
     Inr (s\<lparr>users := users s @
             [\<lparr>u_id = user_id, u_email = uc_email data,
               u_password = hash_password (uc_password data) salt,
               u_name = uc_name data, u_role = uc_role data, u_avatar = None,
               u_createdAt = now, u_updatedAt = now\<rparr>]\<rparr>,
          \<lparr>ur_id = user_id, ur_email = uc_email data, ur_name = uc_name data,
            ur_role = uc_role data, ur_avatar = None, ur_createdAt = now\<rparr>,
          create_token secret now user_id (uc_email data) (uc_role data))"
proof -
  from assms(1) have "find_one (\<lambda>u. u_email u = uc_email data) (users s) = None"
    by (simp add: find_one_key_None_iff)
  with assms show ?thesis
    by (auto simp: register_def insert_user_def Let_def user_response_def)
qed

text \<open>
  Claim C3. A valid registration (an email no user has, a role of TEACHER or STUDENT, and
  a \<^verbatim>\<open>uuid4\<close> identifier no user has) succeeds, and \<^verbatim>\<open>get_current_user\<close> on the token it
  returns, at any clock reading before the token's expiry 24 hours after the registration,
  resolves to a user whose id is the id the registration created.
\<close>

theorem register_token_authenticates:
  assumes "uc_email data \<notin> set (map u_email (users s))"
    and "uc_role data = TEACHER \<or> uc_role data = STUDENT"
    and "user_id \<notin> set (map u_id (users s))"
    and "now' < now + JWT_EXPIRATION_HOURS * 3600"
  shows "\<exists>s' resp tok u.
           register secret now user_id salt s data = Inr (s', resp, tok)
           \<and> get_current_user secret now' s' tok = Inr u
           \<and> u_id u = user_id \<and> ur_id resp = user_id \<and> u_email u = uc_email data"
proof -
  let ?doc = "\<lparr>u_id = user_id, u_email = uc_email data,
               u_password = hash_password (uc_password data) salt,
               u_name = uc_name data, u_role = uc_role data, u_avatar = None,
               u_createdAt = now, u_updatedAt = now\<rparr>"
  have "find_one (\<lambda>u. u_id u = user_id) (users s @ [?doc]) = Some ?doc"
    using assms(3) by (intro find_one_append_new) simp_all
  with assms(4) have "get_current_user secret now' (s\<lparr>users := users s @ [?doc]\<rparr>)
          (create_token secret now user_id (uc_email data) (uc_role data)) = Inr ?doc"
    by (simp add: get_current_user_def create_token_def)
  with register_succeeds [OF assms(1-3)] show ?thesis by simp
qed

text \<open>The teacher of the example registers at time 0 and authenticates at time 1.\<close>

theorem register_token_authenticates_witness:
  "get_current_user ex_secret 1 ex_db1 ex_teacher_token = Inr ex_teacher
   \<and> register ex_secret 0 ''t1'' ''na'' empty_db
          \<lparr>uc_email = ''t@x'', uc_password = ''pw'', uc_name = ''T'', uc_role = TEACHER\<rparr>
        = Inr (ex_db1, user_response ex_teacher, ex_teacher_token)
   \<and> u_id ex_teacher = ''t1''"
proof -
  have reg: "register ex_secret 0 ''t1'' ''na'' empty_db
          \<lparr>uc_email = ''t@x'', uc_password = ''pw'', uc_name = ''T'', uc_role = TEACHER\<rparr>
        = Inr (ex_db1, user_response ex_teacher, ex_teacher_token)"
    by (simp add: register_def insert_user_def hash_password_def find_one_def empty_db_def
        user_response_def ex_defs TEACHER_def STUDENT_def)
  have "\<exists>s' resp tok u.
           register ex_secret 0 ''t1'' ''na'' empty_db
             \<lparr>uc_email = ''t@x'', uc_password = ''pw'', uc_name = ''T'', uc_role = TEACHER\<rparr>
             = Inr (s', resp, tok)
           \<and> get_current_user ex_secret 1 s' tok = Inr u
           \<and> u_id u = ''t1'' \<and> ur_id resp = ''t1''
           \<and> u_email u = uc_email \<lparr>uc_email = ''t@x'', uc_password = ''pw'', uc_name = ''T'', uc_role = TEACHER\<rparr>"
    by (rule register_token_authenticates)
       (simp_all add: empty_db_def JWT_EXPIRATION_HOURS_def)
  with reg obtain u where "get_current_user ex_secret 1 ex_db1 ex_teacher_token = Inr u"
    and "u_id u = ''t1''" by auto
  moreover have "get_current_user ex_secret 1 ex_db1 ex_teacher_token = Inr ex_teacher"
    by (rule ex_teacher_authenticated) (simp add: ex_db1_def)
  ultimately show ?thesis using reg by simp
qed

section \<open>Joining a classroom\<close>

lemma find_enrollment_None_iff:
  "find_one (\<lambda>e. e_studentId e = uid \<and> e_classroomId e = cid) (enrollments s) = None
     \<longleftrightarrow> \<not> enrolled s uid cid"
  by (auto simp: find_one_None_iff enrolled_def)

lemma upper_char_idem: "upper_char (upper_char c) = upper_char c"
proof (cases "97 \<le> (of_char c :: nat) \<and> (of_char c :: nat) \<le> 122")
  case True
  then have "(of_char c - 32 :: nat) mod 256 = of_char c - 32"
    by (intro mod_less) arith
  then have "(of_char (char_of (of_char c - 32 :: nat)) :: nat) = of_char c - 32"
    by simp
  moreover from True have "\<not> (97 \<le> (of_char c - 32 :: nat))" by arith
  ultimately have "upper_char (char_of (of_char c - 32 :: nat)) = char_of (of_char c - 32 :: nat)"
    unfolding upper_char_def Let_def by presburger
  with True show ?thesis by (simp add: upper_char_def Let_def)
next
  case False
  then show ?thesis by (auto simp: upper_char_def Let_def)
qed

lemma upper_ascii: "list_all is_ascii str \<Longrightarrow> upper up str = map upper_char str"
  by (simp add: upper_def)

lemma code_alphabet_chars:
  "list_all (\<lambda>ch. is_ascii ch \<and> is_ascii (lower_char ch) \<and> upper_char ch = ch
              \<and> upper_char (lower_char ch) = ch) code_alphabet"
  by code_simp

lemma valid_code_chars:
  assumes "valid_code cc" and "ch \<in> set cc"
  shows "is_ascii ch \<and> is_ascii (lower_char ch) \<and> upper_char ch = ch
     \<and> upper_char (lower_char ch) = ch"
proof -
  from assms have "ch \<in> set code_alphabet" by (auto simp: valid_code_def list_all_iff)
  with code_alphabet_chars show ?thesis unfolding list_all_iff by blast
qed

lemma upper_valid_code:
  assumes "valid_code cc"
  shows "upper up cc = cc" and "upper up (lower cc) = cc"
proof -
  from valid_code_chars [OF assms] have "list_all is_ascii cc"
    by (simp add: list_all_iff)
  then have "upper up cc = map upper_char cc" by (rule upper_ascii)
  also have "\<dots> = cc" using valid_code_chars [OF assms] by (intro map_idI) simp
  finally show "upper up cc = cc" .
  from valid_code_chars [OF assms] have "list_all is_ascii (lower cc)"
    by (simp add: list_all_iff lower_def)
  then have "upper up (lower cc) = map upper_char (lower cc)" by (rule upper_ascii)
  also have "\<dots> = map (\<lambda>ch. upper_char (lower_char ch)) cc" by (simp add: lower_def)
  also have "\<dots> = cc" using valid_code_chars [OF assms] by (intro map_idI) simp
  finally show "upper up (lower cc) = cc" .
qed

lemma join_not_student:
  "u_role u \<noteq> STUDENT \<Longrightarrow>
     join_classroom up now eid s code u = Inl (HTTPException 403 ''Only students can join classrooms'')"
  by (simp add: join_classroom_def)

lemma join_not_found:
  "u_role u = STUDENT \<Longrightarrow> find_one (\<lambda>c. c_code c = upper up code) (classrooms s) = None \<Longrightarrow>
     join_classroom up now eid s code u = Inl (HTTPException 404 ''Invalid classroom code'')"
  by (simp add: join_classroom_def)

lemma join_inactive:
  "u_role u = STUDENT \<Longrightarrow> find_one (\<lambda>c. c_code c = upper up code) (classrooms s) = Some c \<Longrightarrow>
     \<not> c_isActive c \<Longrightarrow>
     join_classroom up now eid s code u = Inl (HTTPException 400 ''Classroom is not active'')"
  by (simp add: join_classroom_def)

lemma join_already:
  "u_role u = STUDENT \<Longrightarrow> find_one (\<lambda>c. c_code c = upper up code) (classrooms s) = Some c \<Longrightarrow>
     c_isActive c \<Longrightarrow> enrolled s (u_id u) (c_id c) \<Longrightarrow>
     join_classroom up now eid s code u = Inl (HTTPException 400 ''Already enrolled in this classroom'')"
  using find_enrollment_None_iff [of "u_id u" "c_id c" s]
  by (simp add: join_classroom_def)

lemma join_success:
  "u_role u = STUDENT \<Longrightarrow> find_one (\<lambda>c. c_code c = upper up code) (classrooms s) = Some c \<Longrightarrow>
     c_isActive c \<Longrightarrow> \<not> enrolled s (u_id u) (c_id c) \<Longrightarrow> eid \<notin> set (map e_id (enrollments s)) \<Longrightarrow>
     join_classroom up now eid s code u =
       Inr (s\<lparr>enrollments := enrollments s @
                [\<lparr>e_id = eid, e_studentId = u_id u, e_classroomId = c_id c, e_joinedAt = now\<rparr>]\<rparr>, c)"
  using find_enrollment_None_iff [of "u_id u" "c_id c" s]
  by (simp add: join_classroom_def insert_enrollment_def enrolled_def)

lemma join_Inr_D:
  assumes "join_classroom up now eid s code u = Inr (s', c)"
  shows "u_role u = STUDENT \<and> find_one (\<lambda>c. c_code c = upper up code) (classrooms s) = Some c
     \<and> c_isActive c \<and> \<not> enrolled s (u_id u) (c_id c)
     \<and> s' = s\<lparr>enrollments := enrollments s @
                [\<lparr>e_id = eid, e_studentId = u_id u, e_classroomId = c_id c, e_joinedAt = now\<rparr>]\<rparr>"
  using assms find_enrollment_None_iff [of "u_id u" _ s]
  by (auto simp: join_classroom_def insert_enrollment_def split: if_splits option.splits)

lemma join_same_key:
  "upper up code' = upper up code \<Longrightarrow>
     join_classroom up now eid s code' u = join_classroom up now eid s code u"
  by (simp add: join_classroom_def)

text \<open>
  Claim C2. \<^verbatim>\<open>join_classroom\<close> answers 403 to a user whose role is not STUDENT. It looks
  the classroom up by the uppercased code: two ASCII codes that differ in the case of
  their letters only are answered alike, and the lowercase form of a well-formed code
  (six uppercase letters and digits, as every stored code is) uppercases to that code, so
  it finds the classroom that holds the code. For a student it answers 404 when no
  classroom holds the uppercased code, 400 (not active) when the classroom found is
  inactive, 400 (already enrolled) when an enrollment of the student in that classroom
  exists, and otherwise (the \<^verbatim>\<open>uuid4\<close> identifier being new) appends exactly one
  enrollment, for this student and classroom with the current time, and changes nothing
  else. After a successful join a second join by the same student is answered 400
  (already enrolled), and a join by another student who is not enrolled still succeeds.
\<close>

theorem join_classroom_behaviour:
  "(u_role u \<noteq> STUDENT \<longrightarrow>
      join_classroom up now eid s code u =
        Inl (HTTPException 403 ''Only students can join classrooms''))
   \<and> (\<forall>code'. list_all is_ascii code \<and> list_all is_ascii code'
          \<and> map upper_char code' = map upper_char code \<longrightarrow>
        join_classroom up now eid s code' u = join_classroom up now eid s code u)
   \<and> (\<forall>cc. valid_code cc \<longrightarrow> upper up (lower cc) = cc \<and> upper up cc = cc)
   \<and> (\<forall>c. valid_code (c_code c)
          \<and> find_one (\<lambda>x. c_code x = c_code c) (classrooms s) = Some c \<longrightarrow>
        find_one (\<lambda>x. c_code x = upper up (lower (c_code c))) (classrooms s) = Some c
        \<and> join_classroom up now eid s (lower (c_code c)) u
            = join_classroom up now eid s (c_code c) u)
   \<and> (u_role u = STUDENT \<and> upper up code \<notin> set (map c_code (classrooms s)) \<longrightarrow>
        join_classroom up now eid s code u = Inl (HTTPException 404 ''Invalid classroom code''))
   \<and> (\<forall>c. u_role u = STUDENT
          \<and> find_one (\<lambda>c. c_code c = upper up code) (classrooms s) = Some c \<longrightarrow>
          (\<not> c_isActive c \<longrightarrow>
             join_classroom up now eid s code u =
               Inl (HTTPException 400 ''Classroom is not active''))
        \<and> (c_isActive c \<and> enrolled s (u_id u) (c_id c) \<longrightarrow>
             join_classroom up now eid s code u =
               Inl (HTTPException 400 ''Already enrolled in this classroom''))
        \<and> (c_isActive c \<and> \<not> enrolled s (u_id u) (c_id c)
             \<and> eid \<notin> set (map e_id (enrollments s)) \<longrightarrow>
             join_classroom up now eid s code u =
               Inr (s\<lparr>enrollments := enrollments s @
                        [\<lparr>e_id = eid, e_studentId = u_id u, e_classroomId = c_id c,
                          e_joinedAt = now\<rparr>]\<rparr>, c)))
   \<and> (\<forall>s' c. join_classroom up now eid s code u = Inr (s', c) \<longrightarrow>
          length (enrollments s') = length (enrollments s) + 1
        \<and> users s' = users s \<and> classrooms s' = classrooms s \<and> materials s' = materials s
        \<and> (\<forall>now2 eid2. join_classroom up now2 eid2 s' code u =
               Inl (HTTPException 400 ''Already enrolled in this classroom''))
        \<and> (\<forall>b now2 eid2. u_role b = STUDENT \<and> u_id b \<noteq> u_id u
               \<and> \<not> enrolled s (u_id b) (c_id c)
               \<and> eid2 \<notin> set (map e_id (enrollments s')) \<longrightarrow>
               (\<exists>s''. join_classroom up now2 eid2 s' code b = Inr (s'', c))))"
proof (intro conjI allI impI)
  assume "u_role u \<noteq> STUDENT"
  then show "join_classroom up now eid s code u =
        Inl (HTTPException 403 ''Only students can join classrooms'')"
    by (rule join_not_student)
next
  fix code'
  assume "list_all is_ascii code \<and> list_all is_ascii code'
          \<and> map upper_char code' = map upper_char code"
  then have "upper up code' = upper up code" by (simp add: upper_ascii)
  then show "join_classroom up now eid s code' u = join_classroom up now eid s code u"
    by (rule join_same_key)
next
  fix cc assume "valid_code cc"
  then show "upper up (lower cc) = cc" by (rule upper_valid_code)
next
  fix cc assume "valid_code cc"
  then show "upper up cc = cc" by (rule upper_valid_code)
next
  fix c
  assume "valid_code (c_code c) \<and> find_one (\<lambda>x. c_code x = c_code c) (classrooms s) = Some c"
  then show "find_one (\<lambda>x. c_code x = upper up (lower (c_code c))) (classrooms s) = Some c"
    by (simp add: upper_valid_code)
next
  fix c
  assume "valid_code (c_code c) \<and> find_one (\<lambda>x. c_code x = c_code c) (classrooms s) = Some c"
  then have "upper up (lower (c_code c)) = upper up (c_code c)" by (simp add: upper_valid_code)
  then show "join_classroom up now eid s (lower (c_code c)) u
      = join_classroom up now eid s (c_code c) u"
    by (rule join_same_key)
next
  assume "u_role u = STUDENT \<and> upper up code \<notin> set (map c_code (classrooms s))"
  then show "join_classroom up now eid s code u = Inl (HTTPException 404 ''Invalid classroom code'')"
    by (intro join_not_found) (simp_all add: find_one_key_None_iff)
next
  fix c
  assume "u_role u = STUDENT \<and> find_one (\<lambda>c. c_code c = upper up code) (classrooms s) = Some c"
    and "\<not> c_isActive c"
  then show "join_classroom up now eid s code u = Inl (HTTPException 400 ''Classroom is not active'')"
    by (intro join_inactive [where c = c]) simp_all
next
  fix c
  assume "u_role u = STUDENT \<and> find_one (\<lambda>c. c_code c = upper up code) (classrooms s) = Some c"
    and "c_isActive c \<and> enrolled s (u_id u) (c_id c)"
  then show "join_classroom up now eid s code u =
      Inl (HTTPException 400 ''Already enrolled in this classroom'')"
    by (intro join_already [where c = c]) simp_all
next
  fix c
  assume "u_role u = STUDENT \<and> find_one (\<lambda>c. c_code c = upper up code) (classrooms s) = Some c"
    and "c_isActive c \<and> \<not> enrolled s (u_id u) (c_id c) \<and> eid \<notin> set (map e_id (enrollments s))"
  then show "join_classroom up now eid s code u =
      Inr (s\<lparr>enrollments := enrollments s @
              [\<lparr>e_id = eid, e_studentId = u_id u, e_classroomId = c_id c, e_joinedAt = now\<rparr>]\<rparr>, c)"
    by (intro join_success [where c = c]) simp_all
next
  fix s' c
  assume j: "join_classroom up now eid s code u = Inr (s', c)"
  note d = join_Inr_D [OF j]
  from d show "length (enrollments s') = length (enrollments s) + 1" by simp
  from d show "users s' = users s" by simp
  from d show "classrooms s' = classrooms s" by simp
  from d show "materials s' = materials s" by simp
  {
    fix now2 eid2
    from d have "enrolled s' (u_id u) (c_id c)" by (simp add: enrolled_def)
    moreover from d have "find_one (\<lambda>c. c_code c = upper up code) (classrooms s') = Some c" by simp
    ultimately show "join_classroom up now2 eid2 s' code u =
        Inl (HTTPException 400 ''Already enrolled in this classroom'')"
      using d by (intro join_already [where c = c]) simp_all
  }
  {
    fix b :: user and now2 eid2
    assume b: "u_role b = STUDENT \<and> u_id b \<noteq> u_id u \<and> \<not> enrolled s (u_id b) (c_id c)
       \<and> eid2 \<notin> set (map e_id (enrollments s'))"
    with d have "\<not> enrolled s' (u_id b) (c_id c)" by (auto simp: enrolled_def)
    moreover from d have "find_one (\<lambda>c. c_code c = upper up code) (classrooms s') = Some c" by simp
    ultimately have "join_classroom up now2 eid2 s' code b =
       Inr (s'\<lparr>enrollments := enrollments s' @
              [\<lparr>e_id = eid2, e_studentId = u_id b, e_classroomId = c_id c, e_joinedAt = now2\<rparr>]\<rparr>, c)"
      using b d by (intro join_success [where c = c]) simp_all
    then show "\<exists>s''. join_classroom up now2 eid2 s' code b = Inr (s'', c)" by blast
  }
qed

lemmas ex_join_defs = ex_student_a_def ex_student_b_def ex_enrollment_a_def ex_db_join_def
  ex_db_joined_def ex_db_inactive_def ex_teacher_def ex_classroom1_def

lemma ex_upper: "upper ex_up ''abcdef'' = ''ABCDEF''"
  by code_simp

lemma ex_upper_unknown: "upper ex_up ''zzzzzz'' = ''ZZZZZZ''"
  by code_simp

text \<open>
  The example classroom with code ABCDEF: student A joins with the lowercase code, joins
  again, student B joins, the teacher tries to join, an unknown code is tried, and the
  classroom is inactive.
\<close>

theorem join_classroom_witness:
  "join_classroom ex_up 5 ''e1'' ex_db_join ''abcdef'' ex_student_a = Inr (ex_db_joined, ex_classroom1)
   \<and> join_classroom ex_up 6 ''e2'' ex_db_joined ''abcdef'' ex_student_a =
       Inl (HTTPException 400 ''Already enrolled in this classroom'')
   \<and> (\<exists>s''. join_classroom ex_up 6 ''e2'' ex_db_joined ''abcdef'' ex_student_b = Inr (s'', ex_classroom1))
   \<and> join_classroom ex_up 5 ''e1'' ex_db_join ''abcdef'' ex_teacher =
       Inl (HTTPException 403 ''Only students can join classrooms'')
   \<and> join_classroom ex_up 5 ''e1'' ex_db_join ''zzzzzz'' ex_student_a =
       Inl (HTTPException 404 ''Invalid classroom code'')
   \<and> join_classroom ex_up 5 ''e1'' ex_db_inactive ''abcdef'' ex_student_a =
       Inl (HTTPException 400 ''Classroom is not active'')
   \<and> valid_code ''ABCDEF'' \<and> upper ex_up (lower ''ABCDEF'') = ''ABCDEF''
   \<and> join_classroom ex_up 5 ''e1'' ex_db_join ''aBcDeF'' ex_student_a
       = join_classroom ex_up 5 ''e1'' ex_db_join ''abcdef'' ex_student_a"
proof -
  have role_a: "u_role ex_student_a = STUDENT" and role_b: "u_role ex_student_b = STUDENT"
    and role_t: "u_role ex_teacher \<noteq> STUDENT"
    by (simp_all add: ex_join_defs TEACHER_def STUDENT_def)
  have found: "find_one (\<lambda>c. c_code c = upper ex_up ''abcdef'') (classrooms ex_db_join) = Some ex_classroom1"
    by (simp add: ex_upper find_one_def ex_join_defs)
  have active: "c_isActive ex_classroom1" by (simp add: ex_join_defs)
  have fresh_a: "\<not> enrolled ex_db_join (u_id ex_student_a) (c_id ex_classroom1)"
    and fresh_b: "\<not> enrolled ex_db_join (u_id ex_student_b) (c_id ex_classroom1)"
    and eid1: "''e1'' \<notin> set (map e_id (enrollments ex_db_join))"
    and eid2: "''e2'' \<notin> set (map e_id (enrollments ex_db_joined))"
    and other: "u_id ex_student_b \<noteq> u_id ex_student_a"
    by (simp_all add: enrolled_def ex_join_defs)
  note A = join_classroom_behaviour [where u = ex_student_a and up = ex_up and now = 5
      and eid = "''e1''" and s = ex_db_join and code = "''abcdef''"]
  from A role_a found active fresh_a eid1
  have "join_classroom ex_up 5 ''e1'' ex_db_join ''abcdef'' ex_student_a =
      Inr (ex_db_join\<lparr>enrollments := enrollments ex_db_join @
              [\<lparr>e_id = ''e1'', e_studentId = u_id ex_student_a,
                e_classroomId = c_id ex_classroom1, e_joinedAt = 5\<rparr>]\<rparr>, ex_classroom1)"
    by blast
  then have j1: "join_classroom ex_up 5 ''e1'' ex_db_join ''abcdef'' ex_student_a =
      Inr (ex_db_joined, ex_classroom1)"
    by (simp add: ex_join_defs)
  from A j1 have j2: "join_classroom ex_up 6 ''e2'' ex_db_joined ''abcdef'' ex_student_a =
       Inl (HTTPException 400 ''Already enrolled in this classroom'')"
    by blast
  from A j1 role_b other fresh_b eid2
  have j3: "\<exists>s''. join_classroom ex_up 6 ''e2'' ex_db_joined ''abcdef'' ex_student_b = Inr (s'', ex_classroom1)"
    by blast
  from join_classroom_behaviour [where u = ex_teacher and up = ex_up and now = 5
      and eid = "''e1''" and s = ex_db_join and code = "''abcdef''"] role_t
  have j4: "join_classroom ex_up 5 ''e1'' ex_db_join ''abcdef'' ex_teacher =
       Inl (HTTPException 403 ''Only students can join classrooms'')"
    by blast
  have "upper ex_up ''zzzzzz'' \<notin> set (map c_code (classrooms ex_db_join))"
    by (simp add: ex_upper_unknown ex_join_defs)
  with join_classroom_behaviour [where u = ex_student_a and up = ex_up and now = 5
      and eid = "''e1''" and s = ex_db_join and code = "''zzzzzz''"] role_a
  have j5: "join_classroom ex_up 5 ''e1'' ex_db_join ''zzzzzz'' ex_student_a =
       Inl (HTTPException 404 ''Invalid classroom code'')"
    by blast
  have "find_one (\<lambda>c. c_code c = upper ex_up ''abcdef'') (classrooms ex_db_inactive)
      = Some (ex_classroom1\<lparr>c_isActive := False\<rparr>)"
    by (simp add: ex_upper find_one_def ex_join_defs)
  with join_classroom_behaviour [where u = ex_student_a and up = ex_up and now = 5
      and eid = "''e1''" and s = ex_db_inactive and code = "''abcdef''"] role_a
  have j6: "join_classroom ex_up 5 ''e1'' ex_db_inactive ''abcdef'' ex_student_a =
       Inl (HTTPException 400 ''Classroom is not active'')"
    by (simp add: ex_join_defs)
  have v: "valid_code ''ABCDEF''" by (simp add: valid_code_def code_alphabet_def)
  with A have j7: "upper ex_up (lower ''ABCDEF'') = ''ABCDEF''" by blast
  have "list_all is_ascii ''abcdef'' \<and> list_all is_ascii ''aBcDeF''
      \<and> map upper_char ''aBcDeF'' = map upper_char ''abcdef''"
    by code_simp
  with A have j8: "join_classroom ex_up 5 ''e1'' ex_db_join ''aBcDeF'' ex_student_a
       = join_classroom ex_up 5 ''e1'' ex_db_join ''abcdef'' ex_student_a"
    by blast
  from j1 j2 j3 j4 j5 j6 v j7 j8 show ?thesis by blast
qed

section \<open>Deleting a classroom\<close>

lemma find_one_delete_one_distinct:
  "distinct (map g xs) \<Longrightarrow> find_one (\<lambda>x. g x = k) (delete_one (\<lambda>x. g x = k) xs) = None"
proof (induction xs)
  case Nil
  show ?case by (simp add: find_one_def)
next
  case (Cons a xs)
  show ?case
  proof (cases "g a = k")
    case True
    with Cons.prems have "k \<notin> set (map g xs)" by auto
    with True show ?thesis by (simp add: find_one_key_None_iff)
  next
    case False
    with Cons show ?thesis by (simp add: find_one_def)
  qed
qed

lemma find_one_delete_many_key:
  assumes "distinct (map g xs)" and "x \<in> set xs" and "P x"
  shows "find_one (\<lambda>y. g y = g x) (delete_many P xs) = None"
proof -
  have "\<forall>y\<in>set (delete_many P xs). g y \<noteq> g x"
  proof
    fix y assume y: "y \<in> set (delete_many P xs)"
    show "g y \<noteq> g x"
    proof
      assume "g y = g x"
      moreover from y have "y \<in> set xs" by (simp add: delete_many_def)
      moreover from assms(1) have "inj_on g (set xs)" by (simp add: distinct_map)
      ultimately have "y = x" using assms(2) by (auto dest: inj_onD)
      with y assms(3) show False by (simp add: delete_many_def)
    qed
  qed
  then show ?thesis by (simp add: find_one_None_iff)
qed

lemma delete_classroom_succeeds:
  "find_one (\<lambda>c. c_id c = ident) (classrooms s) = Some c \<Longrightarrow> c_teacherId c = u_id u \<Longrightarrow>
     delete_classroom s ident u =
       Inr (s\<lparr>enrollments := delete_many (\<lambda>e. e_classroomId e = ident) (enrollments s),
              materials := delete_many (\<lambda>m. m_classroomId m = ident) (materials s),
              classrooms := delete_one (\<lambda>c. c_id c = ident) (classrooms s)\<rparr>)"
  by (simp add: delete_classroom_def delete_classroom_writes_def Let_def)

text \<open>
  Claim C5. For a classroom and its owning teacher \<^verbatim>\<open>delete_classroom\<close> succeeds. Its writes
  are, in this order, the deletion of the classroom's enrollments, of its materials and of
  the classroom itself: before the last write the classroom is still stored and no
  enrollment or material refers to it. In the database it returns, \<^verbatim>\<open>get_classroom\<close> on the
  classroom, \<^verbatim>\<open>get_materials\<close> on it and \<^verbatim>\<open>get_material\<close> on each of its former materials
  answer 404 to every user, and no enrollment for the classroom remains. The database is
  one that satisfies the unique indexes, as every reachable database does.
\<close>

theorem delete_classroom_cascade:
  assumes "indexes_ok s"
    and "find_one (\<lambda>c. c_id c = ident) (classrooms s) = Some c"
    and "c_teacherId c = u_id u"
  shows "\<exists>s1 s2 s'.
      delete_classroom s ident u = Inr s'
    \<and> delete_classroom_writes s ident = [s1, s2, s']
    \<and> classrooms s1 = classrooms s \<and> classrooms s2 = classrooms s
    \<and> filter (\<lambda>e. e_classroomId e = ident) (enrollments s1) = []
    \<and> filter (\<lambda>e. e_classroomId e = ident) (enrollments s2) = []
    \<and> filter (\<lambda>m. m_classroomId m = ident) (materials s2) = []
    \<and> filter (\<lambda>e. e_classroomId e = ident) (enrollments s') = []
    \<and> filter (\<lambda>m. m_classroomId m = ident) (materials s') = []
    \<and> (\<forall>v. get_classroom s' ident v = Inl (HTTPException 404 ''Classroom not found''))
    \<and> (\<forall>v. get_materials s' ident v = Inl (HTTPException 404 ''Classroom not found''))
    \<and> (\<forall>v. \<forall>m\<in>set (materials s). m_classroomId m = ident \<longrightarrow>
          get_material s' (m_id m) v = Inl (HTTPException 404 ''Material not found''))"
proof -
  let ?s1 = "s\<lparr>enrollments := delete_many (\<lambda>e. e_classroomId e = ident) (enrollments s)\<rparr>"
  let ?s2 = "?s1\<lparr>materials := delete_many (\<lambda>m. m_classroomId m = ident) (materials s)\<rparr>"
  let ?s' = "?s2\<lparr>classrooms := delete_one (\<lambda>c. c_id c = ident) (classrooms s)\<rparr>"
  have w: "delete_classroom_writes s ident = [?s1, ?s2, ?s']"
    by (simp add: delete_classroom_writes_def Let_def)
  have d: "delete_classroom s ident u = Inr ?s'"
    using assms(2,3) by (simp add: delete_classroom_def w)
  from assms(1) have "distinct (map c_id (classrooms s))" by (simp add: indexes_ok_def)
  then have gone: "find_one (\<lambda>c. c_id c = ident) (classrooms ?s') = None"
    by (simp add: find_one_delete_one_distinct)
  have gc: "\<forall>v. get_classroom ?s' ident v = Inl (HTTPException 404 ''Classroom not found'')"
    using gone by (simp add: get_classroom_def)
  have gms: "\<forall>v. get_materials ?s' ident v = Inl (HTTPException 404 ''Classroom not found'')"
    using gone by (simp add: get_materials_def)
  have gm: "\<forall>v. \<forall>m\<in>set (materials s). m_classroomId m = ident \<longrightarrow>
          get_material ?s' (m_id m) v = Inl (HTTPException 404 ''Material not found'')"
  proof (intro allI ballI impI)
    fix v m assume m: "m \<in> set (materials s)" "m_classroomId m = ident"
    from assms(1) have "distinct (map m_id (materials s))" by (simp add: indexes_ok_def)
    from find_one_delete_many_key [OF this m(1), of "\<lambda>m. m_classroomId m = ident"] m(2)
    have "find_one (\<lambda>y. m_id y = m_id m) (materials ?s') = None" by simp
    then show "get_material ?s' (m_id m) v = Inl (HTTPException 404 ''Material not found'')"
      by (simp add: get_material_def)
  qed
  have f1: "filter (\<lambda>e. e_classroomId e = ident) (enrollments ?s1) = []"
    and f2: "filter (\<lambda>m. m_classroomId m = ident) (materials ?s2) = []"
    by (simp_all add: delete_many_def)
  show ?thesis
    apply (rule exI [of _ ?s1], rule exI [of _ ?s2], rule exI [of _ ?s'])
    using d w gc gms gm f1 f2 by simp
qed

lemmas ex_mat_defs = ex_material1_def ex_material2_def ex_material3_def ex_db_mat_def
  ex_db_deleted_def ex_student_a_def ex_student_b_def ex_enrollment_a_def ex_teacher_def
  ex_classroom1_def

lemma ex_db_mat_indexes: "indexes_ok ex_db_mat"
  by (simp add: indexes_ok_def ex_mat_defs)

lemma ex_db_mat_classroom:
  "find_one (\<lambda>c. c_id c = ''c1'') (classrooms ex_db_mat) = Some ex_classroom1"
  by (simp add: find_one_def ex_db_mat_def ex_classroom1_def)

text \<open>
  The example classroom with one enrollment and three materials is deleted by its teacher.
\<close>

theorem delete_classroom_cascade_witness:
  "delete_classroom ex_db_mat ''c1'' ex_teacher = Inr ex_db_deleted
   \<and> get_classroom ex_db_deleted ''c1'' ex_teacher = Inl (HTTPException 404 ''Classroom not found'')
   \<and> get_materials ex_db_deleted ''c1'' ex_student_a = Inl (HTTPException 404 ''Classroom not found'')
   \<and> get_material ex_db_deleted ''m2'' ex_teacher = Inl (HTTPException 404 ''Material not found'')
   \<and> enrollments ex_db_deleted = []"
proof -
  have owner: "c_teacherId ex_classroom1 = u_id ex_teacher"
    by (simp add: ex_classroom1_def ex_teacher_def)
  from delete_classroom_cascade [OF ex_db_mat_indexes ex_db_mat_classroom owner]
  obtain s' where d: "delete_classroom ex_db_mat ''c1'' ex_teacher = Inr s'"
    and gc: "\<forall>v. get_classroom s' ''c1'' v = Inl (HTTPException 404 ''Classroom not found'')"
    and gms: "\<forall>v. get_materials s' ''c1'' v = Inl (HTTPException 404 ''Classroom not found'')"
    and gm: "\<forall>v. \<forall>m\<in>set (materials ex_db_mat). m_classroomId m = ''c1'' \<longrightarrow>
          get_material s' (m_id m) v = Inl (HTTPException 404 ''Material not found'')"
    by blast
  have "delete_classroom ex_db_mat ''c1'' ex_teacher = Inr ex_db_deleted"
    by (simp add: delete_classroom_def delete_classroom_writes_def delete_many_def find_one_def
        Let_def ex_mat_defs)
  with d have s': "s' = ex_db_deleted" by simp
  have m2: "ex_material2 \<in> set (materials ex_db_mat)" "m_classroomId ex_material2 = ''c1''"
    "m_id ex_material2 = ''m2''"
    by (simp_all add: ex_db_mat_def ex_material2_def ex_material1_def)
  from gm m2 have "get_material s' ''m2'' ex_teacher = Inl (HTTPException 404 ''Material not found'')"
    by metis
  with d gc gms s' show ?thesis by (simp add: ex_db_deleted_def)
qed

section \<open>Creating a material\<close>

lemma find_one_order_desc_None_iff:
  "find_one_order_desc P ms = None \<longleftrightarrow> filter P ms = []"
proof -
  have "sort_key (\<lambda>m. - m_order m) (filter P ms) = [] \<longleftrightarrow> filter P ms = []"
    by (metis length_sort length_0_conv)
  then show ?thesis by (cases "sort_key (\<lambda>m. - m_order m) (filter P ms)") (simp_all add: find_one_order_desc_def)
qed

lemma find_one_order_desc_Some:
  assumes "find_one_order_desc P ms = Some m"
  shows "m \<in> set (filter P ms) \<and> m_order m = Max (set (map m_order (filter P ms)))"
proof -
  from assms obtain rest where srt: "sort_key (\<lambda>m. - m_order m) (filter P ms) = m # rest"
    by (auto simp: find_one_order_desc_def split: list.splits)
  have "set (sort_key (\<lambda>m. - m_order m) (filter P ms)) = set (filter P ms)" by simp
  with srt have mem: "m \<in> set (filter P ms)" and sub: "set (filter P ms) = insert m (set rest)"
    by auto
  have "sorted (map (\<lambda>m. - m_order m) (sort_key (\<lambda>m. - m_order m) (filter P ms)))"
    by (rule sorted_sort_key)
  with srt have "\<forall>x\<in>set rest. m_order x \<le> m_order m" by auto
  with sub have "\<forall>x\<in>set (filter P ms). m_order x \<le> m_order m" by auto
  then have "Max (set (map m_order (filter P ms))) = m_order m"
    using mem by (intro Max_eqI) auto
  with mem show ?thesis by simp
qed

lemma create_material_next_order:
  "(case find_one_order_desc (\<lambda>m. m_classroomId m = classroomId) (materials s) of
      None \<Rightarrow> 1 | Some last_material \<Rightarrow> m_order last_material + 1) = next_order s classroomId"
proof (cases "find_one_order_desc (\<lambda>m. m_classroomId m = classroomId) (materials s)")
  case None
  moreover from None have "filter (\<lambda>m. m_classroomId m = classroomId) (materials s) = []"
    by (simp add: find_one_order_desc_None_iff)
  ultimately show ?thesis by (simp add: next_order_def)
next
  case (Some m)
  note fo = find_one_order_desc_Some [OF Some]
  from fo have "m \<in> set (filter (\<lambda>m. m_classroomId m = classroomId) (materials s))" by (rule conjunct1)
  then have "filter (\<lambda>m. m_classroomId m = classroomId) (materials s) \<noteq> []"
    by (metis empty_iff empty_set)
  moreover from fo
  have "m_order m = Max (set (map m_order (filter (\<lambda>m. m_classroomId m = classroomId) (materials s))))"
    by (rule conjunct2)
  ultimately
  have "filter (\<lambda>m. m_classroomId m = classroomId) (materials s) \<noteq> []"
    and "m_order m = Max (set (map m_order (filter (\<lambda>m. m_classroomId m = classroomId) (materials s))))"
    by blast+
  with Some show ?thesis by (simp add: next_order_def)
qed

lemma create_material_succeeds:
  assumes "find_one (\<lambda>c. c_id c = classroomId) (classrooms s) = Some c"
    and "c_teacherId c = u_id u"
    and "mc_type data \<in> {TEXT, FILE, VIDEO, MODEL3D}"
    and "int64 (next_order s classroomId)"
    and "material_id \<notin> set (map m_id (materials s))"
    and "doc = \<lparr>m_id = material_id, m_title = mc_title data,
                   m_description = mc_description data, m_type = mc_type data,
                   m_content = mc_content data, m_fileUrl = mc_fileUrl data,
                   m_fileName = mc_fileName data, m_videoUrl = mc_videoUrl data,
                   m_modelUrl = mc_modelUrl data,
                   m_arEnabled = (case mc_arEnabled data of None \<Rightarrow> True | Some v \<Rightarrow> v),
                   m_modelScale = (case mc_modelScale data of None \<Rightarrow> 1.0 | Some v \<Rightarrow> v),
                   m_order = next_order s classroomId,
                   m_isPublished = (case mc_isPublished data of None \<Rightarrow> True | Some v \<Rightarrow> v),
                   m_classroomId = classroomId, m_createdById = u_id u,
                   m_createdAt = now, m_updatedAt = now\<rparr>"
  shows "create_material now material_id s classroomId data u =
      Inr (s\<lparr>materials := materials s @ [doc]\<rparr>, doc, Some (creator_summary u))"
  using assms(1-5) unfolding create_material_def create_material_next_order assms(6)
  by (simp add: insert_material_def Let_def)

lemma create_material_overflows:
  assumes "find_one (\<lambda>c. c_id c = classroomId) (classrooms s) = Some c"
    and "c_teacherId c = u_id u"
    and "mc_type data \<in> {TEXT, FILE, VIDEO, MODEL3D}"
    and "\<not> int64 (next_order s classroomId)"
  shows "create_material now material_id s classroomId data u = Inl OverflowError"
  using assms unfolding create_material_def create_material_next_order
  by (simp add: insert_material_def Let_def)

text \<open>
  Claim C6, as the code has it. For a classroom owned by the caller, \<^verbatim>\<open>create_material\<close>
  answers 400 (invalid material type) when the type is none of TEXT, FILE, VIDEO and
  MODEL3D. Otherwise the next order is 1 when the classroom has no material and the
  greatest order among the classroom's materials plus 1 when it has. When that order is a
  signed 64-bit integer (and the \<^verbatim>\<open>uuid4\<close> identifier is new) one material is appended
  to the classroom with that order, whose \<^verbatim>\<open>arEnabled\<close>, \<^verbatim>\<open>modelScale\<close> and
  \<^verbatim>\<open>isPublished\<close> are the given values, or true, 1.0 and true where the field is absent.
  When it is not, the insert raises \<^verbatim>\<open>OverflowError\<close> and nothing is created.
\<close>

theorem create_material_order_and_defaults:
  assumes "find_one (\<lambda>c. c_id c = classroomId) (classrooms s) = Some c"
    and "c_teacherId c = u_id u"
  shows "(mc_type data \<notin> {TEXT, FILE, VIDEO, MODEL3D} \<longrightarrow>
            create_material now material_id s classroomId data u =
              Inl (HTTPException 400 ''Invalid material type''))
    \<and> (mc_type data \<in> {TEXT, FILE, VIDEO, MODEL3D}
          \<and> int64 (next_order s classroomId)
          \<and> material_id \<notin> set (map m_id (materials s)) \<longrightarrow>
        (\<exists>s' doc.
            create_material now material_id s classroomId data u =
              Inr (s', doc, Some (creator_summary u))
          \<and> materials s' = materials s @ [doc]
          \<and> m_id doc = material_id \<and> m_classroomId doc = classroomId
          \<and> m_type doc = mc_type data
          \<and> m_order doc = next_order s classroomId
          \<and> m_order doc =
               (if filter (\<lambda>m. m_classroomId m = classroomId) (materials s) = [] then 1
                else Max (set (map m_order
                       (filter (\<lambda>m. m_classroomId m = classroomId) (materials s)))) + 1)
          \<and> m_arEnabled doc = (case mc_arEnabled data of None \<Rightarrow> True | Some v \<Rightarrow> v)
          \<and> m_modelScale doc = (case mc_modelScale data of None \<Rightarrow> 1.0 | Some v \<Rightarrow> v)
          \<and> m_isPublished doc = (case mc_isPublished data of None \<Rightarrow> True | Some v \<Rightarrow> v)))
    \<and> (mc_type data \<in> {TEXT, FILE, VIDEO, MODEL3D}
          \<and> \<not> int64 (next_order s classroomId) \<longrightarrow>
        create_material now material_id s classroomId data u = Inl OverflowError)"
proof (intro conjI impI)
  assume "mc_type data \<notin> {TEXT, FILE, VIDEO, MODEL3D}"
  with assms show "create_material now material_id s classroomId data u =
      Inl (HTTPException 400 ''Invalid material type'')"
    by (simp add: create_material_def)
next
  assume a: "mc_type data \<in> {TEXT, FILE, VIDEO, MODEL3D}
      \<and> int64 (next_order s classroomId)
      \<and> material_id \<notin> set (map m_id (materials s))"
  let ?doc = "\<lparr>m_id = material_id, m_title = mc_title data,
                   m_description = mc_description data, m_type = mc_type data,
                   m_content = mc_content data, m_fileUrl = mc_fileUrl data,
                   m_fileName = mc_fileName data, m_videoUrl = mc_videoUrl data,
                   m_modelUrl = mc_modelUrl data,
                   m_arEnabled = (case mc_arEnabled data of None \<Rightarrow> True | Some v \<Rightarrow> v),
                   m_modelScale = (case mc_modelScale data of None \<Rightarrow> 1.0 | Some v \<Rightarrow> v),
                   m_order = next_order s classroomId,
                   m_isPublished = (case mc_isPublished data of None \<Rightarrow> True | Some v \<Rightarrow> v),
                   m_classroomId = classroomId, m_createdById = u_id u,
                   m_createdAt = now, m_updatedAt = now\<rparr>"
  from a have "mc_type data \<in> {TEXT, FILE, VIDEO, MODEL3D}"
    and "int64 (next_order s classroomId)"
    and "material_id \<notin> set (map m_id (materials s))" by simp_all
  from create_material_succeeds [OF assms this refl]
  have "create_material now material_id s classroomId data u =
      Inr (s\<lparr>materials := materials s @ [?doc]\<rparr>, ?doc, Some (creator_summary u))" .
  then show "\<exists>s' doc.
            create_material now material_id s classroomId data u =
              Inr (s', doc, Some (creator_summary u))
          \<and> materials s' = materials s @ [doc]
          \<and> m_id doc = material_id \<and> m_classroomId doc = classroomId
          \<and> m_type doc = mc_type data
          \<and> m_order doc = next_order s classroomId
          \<and> m_order doc =
               (if filter (\<lambda>m. m_classroomId m = classroomId) (materials s) = [] then 1
                else Max (set (map m_order
                       (filter (\<lambda>m. m_classroomId m = classroomId) (materials s)))) + 1)
          \<and> m_arEnabled doc = (case mc_arEnabled data of None \<Rightarrow> True | Some v \<Rightarrow> v)
          \<and> m_modelScale doc = (case mc_modelScale data of None \<Rightarrow> 1.0 | Some v \<Rightarrow> v)
          \<and> m_isPublished doc = (case mc_isPublished data of None \<Rightarrow> True | Some v \<Rightarrow> v)"
    by (intro exI [of _ "s\<lparr>materials := materials s @ [?doc]\<rparr>"] exI [of _ ?doc])
       (simp add: next_order_def)
next
  assume "mc_type data \<in> {TEXT, FILE, VIDEO, MODEL3D} \<and> \<not> int64 (next_order s classroomId)"
  then have "mc_type data \<in> {TEXT, FILE, VIDEO, MODEL3D}"
    and "\<not> int64 (next_order s classroomId)" by simp_all
  from create_material_overflows [OF assms this]
  show "create_material now material_id s classroomId data u = Inl OverflowError" .
qed

lemma ex_db_join_classroom:
  "find_one (\<lambda>c. c_id c = ''c1'') (classrooms ex_db_join) = Some ex_classroom1"
  by (simp add: find_one_def ex_db_join_def ex_classroom1_def)

lemma ex_teacher_owns: "c_teacherId ex_classroom1 = u_id ex_teacher"
  by (simp add: ex_classroom1_def ex_teacher_def)

text \<open>
  The teacher of the example creates a MODEL3D material with none of the optional flags:
  in the classroom with orders 1, 2 and 3 it gets order 4, in the classroom without
  materials order 1, and the unknown type AUDIO is refused. In a classroom whose one
  material has the greatest 64-bit order the creation raises \<^verbatim>\<open>OverflowError\<close>.
\<close>

theorem create_material_witness:
  "(\<exists>s' doc. create_material 7 ''m4'' ex_db_mat ''c1'' ex_mc ex_teacher =
               Inr (s', doc, Some (creator_summary ex_teacher))
        \<and> materials s' = materials ex_db_mat @ [doc]
        \<and> m_order doc = 4 \<and> m_arEnabled doc \<and> m_modelScale doc = 1 \<and> m_isPublished doc)
   \<and> (\<exists>s' doc. create_material 7 ''m4'' ex_db_join ''c1'' ex_mc ex_teacher =
               Inr (s', doc, Some (creator_summary ex_teacher))
        \<and> m_order doc = 1 \<and> m_arEnabled doc \<and> m_modelScale doc = 1 \<and> m_isPublished doc)
   \<and> create_material 7 ''m4'' ex_db_mat ''c1'' (ex_mc\<lparr>mc_type := ''AUDIO''\<rparr>) ex_teacher =
        Inl (HTTPException 400 ''Invalid material type'')
   \<and> create_material 7 ''m4''
        (ex_db_mat\<lparr>materials := [ex_material1\<lparr>m_order := 9223372036854775807\<rparr>]\<rparr>) ''c1'' ex_mc
        ex_teacher = Inl OverflowError"
proof -
  have ty: "mc_type ex_mc \<in> {TEXT, FILE, VIDEO, MODEL3D}" by (simp add: ex_mc_def)
  have bad: "mc_type (ex_mc\<lparr>mc_type := ''AUDIO''\<rparr>) \<notin> {TEXT, FILE, VIDEO, MODEL3D}"
    by (simp add: TEXT_def FILE_def VIDEO_def MODEL3D_def)
  have fresh: "''m4'' \<notin> set (map m_id (materials ex_db_mat))"
    "''m4'' \<notin> set (map m_id (materials ex_db_join))"
    by (simp_all add: ex_mat_defs ex_db_join_def)
  have flags: "mc_arEnabled ex_mc = None" "mc_modelScale ex_mc = None" "mc_isPublished ex_mc = None"
    by (simp_all add: ex_mc_def)
  have ord_mat: "next_order ex_db_mat ''c1'' = 4"
    by (simp add: next_order_def ex_mat_defs)
  have ord_join: "next_order ex_db_join ''c1'' = 1"
    by (simp add: next_order_def ex_db_join_def)
  have i64: "int64 4" "int64 1" by (simp_all add: int64_def)
  note on_mat = create_material_order_and_defaults
         [OF ex_db_mat_classroom ex_teacher_owns,
          where data = ex_mc and material_id = "''m4''" and now = 7,
          THEN conjunct2, THEN conjunct1, rule_format, unfolded ord_mat flags]
  note on_join = create_material_order_and_defaults
         [OF ex_db_join_classroom ex_teacher_owns,
          where data = ex_mc and material_id = "''m4''" and now = 7,
          THEN conjunct2, THEN conjunct1, rule_format, unfolded ord_join flags]
  from on_mat [OF conjI [OF ty conjI [OF i64(1) fresh(1)]]]
  have a: "\<exists>s' doc. create_material 7 ''m4'' ex_db_mat ''c1'' ex_mc ex_teacher =
               Inr (s', doc, Some (creator_summary ex_teacher))
        \<and> materials s' = materials ex_db_mat @ [doc]
        \<and> m_order doc = 4 \<and> m_arEnabled doc \<and> m_modelScale doc = 1 \<and> m_isPublished doc"
    by auto
  from on_join [OF conjI [OF ty conjI [OF i64(2) fresh(2)]]]
  have b: "\<exists>s' doc. create_material 7 ''m4'' ex_db_join ''c1'' ex_mc ex_teacher =
               Inr (s', doc, Some (creator_summary ex_teacher))
        \<and> m_order doc = 1 \<and> m_arEnabled doc \<and> m_modelScale doc = 1 \<and> m_isPublished doc"
    by auto
  from create_material_order_and_defaults
         [OF ex_db_mat_classroom ex_teacher_owns,
          where data = "ex_mc\<lparr>mc_type := ''AUDIO''\<rparr>" and material_id = "''m4''" and now = 7,
          THEN conjunct1, rule_format, OF bad]
  have c: "create_material 7 ''m4'' ex_db_mat ''c1'' (ex_mc\<lparr>mc_type := ''AUDIO''\<rparr>) ex_teacher =
        Inl (HTTPException 400 ''Invalid material type'')" .
  let ?full = "ex_db_mat\<lparr>materials := [ex_material1\<lparr>m_order := 9223372036854775807\<rparr>]\<rparr>"
  have cls: "find_one (\<lambda>c. c_id c = ''c1'') (classrooms ?full) = Some ex_classroom1"
    using ex_db_mat_classroom by simp
  have "next_order ?full ''c1'' = 9223372036854775808"
    by (simp add: next_order_def ex_material1_def)
  then have big: "\<not> int64 (next_order ?full ''c1'')" by (simp add: int64_def)
  from create_material_order_and_defaults
         [OF cls ex_teacher_owns,
          where data = ex_mc and material_id = "''m4''" and now = 7,
          THEN conjunct2, THEN conjunct2, rule_format, OF conjI [OF ty big]]
  have d: "create_material 7 ''m4'' ?full ''c1'' ex_mc ex_teacher = Inl OverflowError" .
  show ?thesis by (rule conjI [OF a conjI [OF b conjI [OF c d]]])
qed

section \<open>Reordering materials\<close>

lemma find_one_update_one_key:
  assumes "\<And>x. g (f x) = g x"
  shows "find_one (\<lambda>x. g x = k) (update_one (\<lambda>x. g x = k') f xs) =
     (if k = k' then map_option f (find_one (\<lambda>x. g x = k) xs) else find_one (\<lambda>x. g x = k) xs)"
  by (induction xs) (auto simp: find_one_def assms)

lemma find_one_reorder_loop_other:
  "k \<notin> set ids \<Longrightarrow>
     find_one (\<lambda>m. m_id m = k) (reorder_loop n ids ms) = find_one (\<lambda>m. m_id m = k) ms"
proof (induction n ids ms rule: reorder_loop.induct)
  case (1 index ms)
  show ?case by simp
next
  case (2 index material_id rest ms)
  then show ?case
    by (simp add: find_one_update_one_key [where g = m_id])
qed

lemma find_one_reorder_loop_last:
  "i < length ids \<Longrightarrow> ids ! i = k \<Longrightarrow> (\<forall>j. i < j \<and> j < length ids \<longrightarrow> ids ! j \<noteq> k) \<Longrightarrow>
     find_one (\<lambda>m. m_id m = k) (reorder_loop n ids ms) =
       map_option (\<lambda>m. m\<lparr>m_order := int (n + i) + 1\<rparr>) (find_one (\<lambda>m. m_id m = k) ms)"
proof (induction n ids ms arbitrary: i rule: reorder_loop.induct)
  case (1 index ms)
  then show ?case by simp
next
  case (2 index material_id rest ms)
  let ?ms = "update_one (\<lambda>m. m_id m = material_id) (\<lambda>m. m\<lparr>m_order := int index + 1\<rparr>) ms"
  show ?case
  proof (cases i)
    case 0
    with 2(3) have k: "material_id = k" by simp
    have "k \<notin> set rest"
    proof
      assume "k \<in> set rest"
      then obtain j where "j < length rest" "rest ! j = k" by (auto simp: in_set_conv_nth)
      with 2(4) 0 show False by (auto dest: spec [of _ "Suc j"])
    qed
    then have "find_one (\<lambda>m. m_id m = k) (reorder_loop (index + 1) rest ?ms)
        = find_one (\<lambda>m. m_id m = k) ?ms"
      by (rule find_one_reorder_loop_other)
    with k 0 show ?thesis by (simp add: find_one_update_one_key [where g = m_id])
  next
    case (Suc i')
    with 2(2) have i': "i' < length rest" by simp
    from Suc 2(3) have nth: "rest ! i' = k" by simp
    have later: "\<forall>j. i' < j \<and> j < length rest \<longrightarrow> rest ! j \<noteq> k"
    proof (intro allI impI)
      fix j assume "i' < j \<and> j < length rest"
      with 2(4) Suc show "rest ! j \<noteq> k" by (auto dest: spec [of _ "Suc j"])
    qed
    from 2(1) [OF i' nth later]
    have "find_one (\<lambda>m. m_id m = k) (reorder_loop (index + 1) rest ?ms) =
       map_option (\<lambda>m. m\<lparr>m_order := int (index + 1 + i') + 1\<rparr>) (find_one (\<lambda>m. m_id m = k) ?ms)" .
    with Suc show ?thesis
      by (simp add: find_one_update_one_key [where g = m_id] option.map_comp comp_def)
  qed
qed

text \<open>
  Claim C7. For a classroom owned by the caller \<^verbatim>\<open>reorder_materials\<close> succeeds on every
  list of ids: no id is rejected, whether or not it is the id of a material of this
  classroom or of any material. It writes only the \<^verbatim>\<open>order\<close> of materials. Each id is
  written on its own: the material stored under the i-th id has order i + 1 afterwards
  (when the id occurs again later in the list, that later position decides), and a
  material whose id is not in the list is as it was.
\<close>

theorem reorder_materials_orders:
  assumes "find_one (\<lambda>c. c_id c = classroomId) (classrooms s) = Some c"
    and "c_teacherId c = u_id u"
  shows "\<exists>s'. reorder_materials s classroomId materialIds u = Inr s'
     \<and> users s' = users s \<and> classrooms s' = classrooms s \<and> enrollments s' = enrollments s
     \<and> map m_id (materials s') = map m_id (materials s)
     \<and> map m_classroomId (materials s') = map m_classroomId (materials s)
     \<and> (\<forall>i m. i < length materialIds
            \<and> (\<forall>j. i < j \<and> j < length materialIds \<longrightarrow> materialIds ! j \<noteq> materialIds ! i)
            \<and> find_one (\<lambda>x. m_id x = materialIds ! i) (materials s) = Some m \<longrightarrow>
            find_one (\<lambda>x. m_id x = materialIds ! i) (materials s')
              = Some (m\<lparr>m_order := int i + 1\<rparr>))
     \<and> (\<forall>k. k \<notin> set materialIds \<longrightarrow>
            find_one (\<lambda>x. m_id x = k) (materials s') = find_one (\<lambda>x. m_id x = k) (materials s))"
proof -
  let ?s' = "s\<lparr>materials := reorder_loop 0 materialIds (materials s)\<rparr>"
  from assms have r: "reorder_materials s classroomId materialIds u = Inr ?s'"
    by (simp add: reorder_materials_def)
  have ids: "map m_id (materials ?s') = map m_id (materials s)"
    and cls: "map m_classroomId (materials ?s') = map m_classroomId (materials s)"
    by (simp_all add: map_reorder_loop)
  have pos: "\<forall>i m. i < length materialIds
            \<and> (\<forall>j. i < j \<and> j < length materialIds \<longrightarrow> materialIds ! j \<noteq> materialIds ! i)
            \<and> find_one (\<lambda>x. m_id x = materialIds ! i) (materials s) = Some m \<longrightarrow>
            find_one (\<lambda>x. m_id x = materialIds ! i) (materials ?s')
              = Some (m\<lparr>m_order := int i + 1\<rparr>)"
  proof (intro allI impI)
    fix i m
    assume a: "i < length materialIds
            \<and> (\<forall>j. i < j \<and> j < length materialIds \<longrightarrow> materialIds ! j \<noteq> materialIds ! i)
            \<and> find_one (\<lambda>x. m_id x = materialIds ! i) (materials s) = Some m"
    then have "find_one (\<lambda>m. m_id m = materialIds ! i) (reorder_loop 0 materialIds (materials s)) =
       map_option (\<lambda>m. m\<lparr>m_order := int (0 + i) + 1\<rparr>)
         (find_one (\<lambda>m. m_id m = materialIds ! i) (materials s))"
      by (intro find_one_reorder_loop_last) simp_all
    with a show "find_one (\<lambda>x. m_id x = materialIds ! i) (materials ?s')
              = Some (m\<lparr>m_order := int i + 1\<rparr>)"
      by simp
  qed
  have other: "\<forall>k. k \<notin> set materialIds \<longrightarrow>
            find_one (\<lambda>x. m_id x = k) (materials ?s') = find_one (\<lambda>x. m_id x = k) (materials s)"
    by (simp add: find_one_reorder_loop_other)
  show ?thesis
    apply (rule exI [of _ ?s'])
    using r ids cls pos other by simp
qed

lemma distinct_later:
  assumes "distinct ids" and "i < length ids"
  shows "\<forall>j. i < j \<and> j < length ids \<longrightarrow> ids ! j \<noteq> ids ! i"
  using assms by (auto simp: nth_eq_iff_index_eq)

text \<open>
  The example classroom with materials m1, m2, m3 in the orders 1, 2, 3 is reordered to
  m3, m1, m2; and an id that no material has is accepted.
\<close>

theorem reorder_materials_witness:
  "(\<exists>s'. reorder_materials ex_db_mat ''c1'' [''m3'', ''m1'', ''m2''] ex_teacher = Inr s'
       \<and> find_one (\<lambda>x. m_id x = ''m3'') (materials s') = Some (ex_material3\<lparr>m_order := 1\<rparr>)
       \<and> find_one (\<lambda>x. m_id x = ''m1'') (materials s') = Some (ex_material1\<lparr>m_order := 2\<rparr>)
       \<and> find_one (\<lambda>x. m_id x = ''m2'') (materials s') = Some (ex_material2\<lparr>m_order := 3\<rparr>))
   \<and> (\<exists>s'. reorder_materials ex_db_mat ''c1'' [''m9''] ex_teacher = Inr s'
       \<and> find_one (\<lambda>x. m_id x = ''m1'') (materials s') = Some ex_material1)"
proof -
  let ?ids = "[''m3'', ''m1'', ''m2'']"
  have d: "distinct ?ids" by simp
  have f: "find_one (\<lambda>x. m_id x = ?ids ! 0) (materials ex_db_mat) = Some ex_material3"
    "find_one (\<lambda>x. m_id x = ?ids ! 1) (materials ex_db_mat) = Some ex_material1"
    "find_one (\<lambda>x. m_id x = ?ids ! 2) (materials ex_db_mat) = Some ex_material2"
    "find_one (\<lambda>x. m_id x = ''m1'') (materials ex_db_mat) = Some ex_material1"
    by (simp_all add: find_one_def ex_db_mat_def ex_material1_def ex_material2_def ex_material3_def)
  from reorder_materials_orders [OF ex_db_mat_classroom ex_teacher_owns, where materialIds = ?ids]
  obtain s' where r: "reorder_materials ex_db_mat ''c1'' ?ids ex_teacher = Inr s'"
    and pos: "\<forall>i m. i < length ?ids
            \<and> (\<forall>j. i < j \<and> j < length ?ids \<longrightarrow> ?ids ! j \<noteq> ?ids ! i)
            \<and> find_one (\<lambda>x. m_id x = ?ids ! i) (materials ex_db_mat) = Some m \<longrightarrow>
            find_one (\<lambda>x. m_id x = ?ids ! i) (materials s') = Some (m\<lparr>m_order := int i + 1\<rparr>)"
    by blast
  from pos [rule_format, of 0 ex_material3] distinct_later [OF d, of 0] f(1)
  have p0: "find_one (\<lambda>x. m_id x = ''m3'') (materials s') = Some (ex_material3\<lparr>m_order := 1\<rparr>)"
    by simp
  from pos [rule_format, of 1 ex_material1] distinct_later [OF d, of 1] f(2)
  have p1: "find_one (\<lambda>x. m_id x = ''m1'') (materials s') = Some (ex_material1\<lparr>m_order := 2\<rparr>)"
    by simp
  from pos [rule_format, of 2 ex_material2] distinct_later [OF d, of 2] f(3)
  have p2: "find_one (\<lambda>x. m_id x = ''m2'') (materials s') = Some (ex_material2\<lparr>m_order := 3\<rparr>)"
    by simp
  from reorder_materials_orders [OF ex_db_mat_classroom ex_teacher_owns, where materialIds = "[''m9'']"]
  obtain s'' where r': "reorder_materials ex_db_mat ''c1'' [''m9''] ex_teacher = Inr s''"
    and other: "\<forall>k. k \<notin> set [''m9''] \<longrightarrow>
            find_one (\<lambda>x. m_id x = k) (materials s'') = find_one (\<lambda>x. m_id x = k) (materials ex_db_mat)"
    by blast
  from other [rule_format, of "''m1''"] f(4)
  have q: "find_one (\<lambda>x. m_id x = ''m1'') (materials s'') = Some ex_material1" by simp
  from r p0 p1 p2 r' q show ?thesis by blast
qed

section \<open>Reading materials\<close>

lemma TEACHER_neq_STUDENT: "TEACHER \<noteq> STUDENT"
  by (simp add: TEACHER_def STUDENT_def)

lemma find_one_distinct_mem:
  "distinct (map g xs) \<Longrightarrow> x \<in> set xs \<Longrightarrow> find_one (\<lambda>y. g y = g x) xs = Some x"
proof (induction xs)
  case Nil
  then show ?case by simp
next
  case (Cons a xs)
  show ?case
  proof (cases "a = x")
    case True
    then show ?thesis by (simp add: find_one_def)
  next
    case False
    with Cons.prems have "x \<in> set xs" by simp
    with Cons.prems have "g a \<noteq> g x" by auto
    with Cons \<open>x \<in> set xs\<close> show ?thesis by (simp add: find_one_def)
  qed
qed

lemma fst_enrich: "fst (enrich_material s m) = m"
  by (simp add: enrich_material_def)

lemma fst_enrich_material: "map fst (map (enrich_material s) ms) = ms"
  by (induction ms) (simp_all add: fst_enrich)

lemma materials_query_sorted: "sorted (map m_order (materials_query s cid u))"
proof -
  have "sorted (map m_order (sort_key m_order
       (filter (\<lambda>m. m_classroomId m = cid \<and> (if u_role u = STUDENT then m_isPublished m = True else True))
          (materials s))))"
    by (rule sorted_sort_key)
  then show ?thesis
    unfolding materials_query_def take_map [symmetric] by (rule sorted_wrt_take)
qed

lemma materials_query_length: "length (materials_query s cid u) \<le> 100"
  by (simp add: materials_query_def)

lemma materials_query_subset:
  "set (materials_query s cid u) \<subseteq>
     {m \<in> set (materials s). m_classroomId m = cid \<and> (u_role u = STUDENT \<longrightarrow> m_isPublished m)}"
proof -
  have "set (materials_query s cid u) \<subseteq> set (sort_key m_order
       (filter (\<lambda>m. m_classroomId m = cid \<and> (if u_role u = STUDENT then m_isPublished m = True else True))
          (materials s)))"
    unfolding materials_query_def by (rule set_take_subset)
  then show ?thesis by auto
qed

lemma materials_query_all:
  assumes "length (filter (\<lambda>m. m_classroomId m = cid) (materials s)) \<le> 100"
    and "u_role u \<noteq> STUDENT"
  shows "set (materials_query s cid u) = {m \<in> set (materials s). m_classroomId m = cid}"
proof -
  from assms(2) have "materials_query s cid u =
      take 100 (sort_key m_order (filter (\<lambda>m. m_classroomId m = cid) (materials s)))"
    by (simp add: materials_query_def)
  with assms(1) show ?thesis by simp
qed

lemma get_materials_student:
  assumes "u_role u = STUDENT" and "get_materials s cid u = Inr vs"
  shows "list_all (\<lambda>v. m_isPublished (fst v) \<and> m_classroomId (fst v) = cid) vs
     \<and> sorted (map (\<lambda>v. m_order (fst v)) vs) \<and> length vs \<le> 100
     \<and> map fst vs = materials_query s cid u"
proof -
  from assms have vs: "vs = map (enrich_material s) (materials_query s cid u)"
    by (auto simp: get_materials_def split: option.splits if_splits)
  then have f: "map fst vs = materials_query s cid u" by (simp only: fst_enrich_material)
  have "map (\<lambda>v. m_order (fst v)) vs = map m_order (map fst vs)" by simp
  with f materials_query_sorted [of s cid u]
  have srt: "sorted (map (\<lambda>v. m_order (fst v)) vs)" by simp
  from f materials_query_subset [of s cid u] assms(1)
  have "\<forall>x\<in>set (map fst vs). m_isPublished x \<and> m_classroomId x = cid" by auto
  then have "list_all (\<lambda>v. m_isPublished (fst v) \<and> m_classroomId (fst v) = cid) vs"
    by (simp add: list_all_iff)
  moreover from vs have "length vs \<le> 100" by (simp add: materials_query_length)
  ultimately show ?thesis using srt f by simp
qed

lemma get_materials_enrolled:
  assumes "find_one (\<lambda>c. c_id c = cid) (classrooms s) = Some c"
    and "u_role u \<noteq> TEACHER" and "enrolled s (u_id u) cid"
  shows "get_materials s cid u = Inr (map (enrich_material s) (materials_query s cid u))"
  using assms find_enrollment_None_iff [of "u_id u" cid s]
  by (simp add: get_materials_def)

lemma get_materials_owner:
  assumes "find_one (\<lambda>c. c_id c = cid) (classrooms s) = Some c"
    and "u_role u = TEACHER" and "c_teacherId c = u_id u"
  shows "get_materials s cid u = Inr (map (enrich_material s) (materials_query s cid u))"
  using assms by (simp add: get_materials_def)

lemma sort_key_take_mem:
  fixes f :: "'a \<Rightarrow> int"
  assumes "x \<in> set xs" and "length (filter (\<lambda>y. f y \<le> f x) xs) \<le> n"
  shows "x \<in> set (take n (sort_key f xs))"
proof -
  let ?ys = "sort_key f xs"
  let ?P = "\<lambda>y. f y \<le> f x"
  have srt: "sorted (map f ?ys)" by (rule sorted_sort_key)
  from assms(1) have "x \<in> set ?ys" by simp
  then obtain i where i: "i < length ?ys" "?ys ! i = x" unfolding in_set_conv_nth by blast
  have "\<forall>y \<in> set (take (Suc i) ?ys). ?P y"
  proof
    fix y assume "y \<in> set (take (Suc i) ?ys)"
    then obtain j where j: "j < Suc i" "j < length ?ys" "?ys ! j = y"
      by (auto simp: in_set_conv_nth)
    with srt i have "map f ?ys ! j \<le> map f ?ys ! i" by (intro sorted_nth_mono) simp_all
    with i j show "f y \<le> f x" by simp
  qed
  then have "filter ?P (take (Suc i) ?ys) = take (Suc i) ?ys" by (simp add: filter_id_conv)
  with i have "length (filter ?P (take (Suc i) ?ys)) = Suc i" by simp
  moreover have "filter ?P ?ys = filter ?P (take (Suc i) ?ys) @ filter ?P (drop (Suc i) ?ys)"
    by (simp only: filter_append [symmetric] append_take_drop_id)
  then have "length (filter ?P ?ys)
      = length (filter ?P (take (Suc i) ?ys)) + length (filter ?P (drop (Suc i) ?ys))"
    by simp
  moreover have "length (filter ?P ?ys) = length (filter ?P xs)"
    by (simp only: filter_sort length_sort)
  ultimately have "Suc i \<le> n" using assms(2) by simp
  with i have "i < length (take n ?ys)" "take n ?ys ! i = x" by simp_all
  then show ?thesis by (auto simp: in_set_conv_nth)
qed

lemma sort_key_take_not_mem:
  fixes f :: "'a \<Rightarrow> int"
  assumes "n \<le> length (filter (\<lambda>y. f y < f x) xs)"
  shows "x \<notin> set (take n (sort_key f xs))"
proof
  let ?ys = "sort_key f xs"
  let ?P = "\<lambda>y. f y < f x"
  have srt: "sorted (map f ?ys)" by (rule sorted_sort_key)
  assume "x \<in> set (take n ?ys)"
  then obtain i where i: "i < n" "i < length ?ys" "?ys ! i = x"
    by (auto simp: in_set_conv_nth)
  have "\<forall>y \<in> set (drop i ?ys). \<not> ?P y"
  proof
    fix y assume "y \<in> set (drop i ?ys)"
    then obtain j where "j < length (drop i ?ys)" "drop i ?ys ! j = y"
      unfolding in_set_conv_nth by blast
    with i have j: "i + j < length ?ys" "?ys ! (i + j) = y" by simp_all
    with srt have "map f ?ys ! i \<le> map f ?ys ! (i + j)" by (intro sorted_nth_mono) simp_all
    with i j show "\<not> f y < f x" by simp
  qed
  then have "filter ?P (drop i ?ys) = []" by (simp add: filter_empty_conv)
  moreover have "filter ?P ?ys = filter ?P (take i ?ys) @ filter ?P (drop i ?ys)"
    by (simp only: filter_append [symmetric] append_take_drop_id)
  ultimately have "length (filter ?P ?ys) = length (filter ?P (take i ?ys))" by simp
  also have "\<dots> \<le> length (take i ?ys)" by (rule length_filter_le)
  also have "\<dots> \<le> i" by simp
  finally have "length (filter ?P ?ys) \<le> i" .
  moreover have "length (filter ?P ?ys) = length (filter ?P xs)"
    by (simp only: filter_sort length_sort)
  ultimately show False using assms i by simp
qed

lemma materials_query_teacher:
  assumes "u_role t = TEACHER"
  shows "materials_query s cid t
     = take 100 (sort_key m_order (filter (\<lambda>x. m_classroomId x = cid) (materials s)))"
  using assms by (simp add: materials_query_def TEACHER_neq_STUDENT)

lemma materials_query_teacher_mem:
  assumes "u_role t = TEACHER" and "m \<in> set (materials s)"
    and "length (filter (\<lambda>x. m_classroomId x = m_classroomId m \<and> m_order x \<le> m_order m)
            (materials s)) \<le> 100"
  shows "m \<in> set (materials_query s (m_classroomId m) t)"
proof -
  from assms(2) have "m \<in> set (filter (\<lambda>x. m_classroomId x = m_classroomId m) (materials s))"
    by simp
  moreover from assms(3)
  have "length (filter (\<lambda>y. m_order y \<le> m_order m)
          (filter (\<lambda>x. m_classroomId x = m_classroomId m) (materials s))) \<le> 100"
    by (simp only: filter_filter)
  ultimately show ?thesis
    unfolding materials_query_teacher [OF assms(1)] by (rule sort_key_take_mem)
qed

lemma materials_query_teacher_not_mem:
  assumes "u_role t = TEACHER"
    and "100 \<le> length (filter (\<lambda>x. m_classroomId x = m_classroomId m \<and> m_order x < m_order m)
            (materials s))"
  shows "m \<notin> set (materials_query s (m_classroomId m) t)"
proof -
  from assms(2)
  have "100 \<le> length (filter (\<lambda>y. m_order y < m_order m)
          (filter (\<lambda>x. m_classroomId x = m_classroomId m) (materials s)))"
    by (simp only: filter_filter)
  then show ?thesis
    unfolding materials_query_teacher [OF assms(1)] by (rule sort_key_take_not_mem)
qed

text \<open>
  Claim C1, as the code has it. Let a material be unpublished and its classroom exist.
  To every student \<^verbatim>\<open>get_material\<close> answers 403, and the list \<^verbatim>\<open>get_materials\<close> returns
  to an enrolled student omits the material. Whatever list a student gets holds published
  materials of the classroom only, ascending by order, at most 100 of them. The owning
  teacher gets the material from \<^verbatim>\<open>get_material\<close>. The list \<^verbatim>\<open>get_materials\<close> returns to
  the owning teacher is the first 100 of the classroom's materials in ascending order, the
  query ending in \<^verbatim>\<open>to_list(100)\<close>: it holds the material when at most 100 materials of
  the classroom have an order less than or equal to its own, and omits it when at least 100
  materials of the classroom have a smaller order.
\<close>

theorem unpublished_material_visibility:
  assumes "indexes_ok s" and "m \<in> set (materials s)" and "\<not> m_isPublished m"
    and "find_one (\<lambda>c. c_id c = m_classroomId m) (classrooms s) = Some c"
  shows "(\<forall>u :: user. u_role u = STUDENT \<longrightarrow>
            get_material s (m_id m) u = Inl (HTTPException 403 ''Not authorized''))
    \<and> (\<forall>u :: user. u_role u = STUDENT \<and> enrolled s (u_id u) (m_classroomId m) \<longrightarrow>
          (\<exists>vs. get_materials s (m_classroomId m) u = Inr vs \<and> m \<notin> set (map fst vs)))
    \<and> (\<forall>(u :: user) cid vs. u_role u = STUDENT \<and> get_materials s cid u = Inr vs \<longrightarrow>
          list_all (\<lambda>v. m_isPublished (fst v) \<and> m_classroomId (fst v) = cid) vs
          \<and> sorted (map (\<lambda>v. m_order (fst v)) vs) \<and> length vs \<le> 100)
    \<and> (\<forall>t :: user. u_role t = TEACHER \<and> c_teacherId c = u_id t \<longrightarrow>
          get_material s (m_id m) t = Inr (enrich_material s m)
          \<and> (\<exists>vs. get_materials s (m_classroomId m) t = Inr vs
                \<and> map fst vs = take 100 (sort_key m_order
                      (filter (\<lambda>x. m_classroomId x = m_classroomId m) (materials s)))
                \<and> sorted (map (\<lambda>v. m_order (fst v)) vs) \<and> length vs \<le> 100
                \<and> (length (filter (\<lambda>x. m_classroomId x = m_classroomId m
                                        \<and> m_order x \<le> m_order m) (materials s)) \<le> 100
                     \<longrightarrow> m \<in> set (map fst vs))
                \<and> (100 \<le> length (filter (\<lambda>x. m_classroomId x = m_classroomId m
                                        \<and> m_order x < m_order m) (materials s))
                     \<longrightarrow> m \<notin> set (map fst vs))))"
proof (intro conjI allI impI)
  from assms(1) have "distinct (map m_id (materials s))" by (simp add: indexes_ok_def)
  from find_one_distinct_mem [OF this assms(2)]
  have found: "find_one (\<lambda>y. m_id y = m_id m) (materials s) = Some m" .
  {
    fix u :: user assume "u_role u = STUDENT"
    with found assms(3) show "get_material s (m_id m) u = Inl (HTTPException 403 ''Not authorized'')"
      by (simp add: get_material_def TEACHER_neq_STUDENT [symmetric])
  }
  {
    fix u :: user assume u: "u_role u = STUDENT \<and> enrolled s (u_id u) (m_classroomId m)"
    then have "u_role u \<noteq> TEACHER" by (simp add: TEACHER_neq_STUDENT [symmetric])
    from get_materials_enrolled [OF assms(4) this] u
    have g: "get_materials s (m_classroomId m) u =
        Inr (map (enrich_material s) (materials_query s (m_classroomId m) u))" by simp
    from materials_query_subset [of s "m_classroomId m" u] u assms(3)
    have "m \<notin> set (materials_query s (m_classroomId m) u)" by auto
    then have "m \<notin> set (map fst (map (enrich_material s) (materials_query s (m_classroomId m) u)))"
      unfolding fst_enrich_material .
    with g show "\<exists>vs. get_materials s (m_classroomId m) u = Inr vs \<and> m \<notin> set (map fst vs)"
      by blast
  }
  {
    fix u :: user and cid vs
    assume a: "u_role u = STUDENT \<and> get_materials s cid u = Inr vs"
    then have "u_role u = STUDENT" and "get_materials s cid u = Inr vs" by simp_all
    note g = get_materials_student [OF this]
    from g show "list_all (\<lambda>v. m_isPublished (fst v) \<and> m_classroomId (fst v) = cid) vs" by simp
    from g show "sorted (map (\<lambda>v. m_order (fst v)) vs)" by simp
    from g show "length vs \<le> 100" by simp
  }
  {
    fix t :: user assume t: "u_role t = TEACHER \<and> c_teacherId c = u_id t"
    with found assms(4) show "get_material s (m_id m) t = Inr (enrich_material s m)"
      by (simp add: get_material_def)
    from t have "u_role t = TEACHER" and own: "c_teacherId c = u_id t" by simp_all
    note g = get_materials_owner [OF assms(4) this]
    note role = \<open>u_role t = TEACHER\<close>
    let ?q = "materials_query s (m_classroomId m) t"
    let ?vs = "map (enrich_material s) ?q"
    have f: "map fst ?vs = ?q" by (simp only: fst_enrich_material)
    have v1: "map fst ?vs = take 100 (sort_key m_order
                      (filter (\<lambda>x. m_classroomId x = m_classroomId m) (materials s)))"
      unfolding f by (rule materials_query_teacher [OF role])
    have "map (\<lambda>v. m_order (fst v)) ?vs = map m_order (map fst ?vs)" by simp
    with materials_query_sorted [of s "m_classroomId m" t]
    have v2: "sorted (map (\<lambda>v. m_order (fst v)) ?vs)" by (simp only: f)
    have v3: "length ?vs \<le> 100" by (simp add: materials_query_length)
    have v4: "length (filter (\<lambda>x. m_classroomId x = m_classroomId m
                                        \<and> m_order x \<le> m_order m) (materials s)) \<le> 100
        \<longrightarrow> m \<in> set (map fst ?vs)"
      unfolding f using materials_query_teacher_mem [OF role assms(2)] by blast
    have v5: "100 \<le> length (filter (\<lambda>x. m_classroomId x = m_classroomId m
                                        \<and> m_order x < m_order m) (materials s))
        \<longrightarrow> m \<notin> set (map fst ?vs)"
      unfolding f using materials_query_teacher_not_mem [OF role] by blast
    from g v1 v2 v3 v4 v5
    show "\<exists>vs. get_materials s (m_classroomId m) t = Inr vs
                \<and> map fst vs = take 100 (sort_key m_order
                      (filter (\<lambda>x. m_classroomId x = m_classroomId m) (materials s)))
                \<and> sorted (map (\<lambda>v. m_order (fst v)) vs) \<and> length vs \<le> 100
                \<and> (length (filter (\<lambda>x. m_classroomId x = m_classroomId m
                                        \<and> m_order x \<le> m_order m) (materials s)) \<le> 100
                     \<longrightarrow> m \<in> set (map fst vs))
                \<and> (100 \<le> length (filter (\<lambda>x. m_classroomId x = m_classroomId m
                                        \<and> m_order x < m_order m) (materials s))
                     \<longrightarrow> m \<notin> set (map fst vs))"
      by (intro exI [where x = ?vs] conjI)
  }
qed

lemma ex_db_mat_facts:
  "ex_material2 \<in> set (materials ex_db_mat)" "\<not> m_isPublished ex_material2"
  "m_classroomId ex_material2 = ''c1''" "m_id ex_material2 = ''m2''"
  "u_role ex_student_a = STUDENT" "u_role ex_teacher = TEACHER"
  "enrolled ex_db_mat (u_id ex_student_a) ''c1''"
  by (simp_all add: enrolled_def ex_mat_defs)

text \<open>
  In the example classroom the enrolled student A is refused the unpublished material m2
  and lists m1 and m3; the teacher gets m2 and lists m1, m2, m3 in this order.
\<close>

theorem unpublished_material_visibility_witness:
  "get_material ex_db_mat ''m2'' ex_student_a = Inl (HTTPException 403 ''Not authorized'')
   \<and> (\<exists>vs. get_materials ex_db_mat ''c1'' ex_student_a = Inr vs
         \<and> ex_material2 \<notin> set (map fst vs) \<and> map fst vs = [ex_material1, ex_material3])
   \<and> get_material ex_db_mat ''m2'' ex_teacher = Inr (enrich_material ex_db_mat ex_material2)
   \<and> (\<exists>vs. get_materials ex_db_mat ''c1'' ex_teacher = Inr vs
         \<and> ex_material2 \<in> set (map fst vs)
         \<and> map fst vs = [ex_material1, ex_material2, ex_material3])"
proof -
  have cls: "find_one (\<lambda>c. c_id c = m_classroomId ex_material2) (classrooms ex_db_mat)
      = Some ex_classroom1"
    using ex_db_mat_classroom by (simp only: ex_db_mat_facts(3))
  note main = unpublished_material_visibility
      [OF ex_db_mat_indexes ex_db_mat_facts(1) ex_db_mat_facts(2) cls]
  note for_student = main [THEN conjunct1, rule_format]
  note for_enrolled = main [THEN conjunct2, THEN conjunct1, rule_format]
  note for_teacher = main [THEN conjunct2, THEN conjunct2, THEN conjunct2, rule_format]
  from for_student [OF ex_db_mat_facts(5)]
  have a: "get_material ex_db_mat ''m2'' ex_student_a = Inl (HTTPException 403 ''Not authorized'')"
    by (simp only: ex_db_mat_facts(4))
  have "u_role ex_student_a = STUDENT \<and> enrolled ex_db_mat (u_id ex_student_a) (m_classroomId ex_material2)"
    using ex_db_mat_facts(5,7) by (simp only: ex_db_mat_facts(3))
  from for_enrolled [OF this]
  obtain vs where vs: "get_materials ex_db_mat ''c1'' ex_student_a = Inr vs"
    "ex_material2 \<notin> set (map fst vs)"
    unfolding ex_db_mat_facts(3) by blast
  have q: "materials_query ex_db_mat ''c1'' ex_student_a = [ex_material1, ex_material3]"
    by (simp add: materials_query_def ex_mat_defs STUDENT_def)
  from get_materials_student [OF ex_db_mat_facts(5) vs(1)]
  have "map fst vs = materials_query ex_db_mat ''c1'' ex_student_a" by blast
  then have "map fst vs = [ex_material1, ex_material3]" unfolding q .
  with vs have "get_materials ex_db_mat ''c1'' ex_student_a = Inr vs
         \<and> ex_material2 \<notin> set (map fst vs) \<and> map fst vs = [ex_material1, ex_material3]"
    by (intro conjI)
  then have b: "\<exists>vs. get_materials ex_db_mat ''c1'' ex_student_a = Inr vs
         \<and> ex_material2 \<notin> set (map fst vs) \<and> map fst vs = [ex_material1, ex_material3]"
    by (rule exI)
  have "u_role ex_teacher = TEACHER \<and> c_teacherId ex_classroom1 = u_id ex_teacher"
    using ex_db_mat_facts(6) ex_teacher_owns by simp
  note t = for_teacher [OF this]
  from t have c: "get_material ex_db_mat ''m2'' ex_teacher = Inr (enrich_material ex_db_mat ex_material2)"
    unfolding ex_db_mat_facts(4) by (rule conjunct1)
  have le: "length (filter (\<lambda>x. m_classroomId x = ''c1'' \<and> m_order x \<le> m_order ex_material2)
              (materials ex_db_mat)) \<le> 100"
  proof -
    have "length (filter (\<lambda>x. m_classroomId x = ''c1'' \<and> m_order x \<le> m_order ex_material2)
              (materials ex_db_mat)) \<le> length (materials ex_db_mat)"
      by (rule length_filter_le)
    also have "\<dots> \<le> 100" by (simp add: ex_db_mat_def)
    finally show ?thesis .
  qed
  have first: "take 100 (sort_key m_order
       (filter (\<lambda>x. m_classroomId x = ''c1'') (materials ex_db_mat)))
     = [ex_material1, ex_material2, ex_material3]"
    by (simp add: ex_mat_defs)
  from t [THEN conjunct2] obtain vs where tv:
    "get_materials ex_db_mat ''c1'' ex_teacher = Inr vs"
    "map fst vs = take 100 (sort_key m_order
         (filter (\<lambda>x. m_classroomId x = ''c1'') (materials ex_db_mat)))"
    "length (filter (\<lambda>x. m_classroomId x = ''c1'' \<and> m_order x \<le> m_order ex_material2)
         (materials ex_db_mat)) \<le> 100 \<longrightarrow> ex_material2 \<in> set (map fst vs)"
    unfolding ex_db_mat_facts(3) by blast
  from tv(3) le have "ex_material2 \<in> set (map fst vs)" by (rule mp)
  moreover from tv(2) have "map fst vs = [ex_material1, ex_material2, ex_material3]"
    unfolding first .
  ultimately have "get_materials ex_db_mat ''c1'' ex_teacher = Inr vs
         \<and> ex_material2 \<in> set (map fst vs)
         \<and> map fst vs = [ex_material1, ex_material2, ex_material3]"
    using tv(1) by (intro conjI)
  then have d: "\<exists>vs. get_materials ex_db_mat ''c1'' ex_teacher = Inr vs
         \<and> ex_material2 \<in> set (map fst vs)
         \<and> map fst vs = [ex_material1, ex_material2, ex_material3]"
    by (rule exI)
  from a b c d show ?thesis by blast
qed

lemma ex_bulk_simps:
  "m_id (ex_bulk i) = replicate i (CHR ''x'')" "m_order (ex_bulk i) = int i"
  "m_classroomId (ex_bulk i) = ''c1''" "m_isPublished (ex_bulk i) = (i \<noteq> 101)"
  by (simp_all add: ex_bulk_def ex_material1_def)

lemma ex_db_bulk_simps:
  "users (ex_db_bulk n) = [ex_teacher]" "classrooms (ex_db_bulk n) = [ex_classroom1]"
  "enrollments (ex_db_bulk n) = []" "materials (ex_db_bulk n) = map ex_bulk [1..<Suc n]"
  by (simp_all add: ex_db_bulk_def ex_db2_def ex_db1_def)

lemma ex_bulk_filter:
  "filter (\<lambda>m. m_classroomId m = ''c1'') (map ex_bulk ns) = map ex_bulk ns"
  by (induction ns) (simp_all add: ex_bulk_simps)

lemma ex_bulk_next_order: "next_order (ex_db_bulk n) ''c1'' = int (Suc n)"
proof (cases n)
  case 0
  then show ?thesis by (simp add: next_order_def ex_db_bulk_simps)
next
  case (Suc k)
  have "map m_order (map ex_bulk [1..<Suc n]) = map int [1..<Suc n]"
    by (simp add: ex_bulk_simps)
  then have "set (map m_order (map ex_bulk [1..<Suc n])) = int ` {1..<Suc n}"
    by (simp only: set_map set_upt)
  moreover have "Max (int ` {1..<Suc n}) = int n"
  proof (rule Max_eqI)
    show "finite (int ` {1..<Suc n})" by simp
    show "\<And>y. y \<in> int ` {1..<Suc n} \<Longrightarrow> y \<le> int n" by auto
    from Suc have "n \<in> {1..<Suc n}" by simp
    then show "int n \<in> int ` {1..<Suc n}" by (rule imageI)
  qed
  ultimately have "Max (set (map m_order (map ex_bulk [1..<Suc n]))) = int n" by simp
  moreover from Suc have "map ex_bulk [1..<Suc n] \<noteq> []" by simp
  ultimately show ?thesis
    unfolding next_order_def ex_db_bulk_simps ex_bulk_filter by simp
qed

lemma ex_small: "(2::nat) < 200" "(101::nat) \<le> 200" "(2::nat) \<le> 200" "(1::nat) \<le> 200"
  by simp_all

lemma ex_bulk_create_step:
  assumes "n < 200"
  shows "create_material 3 (replicate (Suc n) (CHR ''x'')) (ex_db_bulk n) ''c1''
      (ex_bulk_create (Suc n)) ex_teacher
   = Inr (ex_db_bulk (Suc n), ex_bulk (Suc n), Some (creator_summary ex_teacher))"
proof -
  from assms have i64: "int64 (next_order (ex_db_bulk n) ''c1'')"
    unfolding ex_bulk_next_order by (simp add: int64_def)
  have fresh: "replicate (Suc n) (CHR ''x'') \<notin> set (map m_id (materials (ex_db_bulk n)))"
  proof
    assume "replicate (Suc n) (CHR ''x'') \<in> set (map m_id (materials (ex_db_bulk n)))"
    then obtain i where "i < Suc n" "replicate (Suc n) (CHR ''x'') = replicate i (CHR ''x'')"
      by (auto simp: ex_bulk_simps ex_db_bulk_simps)
    then have "length (replicate (Suc n) (CHR ''x'')) = length (replicate i (CHR ''x''))"
      by simp
    with \<open>i < Suc n\<close> show False by simp
  qed
  have found: "find_one (\<lambda>c. c_id c = ''c1'') (classrooms (ex_db_bulk n)) = Some ex_classroom1"
    by (simp add: find_one_def ex_classroom1_def ex_db_bulk_simps)
  have ty: "mc_type (ex_bulk_create (Suc n)) \<in> {TEXT, FILE, VIDEO, MODEL3D}"
    by (simp add: ex_bulk_create_def)
  have doc: "ex_bulk (Suc n) =
      \<lparr>m_id = replicate (Suc n) (CHR ''x''), m_title = mc_title (ex_bulk_create (Suc n)),
       m_description = mc_description (ex_bulk_create (Suc n)),
       m_type = mc_type (ex_bulk_create (Suc n)),
       m_content = mc_content (ex_bulk_create (Suc n)),
       m_fileUrl = mc_fileUrl (ex_bulk_create (Suc n)),
       m_fileName = mc_fileName (ex_bulk_create (Suc n)),
       m_videoUrl = mc_videoUrl (ex_bulk_create (Suc n)),
       m_modelUrl = mc_modelUrl (ex_bulk_create (Suc n)),
       m_arEnabled = (case mc_arEnabled (ex_bulk_create (Suc n)) of None \<Rightarrow> True | Some v \<Rightarrow> v),
       m_modelScale = (case mc_modelScale (ex_bulk_create (Suc n)) of None \<Rightarrow> 1.0 | Some v \<Rightarrow> v),
       m_order = next_order (ex_db_bulk n) ''c1'',
       m_isPublished = (case mc_isPublished (ex_bulk_create (Suc n)) of None \<Rightarrow> True | Some v \<Rightarrow> v),
       m_classroomId = ''c1'', m_createdById = u_id ex_teacher,
       m_createdAt = 3, m_updatedAt = 3\<rparr>"
    unfolding ex_bulk_next_order
    by (simp add: ex_bulk_def ex_material1_def ex_bulk_create_def ex_teacher_def)
  have next_db: "ex_db_bulk n\<lparr>materials := materials (ex_db_bulk n) @ [ex_bulk (Suc n)]\<rparr>
      = ex_db_bulk (Suc n)"
    by (simp add: ex_db_bulk_def)
  from create_material_succeeds [OF found ex_teacher_owns ty i64 fresh doc]
  show ?thesis unfolding next_db .
qed

lemma ex_teacher_authenticated_at:
  "find_one (\<lambda>u. u_id u = ''t1'') (users s) = Some ex_teacher \<Longrightarrow> now < 86400 \<Longrightarrow>
     get_current_user ex_secret now s ex_teacher_token = Inr ex_teacher"
  by (simp add: get_current_user_def create_token_def JWT_EXPIRATION_HOURS_def
      ex_teacher_token_def)

lemma ex_reachable_bulk: "n \<le> 200 \<Longrightarrow> reachable ex_secret (ex_db_bulk n)"
proof (induction n)
  case 0
  have "ex_db_bulk 0 = ex_db2" by (simp add: ex_db_bulk_def ex_db2_def ex_db1_def)
  with ex_reachable2 show ?case by simp
next
  case (Suc n)
  have "get_current_user ex_secret 3 (ex_db_bulk n) ex_teacher_token = Inr ex_teacher"
    by (rule ex_teacher_authenticated_at)
       (simp_all add: ex_db_bulk_simps find_one_def ex_teacher_def)
  moreover from Suc.prems have "n < 200" by simp
  note ex_bulk_create_step [OF this]
  ultimately have "step ex_secret (ex_db_bulk n) (ex_db_bulk (Suc n))"
    by (rule step_create_material)
  moreover from Suc have "reachable ex_secret (ex_db_bulk n)" by simp
  ultimately show ?case by (rule reachable_step [rotated])
qed

lemma ex_bulk_sorted: "sorted (map m_order (map ex_bulk [i..<j]))"
proof -
  have "map m_order (map ex_bulk [i..<j]) = map int [i..<j]" by (simp add: ex_bulk_simps)
  moreover have "sorted (map int [i..<j])"
    by (simp add: sorted_map sorted_wrt_iff_nth_less)
  ultimately show ?thesis by (simp only:)
qed

lemma ex_bulk_teacher_query:
  "materials_query (ex_db_bulk 101) ''c1'' ex_teacher = map ex_bulk [1..<101]"
proof -
  have "u_role ex_teacher \<noteq> STUDENT" by (simp add: ex_teacher_def TEACHER_neq_STUDENT)
  then have "materials_query (ex_db_bulk 101) ''c1'' ex_teacher =
      take 100 (sort_key m_order (filter (\<lambda>m. m_classroomId m = ''c1'') (map ex_bulk [1..<102])))"
    by (simp add: materials_query_def ex_db_bulk_simps)
  also have "\<dots> = take 100 (map ex_bulk [1..<102])"
    unfolding ex_bulk_filter by (simp only: sort_key_id_if_sorted [OF ex_bulk_sorted])
  also have "\<dots> = map ex_bulk [1..<101]"
    by (simp add: take_map)
  finally show ?thesis .
qed

text \<open>
  Claim C1 as stated fails for the teacher's list: in the reachable database where the
  teacher has created 101 materials in one classroom, the last of them unpublished, the
  teacher's \<^verbatim>\<open>get_materials\<close> returns the first 100 and not the unpublished one.
\<close>

theorem teacher_list_capped_counterexample:
  "reachable ex_secret (ex_db_bulk 101)
   \<and> ex_bulk 101 \<in> set (materials (ex_db_bulk 101)) \<and> \<not> m_isPublished (ex_bulk 101)
   \<and> m_classroomId (ex_bulk 101) = ''c1''
   \<and> find_one (\<lambda>c. c_id c = ''c1'') (classrooms (ex_db_bulk 101)) = Some ex_classroom1
   \<and> u_role ex_teacher = TEACHER \<and> c_teacherId ex_classroom1 = u_id ex_teacher
   \<and> (\<exists>vs. get_materials (ex_db_bulk 101) ''c1'' ex_teacher = Inr vs
         \<and> length vs = 100 \<and> ex_bulk 101 \<notin> set (map fst vs))"
proof -
  have found: "find_one (\<lambda>c. c_id c = ''c1'') (classrooms (ex_db_bulk 101)) = Some ex_classroom1"
    by (simp add: find_one_def ex_classroom1_def ex_db_bulk_simps)
  have role: "u_role ex_teacher = TEACHER" by (simp add: ex_teacher_def)
  have mem: "ex_bulk 101 \<in> set (materials (ex_db_bulk 101))"
    unfolding ex_db_bulk_simps set_map by (rule imageI) simp
  have "ex_bulk 101 \<notin> set (map ex_bulk [1..<101])"
  proof
    assume "ex_bulk 101 \<in> set (map ex_bulk [1..<101])"
    then obtain i where "i < 101" "ex_bulk 101 = ex_bulk i" by auto
    then have "m_order (ex_bulk 101) = m_order (ex_bulk i)" by simp
    with \<open>i < 101\<close> show False by (simp add: ex_bulk_simps)
  qed
  then have out: "ex_bulk 101 \<notin> set (map fst (map (enrich_material (ex_db_bulk 101))
      (materials_query (ex_db_bulk 101) ''c1'' ex_teacher)))"
    unfolding fst_enrich_material ex_bulk_teacher_query .
  have len: "length (map (enrich_material (ex_db_bulk 101))
      (materials_query (ex_db_bulk 101) ''c1'' ex_teacher)) = 100"
    unfolding ex_bulk_teacher_query by simp
  from get_materials_owner [OF found role ex_teacher_owns] out len
  have "\<exists>vs. get_materials (ex_db_bulk 101) ''c1'' ex_teacher = Inr vs
         \<and> length vs = 100 \<and> ex_bulk 101 \<notin> set (map fst vs)"
    by blast
  with ex_reachable_bulk [OF ex_small(2)] mem found role ex_teacher_owns show ?thesis
    by (simp add: ex_bulk_simps)
qed

section \<open>The classroom of a material\<close>

lemma update_material_no_crash:
  assumes "find_one (\<lambda>x. m_id x = ident) (materials s) = Some m"
    and "find_one (\<lambda>c. c_id c = m_classroomId m) (classrooms s) = Some c"
  shows "update_material now s ident data u \<noteq> Inl TypeError"
proof (cases "update_data_empty data")
  case True
  with assms show ?thesis by (simp add: update_material_def Let_def)
next
  case False
  have "find_one (\<lambda>x. m_id x = ident)
          (update_one (\<lambda>x. m_id x = ident) (set_material data now) (materials s))
        = Some (set_material data now m)"
    using assms(1)
    by (simp add: find_one_update_one_key [where g = m_id] set_material_def)
  with False assms show ?thesis by (simp add: update_material_def Let_def)
qed

text \<open>
  Claim C10, as the code has it. Let the material exist. \<^verbatim>\<open>update_material\<close> and
  \<^verbatim>\<open>delete_material\<close> read \<^verbatim>\<open>classroom["teacherId"]\<close> for every caller, \<^verbatim>\<open>get_material\<close>
  only for a caller whose role is TEACHER. When the material's classroom exists none of
  the three raises \<^verbatim>\<open>TypeError\<close>. When it does not exist, update and delete raise
  \<^verbatim>\<open>TypeError\<close> for every caller and get raises it for a teacher, none of them answering
  404. The get of any other caller does not touch the classroom: whether or not the
  classroom exists, it returns the material with its creator when the caller is enrolled in
  the material's classroom and the material is published, and answers 403 otherwise.
\<close>

theorem material_classroom_dereference:
  assumes "find_one (\<lambda>x. m_id x = ident) (materials s) = Some m"
  shows "(\<forall>c. find_one (\<lambda>c. c_id c = m_classroomId m) (classrooms s) = Some c \<longrightarrow>
            (\<forall>u :: user. get_material s ident u \<noteq> Inl TypeError)
          \<and> (\<forall>now data (u :: user). update_material now s ident data u \<noteq> Inl TypeError)
          \<and> (\<forall>u :: user. delete_material s ident u \<noteq> Inl TypeError))
    \<and> (find_one (\<lambda>c. c_id c = m_classroomId m) (classrooms s) = None \<longrightarrow>
            (\<forall>now data (u :: user). update_material now s ident data u = Inl TypeError)
          \<and> (\<forall>u :: user. delete_material s ident u = Inl TypeError)
          \<and> (\<forall>u :: user. u_role u = TEACHER \<longrightarrow> get_material s ident u = Inl TypeError)
          \<and> (\<forall>u :: user. u_role u \<noteq> TEACHER \<longrightarrow>
                get_material s ident u \<noteq> Inl TypeError
                \<and> get_material s ident u \<noteq> Inl (HTTPException 404 ''Material not found'')))
    \<and> (\<forall>u :: user. u_role u \<noteq> TEACHER \<longrightarrow>
          get_material s ident u
          = (if enrolled s (u_id u) (m_classroomId m) \<and> m_isPublished m
             then Inr (enrich_material s m)
             else Inl (HTTPException 403 ''Not authorized'')))"
proof (intro conjI allI impI)
  fix c and u :: user
  assume c: "find_one (\<lambda>c. c_id c = m_classroomId m) (classrooms s) = Some c"
  from assms c show "get_material s ident u \<noteq> Inl TypeError"
    by (simp add: get_material_def Let_def)
  from assms c show "delete_material s ident u \<noteq> Inl TypeError"
    by (simp add: delete_material_def)
  fix now data
  from assms c show "update_material now s ident data u \<noteq> Inl TypeError"
    by (rule update_material_no_crash)
next
  fix u :: user
  assume n: "find_one (\<lambda>c. c_id c = m_classroomId m) (classrooms s) = None"
  from assms n show "delete_material s ident u = Inl TypeError"
    by (simp add: delete_material_def)
  {
    fix now data
    from assms n show "update_material now s ident data u = Inl TypeError"
      by (simp add: update_material_def Let_def)
  }
  {
    assume "u_role u = TEACHER"
    with assms n show "get_material s ident u = Inl TypeError"
      by (simp add: get_material_def Let_def)
  }
  {
    assume "u_role u \<noteq> TEACHER"
    with assms show "get_material s ident u \<noteq> Inl TypeError"
      by (simp add: get_material_def Let_def)
  }
  {
    assume "u_role u \<noteq> TEACHER"
    with assms show "get_material s ident u \<noteq> Inl (HTTPException 404 ''Material not found'')"
      by (simp add: get_material_def Let_def)
  }
next
  fix u :: user
  assume "u_role u \<noteq> TEACHER"
  with assms find_enrollment_None_iff [of "u_id u" "m_classroomId m" s]
  show "get_material s ident u
          = (if enrolled s (u_id u) (m_classroomId m) \<and> m_isPublished m
             then Inr (enrich_material s m)
             else Inl (HTTPException 403 ''Not authorized''))"
    by (simp add: get_material_def Let_def)
qed

lemma ex_db_orphan_facts:
  "find_one (\<lambda>x. m_id x = ''m1'') (materials ex_db_orphan) = Some ex_material1"
  "find_one (\<lambda>c. c_id c = m_classroomId ex_material1) (classrooms ex_db_orphan) = None"
  "find_one (\<lambda>x. m_id x = ''m1'') (materials ex_db_mat) = Some ex_material1"
  "find_one (\<lambda>c. c_id c = m_classroomId ex_material1) (classrooms ex_db_mat) = Some ex_classroom1"
  by (simp_all add: find_one_def ex_db_orphan_def ex_db_mat_def ex_material1_def ex_classroom1_def)

text \<open>
  With the classroom stored the three operations on material m1 raise no \<^verbatim>\<open>TypeError\<close>;
  with the classroom document removed, update, delete and the teacher's get raise it, the
  get of the enrolled student A returns the published material and the get of student B,
  who is not enrolled, is answered 403.
\<close>

theorem material_classroom_dereference_witness:
  "get_material ex_db_mat ''m1'' ex_teacher \<noteq> Inl TypeError
   \<and> update_material 9 ex_db_mat ''m1'' ex_mu ex_teacher \<noteq> Inl TypeError
   \<and> delete_material ex_db_mat ''m1'' ex_teacher \<noteq> Inl TypeError
   \<and> update_material 9 ex_db_orphan ''m1'' ex_mu ex_teacher = Inl TypeError
   \<and> delete_material ex_db_orphan ''m1'' ex_teacher = Inl TypeError
   \<and> get_material ex_db_orphan ''m1'' ex_teacher = Inl TypeError
   \<and> get_material ex_db_orphan ''m1'' ex_student_a \<noteq> Inl TypeError
   \<and> get_material ex_db_orphan ''m1'' ex_student_a
       = Inr (enrich_material ex_db_orphan ex_material1)
   \<and> get_material ex_db_orphan ''m1'' ex_student_b = Inl (HTTPException 403 ''Not authorized'')"
proof -
  have roles: "u_role ex_teacher = TEACHER" "u_role ex_student_a \<noteq> TEACHER"
    "u_role ex_student_b \<noteq> TEACHER"
    by (simp_all add: ex_teacher_def ex_student_a_def ex_student_b_def
        TEACHER_neq_STUDENT [symmetric])
  note stored = material_classroom_dereference [OF ex_db_orphan_facts(3), THEN conjunct1,
      rule_format, OF ex_db_orphan_facts(4)]
  note orphan = material_classroom_dereference [OF ex_db_orphan_facts(1), THEN conjunct2,
      THEN conjunct1, rule_format, OF ex_db_orphan_facts(2)]
  note exact = material_classroom_dereference [OF ex_db_orphan_facts(1), THEN conjunct2,
      THEN conjunct2, rule_format]
  have en: "enrolled ex_db_orphan (u_id ex_student_a) (m_classroomId ex_material1)"
    "\<not> enrolled ex_db_orphan (u_id ex_student_b) (m_classroomId ex_material1)"
    "m_isPublished ex_material1"
    by (simp_all add: enrolled_def ex_db_orphan_def ex_mat_defs)
  from exact [OF roles(2)] en
  have h: "get_material ex_db_orphan ''m1'' ex_student_a
       = Inr (enrich_material ex_db_orphan ex_material1)"
    by simp
  from exact [OF roles(3)] en
  have i: "get_material ex_db_orphan ''m1'' ex_student_b
       = Inl (HTTPException 403 ''Not authorized'')"
    by simp
  from stored have a: "get_material ex_db_mat ''m1'' ex_teacher \<noteq> Inl TypeError"
    and b: "update_material 9 ex_db_mat ''m1'' ex_mu ex_teacher \<noteq> Inl TypeError"
    and c: "delete_material ex_db_mat ''m1'' ex_teacher \<noteq> Inl TypeError"
    by blast+
  from orphan roles
  have d: "update_material 9 ex_db_orphan ''m1'' ex_mu ex_teacher = Inl TypeError"
    and e: "delete_material ex_db_orphan ''m1'' ex_teacher = Inl TypeError"
    and f: "get_material ex_db_orphan ''m1'' ex_teacher = Inl TypeError"
    and g: "get_material ex_db_orphan ''m1'' ex_student_a \<noteq> Inl TypeError"
    by blast+
  from a b c d e f g h i show ?thesis by (intro conjI)
qed

text \<open>
  Claim C10 as stated fails for \<^verbatim>\<open>get_material\<close>: with the material's classroom missing,
  the get of the enrolled student A does not crash and returns the material, and the get of
  student B is answered 403.
\<close>

theorem get_material_orphan_counterexample:
  "find_one (\<lambda>x. m_id x = ''m1'') (materials ex_db_orphan) = Some ex_material1
   \<and> find_one (\<lambda>c. c_id c = m_classroomId ex_material1) (classrooms ex_db_orphan) = None
   \<and> get_material ex_db_orphan ''m1'' ex_student_a
       = Inr (ex_material1, Some (''t1'', ''T''))
   \<and> get_material ex_db_orphan ''m1'' ex_student_b
       = Inl (HTTPException 403 ''Not authorized'')"
proof -
  have "get_material ex_db_orphan ''m1'' ex_student_a = Inr (ex_material1, Some (''t1'', ''T''))"
    by (simp add: get_material_def enrich_material_def creator_summary_def find_one_def Let_def
        ex_db_orphan_def ex_mat_defs TEACHER_def STUDENT_def)
  moreover have "get_material ex_db_orphan ''m1'' ex_student_b
       = Inl (HTTPException 403 ''Not authorized'')"
    by (simp add: get_material_def find_one_def Let_def
        ex_db_orphan_def ex_mat_defs TEACHER_def STUDENT_def)
  ultimately show ?thesis using ex_db_orphan_facts(1,2) by simp
qed

section \<open>Density of the orders\<close>

lemma set_int_upt: "set (map int [1..<Suc n]) = int ` {1..n}"
  by (auto simp: image_iff)

lemma dense_append:
  assumes "distinct os" and "set os = set (map int [1..<Suc (length os)])"
    and "k = (if os = [] then 1 else Max (set os) + 1)"
  shows "distinct (os @ [k]) \<and> set (os @ [k]) = set (map int [1..<Suc (length (os @ [k]))])"
proof -
  let ?n = "length os"
  have k: "k = int ?n + 1"
  proof (cases "os = []")
    case True
    with assms(3) show ?thesis by simp
  next
    case False
    then have pos: "0 < ?n" by simp
    have "Max (int ` {1..?n}) = int ?n"
    proof (rule Max_eqI)
      show "finite (int ` {1..?n})" by simp
      show "\<And>y. y \<in> int ` {1..?n} \<Longrightarrow> y \<le> int ?n" by auto
      from pos have "?n \<in> {1..?n}" by (simp add: Suc_le_eq)
      then show "int ?n \<in> int ` {1..?n}" by (rule imageI)
    qed
    with assms(2,3) False show ?thesis by (simp only: set_int_upt if_False)
  qed
  from assms(2) have s: "set os = int ` {1..?n}" by (simp only: set_int_upt)
  with k have "k \<notin> set os" by auto
  with assms(1) have d: "distinct (os @ [k])" by simp
  have "set (os @ [k]) = insert (int ?n + 1) (int ` {1..?n})" using s k by simp
  also have "\<dots> = int ` {1..Suc ?n}"
  proof -
    have "{1..Suc ?n} = insert (Suc ?n) {1..?n}" by (rule atLeastAtMostSuc_conv) simp
    then show ?thesis by (simp add: add.commute)
  qed
  also have "\<dots> = set (map int [1..<Suc (length (os @ [k]))])"
    by (simp only: set_int_upt length_append list.size) simp
  finally show ?thesis using d by simp
qed

lemma create_material_Inr_D:
  assumes "create_material now material_id s classroomId data u = Inr (s', v)"
  shows "materials s' = materials s @ [fst v] \<and> m_classroomId (fst v) = classroomId
     \<and> m_order (fst v) = next_order s classroomId"
  using assms unfolding create_material_def create_material_next_order
  by (auto simp: insert_material_def Let_def split: option.splits if_splits)

lemma create_material_dense:
  assumes "create_material now material_id s classroomId data u = Inr (s', v)"
    and "dense_orders s cid"
  shows "dense_orders s' cid"
proof -
  note d = create_material_Inr_D [OF assms(1)]
  show ?thesis
  proof (cases "cid = classroomId")
    case False
    with d have "classroom_orders s' cid = classroom_orders s cid"
      by (simp add: classroom_orders_def)
    with assms(2) show ?thesis by (simp add: dense_orders_def)
  next
    case True
    let ?os = "classroom_orders s cid"
    from d True have os': "classroom_orders s' cid = ?os @ [next_order s cid]"
      by (simp add: classroom_orders_def)
    have "next_order s cid = (if ?os = [] then 1 else Max (set ?os) + 1)"
      by (simp add: next_order_def classroom_orders_def)
    with assms(2) dense_append [of ?os "next_order s cid"] show ?thesis
      unfolding dense_orders_def os' by blast
  qed
qed

lemma classroom_orders_cong:
  assumes "map (\<lambda>m. (m_classroomId m, m_order m)) (materials s')
         = map (\<lambda>m. (m_classroomId m, m_order m)) (materials s)"
  shows "classroom_orders s' cid = classroom_orders s cid"
proof -
  have e: "map m_order (filter (\<lambda>m. m_classroomId m = cid) ms)
      = map snd (filter (\<lambda>p. fst p = cid) (map (\<lambda>m. (m_classroomId m, m_order m)) ms))"
    for ms :: "material list"
    by (simp add: filter_map comp_def)
  show ?thesis unfolding classroom_orders_def e assms ..
qed

lemma update_material_orders:
  assumes "update_material now s ident data u = Inr (s', v)" and "mu_order data = None"
  shows "classroom_orders s' cid = classroom_orders s cid"
proof -
  from assms(1) have "materials s' = materials s
      \<or> materials s' = update_one (\<lambda>m. m_id m = ident) (set_material data now) (materials s)"
    by (auto simp: update_material_def Let_def split: option.splits if_splits)
  moreover from assms(2)
  have "map (\<lambda>m. (m_classroomId m, m_order m))
          (update_one (\<lambda>m. m_id m = ident) (set_material data now) (materials s))
      = map (\<lambda>m. (m_classroomId m, m_order m)) (materials s)"
    by (intro map_update_one) (simp add: set_material_def)
  ultimately have "map (\<lambda>m. (m_classroomId m, m_order m)) (materials s')
         = map (\<lambda>m. (m_classroomId m, m_order m)) (materials s)"
    by auto
  then show ?thesis by (rule classroom_orders_cong)
qed

lemma update_one_distinct:
  "distinct (map g xs) \<Longrightarrow>
     update_one (\<lambda>x. g x = k) f xs = map (\<lambda>x. if g x = k then f x else x) xs"
proof (induction xs)
  case Nil
  show ?case by simp
next
  case (Cons a xs)
  show ?case
  proof (cases "g a = k")
    case True
    with Cons.prems have "k \<notin> g ` set xs" by simp
    then have "\<forall>x\<in>set xs. g x \<noteq> k" by (auto simp: image_iff)
    then have "map (\<lambda>x. if g x = k then f x else x) xs = xs" by (intro map_idI) simp
    with True show ?thesis by simp
  next
    case False
    with Cons show ?thesis by simp
  qed
qed

lemma reorder_loop_distinct:
  "distinct (map m_id ms) \<Longrightarrow> distinct ids \<Longrightarrow>
     reorder_loop n ids ms =
       map (\<lambda>m. if m_id m \<in> set ids
                 then m\<lparr>m_order := int (n + position ids (m_id m)) + 1\<rparr> else m) ms"
proof (induction n ids ms rule: reorder_loop.induct)
  case (1 index ms)
  show ?case by simp
next
  case (2 index material_id rest ms)
  let ?f = "\<lambda>m. m\<lparr>m_order := int index + 1\<rparr>"
  let ?ms = "update_one (\<lambda>m. m_id m = material_id) ?f ms"
  have upd: "?ms = map (\<lambda>m. if m_id m = material_id then ?f m else m) ms"
    using 2(2) by (rule update_one_distinct)
  have "map m_id ?ms = map m_id ms" by (intro map_update_one) simp
  with 2(2) have "distinct (map m_id ?ms)" by simp
  moreover from 2(3) have "distinct rest" by simp
  moreover from 2(3) have notin: "material_id \<notin> set rest" by simp
  ultimately have "reorder_loop (index + 1) rest ?ms =
       map (\<lambda>m. if m_id m \<in> set rest
                 then m\<lparr>m_order := int (index + 1 + position rest (m_id m)) + 1\<rparr> else m) ?ms"
    by (intro 2(1))
  also have "\<dots> = map (\<lambda>m. if m_id m \<in> set (material_id # rest)
                 then m\<lparr>m_order := int (index + position (material_id # rest) (m_id m)) + 1\<rparr>
                 else m) ms"
    unfolding upd map_map using notin by (intro map_cong refl) auto
  finally show ?case by simp
qed

lemma position_less: "k \<in> set xs \<Longrightarrow> position xs k < length xs"
  by (induction xs) auto

lemma nth_position: "k \<in> set xs \<Longrightarrow> xs ! position xs k = k"
  by (induction xs) auto

lemma position_nth: "distinct xs \<Longrightarrow> i < length xs \<Longrightarrow> position xs (xs ! i) = i"
proof (induction xs arbitrary: i)
  case Nil
  then show ?case by simp
next
  case (Cons a xs)
  then show ?case by (cases i) auto
qed

lemma position_image: "distinct xs \<Longrightarrow> position xs ` set xs = {0..<length xs}"
proof (intro set_eqI iffI)
  fix i assume "i \<in> position xs ` set xs"
  then show "i \<in> {0..<length xs}" by (auto simp: position_less)
next
  fix i assume d: "distinct xs" and "i \<in> {0..<length xs}"
  then have i: "i < length xs" by simp
  with d have "position xs (xs ! i) = i" by (rule position_nth)
  moreover from i have "xs ! i \<in> set xs" by simp
  ultimately show "i \<in> position xs ` set xs" by (metis imageI)
qed

lemma position_inj: "inj_on (position xs) (set xs)"
  by (rule inj_on_inverseI [where g = "\<lambda>i. xs ! i"]) (rule nth_position)

lemma distinct_map_inj:
  "distinct l \<Longrightarrow> set l = A \<Longrightarrow> inj_on f A \<Longrightarrow> distinct (map f l)"
  by (simp add: distinct_map)

lemma set_map_image: "set l = A \<Longrightarrow> set (map f l) = f ` A"
  by simp

lemma reorder_materials_dense:
  assumes "reorder_materials s cid ids u = Inr s'"
    and "distinct (map m_id (materials s))" and "distinct ids"
    and "set ids = set (map m_id (filter (\<lambda>m. m_classroomId m = cid) (materials s)))"
  shows "dense_orders s' cid"
proof -
  let ?h = "\<lambda>m. if m_id m \<in> set ids
                 then m\<lparr>m_order := int (0 + position ids (m_id m)) + 1\<rparr> else m"
  let ?cm = "filter (\<lambda>m. m_classroomId m = cid) (materials s)"
  let ?l = "map m_id ?cm"
  let ?hk = "\<lambda>k. int (position ids k) + 1"
  from assms(1) have "materials s' = reorder_loop 0 ids (materials s)"
    by (auto simp: reorder_materials_def split: option.splits if_splits)
  with reorder_loop_distinct [OF assms(2,3), of 0]
  have ms': "materials s' = map ?h (materials s)" by simp
  have "filter (\<lambda>m. m_classroomId m = cid) (map ?h (materials s)) = map ?h ?cm"
    unfolding filter_map by (rule arg_cong [where f = "map ?h"]) (rule filter_cong, auto)
  then have "classroom_orders s' cid = map m_order (map ?h ?cm)"
    by (simp only: classroom_orders_def ms')
  also have "\<dots> = map ?hk ?l"
    unfolding map_map using assms(4) by (intro map_cong refl) auto
  finally have os: "classroom_orders s' cid = map ?hk ?l" .
  from assms(2) have dl: "distinct ?l" by (rule distinct_map_filter)
  from assms(4) have sl: "set ?l = set ids" by simp
  have len: "length ?l = length ids"
    using distinct_card [OF dl] distinct_card [OF assms(3)] sl by simp
  have "inj_on ?hk (set ids)"
    using position_inj [of ids] by (auto simp: inj_on_def)
  with dl sl have d: "distinct (map ?hk ?l)" by (rule distinct_map_inj)
  have "set (map ?hk ?l) = ?hk ` set ids"
    using sl by (rule set_map_image)
  also have "\<dots> = (\<lambda>i. int i + 1) ` position ids ` set ids"
    by (simp only: image_image)
  also have "\<dots> = (\<lambda>i. int i + 1) ` {0..<length ids}"
    by (simp only: position_image [OF assms(3)])
  also have "\<dots> = int ` {1..length ids}"
  proof (intro set_eqI iffI)
    fix x assume "x \<in> (\<lambda>i. int i + 1) ` {0..<length ids}"
    then obtain i where "i < length ids" "x = int (Suc i)" by auto
    then show "x \<in> int ` {1..length ids}" by (intro image_eqI [where x = "Suc i"]) simp_all
  next
    fix x assume "x \<in> int ` {1..length ids}"
    then obtain j where j: "1 \<le> j" "j \<le> length ids" "x = int j" by auto
    then have "x = int (j - 1) + 1" "j - 1 \<in> {0..<length ids}" by auto
    then show "x \<in> (\<lambda>i. int i + 1) ` {0..<length ids}" by (rule image_eqI)
  qed
  also have "\<dots> = set (map int [1..<Suc (length (map ?hk ?l))])"
  proof -
    from len have "length (map ?hk ?l) = length ids" by simp
    then show ?thesis by (simp only: set_int_upt)
  qed
  finally have "set (map ?hk ?l) = set (map int [1..<Suc (length (map ?hk ?l))])" .
  with d show ?thesis unfolding dense_orders_def os by simp
qed

lemma delete_one_distinct:
  "distinct (map g xs) \<Longrightarrow> delete_one (\<lambda>x. g x = k) xs = filter (\<lambda>x. g x \<noteq> k) xs"
proof (induction xs)
  case Nil
  show ?case by simp
next
  case (Cons a xs)
  show ?case
  proof (cases "g a = k")
    case True
    from Cons.prems have notin: "g a \<notin> set (map g xs)" by simp
    have "\<forall>x\<in>set xs. g x \<noteq> k"
    proof
      fix x assume "x \<in> set xs"
      then have "g x \<in> set (map g xs)" by simp
      with notin True show "g x \<noteq> k" by auto
    qed
    then have "filter (\<lambda>x. g x \<noteq> k) xs = xs" by (simp add: filter_id_conv)
    with True show ?thesis by simp
  next
    case False
    with Cons show ?thesis by simp
  qed
qed

lemma delete_material_orders:
  assumes "indexes_ok s" and "delete_material s ident u = Inr s'"
  shows "classroom_orders s' cid
     = map m_order (filter (\<lambda>m. m_classroomId m = cid \<and> m_id m \<noteq> ident) (materials s))"
proof -
  from assms(2) have "materials s' = delete_one (\<lambda>m. m_id m = ident) (materials s)"
    by (auto simp: delete_material_def split: option.splits if_splits)
  also from assms(1) have "\<dots> = filter (\<lambda>m. m_id m \<noteq> ident) (materials s)"
    by (intro delete_one_distinct) (simp add: indexes_ok_def)
  finally have "classroom_orders s' cid
     = map m_order (filter (\<lambda>m. m_id m \<noteq> ident \<and> m_classroomId m = cid) (materials s))"
    by (simp add: classroom_orders_def)
  also have "(\<lambda>m. m_id m \<noteq> ident \<and> m_classroomId m = cid)
      = (\<lambda>m. m_classroomId m = cid \<and> m_id m \<noteq> ident)"
    by (rule ext) (rule conj_commute)
  finally show ?thesis .
qed

lemma update_material_order_exact:
  assumes "find_one (\<lambda>x. m_id x = ident) (materials s) = Some m"
    and "find_one (\<lambda>c. c_id c = m_classroomId m) (classrooms s) = Some c"
    and "c_teacherId c = u_id u" and "mu_order data = Some k" and "int64 k"
    and "s' = s\<lparr>materials := update_one (\<lambda>x. m_id x = ident) (set_material data now)
                   (materials s)\<rparr>"
  shows "update_material now s ident data u = Inr (s', enrich_material s' (set_material data now m))"
proof -
  have "find_one (\<lambda>x. m_id x = ident)
          (update_one (\<lambda>x. m_id x = ident) (set_material data now) (materials s))
        = Some (set_material data now m)"
    using assms(1)
    by (simp add: find_one_update_one_key [where g = m_id] set_material_def)
  moreover from assms(4) have "\<not> update_data_empty data" by (simp add: update_data_empty_def)
  moreover from assms(4,5) have "\<not> order_overflows (mu_order data)"
    by (simp add: order_overflows_def)
  ultimately show ?thesis using assms(1,2,3) unfolding assms(6)
    by (simp add: update_material_def Let_def)
qed

lemma update_material_overflows:
  assumes "find_one (\<lambda>x. m_id x = ident) (materials s) = Some m"
    and "find_one (\<lambda>c. c_id c = m_classroomId m) (classrooms s) = Some c"
    and "c_teacherId c = u_id u" and "mu_order data = Some k" and "\<not> int64 k"
  shows "update_material now s ident data u = Inl OverflowError"
  using assms by (simp add: update_material_def order_overflows_def)

lemma update_one_orders:
  assumes "distinct (map m_id ms)" and "mu_order data = Some k"
  shows "map m_order (filter (\<lambda>x. m_classroomId x = cid)
           (update_one (\<lambda>x. m_id x = ident) (set_material data now) ms))
     = map (\<lambda>x. if m_id x = ident then k else m_order x)
           (filter (\<lambda>x. m_classroomId x = cid) ms)"
proof -
  let ?h = "\<lambda>x. if m_id x = ident then set_material data now x else x"
  from assms(1) have "update_one (\<lambda>x. m_id x = ident) (set_material data now) ms = map ?h ms"
    by (rule update_one_distinct)
  moreover have "(\<lambda>x. m_classroomId x = cid) \<circ> ?h = (\<lambda>x. m_classroomId x = cid)"
    by (rule ext) (simp add: set_material_def)
  moreover from assms(2) have "m_order \<circ> ?h = (\<lambda>x. if m_id x = ident then k else m_order x)"
    by (intro ext) (simp add: set_material_def)
  ultimately show ?thesis by (simp add: filter_map)
qed

text \<open>
  Claim C9, as the code has it. \<^verbatim>\<open>create_material\<close> keeps the orders of every classroom
  dense: it assigns the greatest order plus 1, or 1. \<^verbatim>\<open>update_material\<close> leaves the orders
  of every classroom as they are when the update carries no \<^verbatim>\<open>order\<close>.
  \<^verbatim>\<open>reorder_materials\<close> makes the orders of a classroom 1 to N when the list holds exactly
  the ids of the classroom's materials, each once. \<^verbatim>\<open>delete_material\<close> renumbers
  nothing: the orders of a classroom afterwards are the orders of its other materials, as
  they were. An update by the owner that carries an \<^verbatim>\<open>order\<close> stores it as the order of
  that material when it is a signed 64-bit integer, the other orders staying as they were,
  and raises \<^verbatim>\<open>OverflowError\<close> when it is not. So density is not an invariant of the
  reachable databases.
\<close>

theorem orders_density:
  "(\<forall>now material_id classroomId data (u :: user) s' v cid.
       dense_orders s cid
       \<and> create_material now material_id s classroomId data u = Inr (s', v) \<longrightarrow>
       dense_orders s' cid)
   \<and> (\<forall>now ident data (u :: user) s' v cid.
       mu_order data = None \<and> update_material now s ident data u = Inr (s', v) \<longrightarrow>
       classroom_orders s' cid = classroom_orders s cid)
   \<and> (\<forall>cid ids (u :: user) s'.
       indexes_ok s \<and> distinct ids
       \<and> set ids = set (map m_id (filter (\<lambda>m. m_classroomId m = cid) (materials s)))
       \<and> reorder_materials s cid ids u = Inr s' \<longrightarrow>
       dense_orders s' cid)
   \<and> (\<forall>ident (u :: user) s' cid.
       indexes_ok s \<and> delete_material s ident u = Inr s' \<longrightarrow>
       classroom_orders s' cid
         = map m_order (filter (\<lambda>m. m_classroomId m = cid \<and> m_id m \<noteq> ident) (materials s)))
   \<and> (\<forall>now ident data (u :: user) m c k.
       indexes_ok s
       \<and> find_one (\<lambda>x. m_id x = ident) (materials s) = Some m
       \<and> find_one (\<lambda>c. c_id c = m_classroomId m) (classrooms s) = Some c
       \<and> c_teacherId c = u_id u \<and> mu_order data = Some k \<longrightarrow>
       (if int64 k
        then (\<exists>s' v. update_material now s ident data u = Inr (s', v)
                \<and> m_order (fst v) = k
                \<and> find_one (\<lambda>x. m_id x = ident) (materials s') = Some (fst v)
                \<and> (\<forall>cid. classroom_orders s' cid
                      = map (\<lambda>x. if m_id x = ident then k else m_order x)
                          (filter (\<lambda>x. m_classroomId x = cid) (materials s))))
        else update_material now s ident data u = Inl OverflowError))"
proof (intro conjI allI impI)
  fix now material_id classroomId data and u :: user and s' v cid
  assume "dense_orders s cid \<and> create_material now material_id s classroomId data u = Inr (s', v)"
  then show "dense_orders s' cid" using create_material_dense by blast
next
  fix now ident data and u :: user and s' v cid
  assume "mu_order data = None \<and> update_material now s ident data u = Inr (s', v)"
  then show "classroom_orders s' cid = classroom_orders s cid"
    using update_material_orders by blast
next
  fix cid ids and u :: user and s'
  assume a: "indexes_ok s \<and> distinct ids
       \<and> set ids = set (map m_id (filter (\<lambda>m. m_classroomId m = cid) (materials s)))
       \<and> reorder_materials s cid ids u = Inr s'"
  then have "distinct (map m_id (materials s))" by (simp add: indexes_ok_def)
  with a show "dense_orders s' cid" using reorder_materials_dense by blast
next
  fix ident and u :: user and s' cid
  assume "indexes_ok s \<and> delete_material s ident u = Inr s'"
  then have "indexes_ok s" and "delete_material s ident u = Inr s'" by simp_all
  then show "classroom_orders s' cid
         = map m_order (filter (\<lambda>m. m_classroomId m = cid \<and> m_id m \<noteq> ident) (materials s))"
    by (rule delete_material_orders)
next
  fix now ident and data :: MaterialUpdate and u :: user and m c k
  assume a: "indexes_ok s
       \<and> find_one (\<lambda>x. m_id x = ident) (materials s) = Some m
       \<and> find_one (\<lambda>c. c_id c = m_classroomId m) (classrooms s) = Some c
       \<and> c_teacherId c = u_id u \<and> mu_order data = Some k"
  then have idx: "indexes_ok s"
    and fm: "find_one (\<lambda>x. m_id x = ident) (materials s) = Some m"
    and fc: "find_one (\<lambda>c. c_id c = m_classroomId m) (classrooms s) = Some c"
    and own: "c_teacherId c = u_id u" and ord: "mu_order data = Some k"
    by simp_all
  show "if int64 k
        then (\<exists>s' v. update_material now s ident data u = Inr (s', v)
                \<and> m_order (fst v) = k
                \<and> find_one (\<lambda>x. m_id x = ident) (materials s') = Some (fst v)
                \<and> (\<forall>cid. classroom_orders s' cid
                      = map (\<lambda>x. if m_id x = ident then k else m_order x)
                          (filter (\<lambda>x. m_classroomId x = cid) (materials s))))
        else update_material now s ident data u = Inl OverflowError"
  proof (cases "int64 k")
    case False
    from update_material_overflows [OF fm fc own ord False] False show ?thesis by simp
  next
    case True
    let ?ms = "update_one (\<lambda>x. m_id x = ident) (set_material data now) (materials s)"
    let ?s' = "s\<lparr>materials := ?ms\<rparr>"
    let ?v = "enrich_material ?s' (set_material data now m)"
    have upd: "update_material now s ident data u = Inr (?s', ?v)"
      by (rule update_material_order_exact [OF fm fc own ord True refl])
    from ord have o: "m_order (fst ?v) = k" by (simp add: fst_enrich set_material_def)
    have "find_one (\<lambda>x. m_id x = ident) ?ms = Some (set_material data now m)"
      using fm by (simp add: find_one_update_one_key [where g = m_id] set_material_def)
    then have f: "find_one (\<lambda>x. m_id x = ident) (materials ?s') = Some (fst ?v)"
      by (simp add: fst_enrich)
    from idx have "distinct (map m_id (materials s))" by (simp add: indexes_ok_def)
    from update_one_orders [OF this ord]
    have os: "\<forall>cid. classroom_orders ?s' cid
                      = map (\<lambda>x. if m_id x = ident then k else m_order x)
                          (filter (\<lambda>x. m_classroomId x = cid) (materials s))"
      by (simp add: classroom_orders_def)
    from upd o f os
    have "\<exists>s' v. update_material now s ident data u = Inr (s', v)
                \<and> m_order (fst v) = k
                \<and> find_one (\<lambda>x. m_id x = ident) (materials s') = Some (fst v)
                \<and> (\<forall>cid. classroom_orders s' cid
                      = map (\<lambda>x. if m_id x = ident then k else m_order x)
                          (filter (\<lambda>x. m_classroomId x = cid) (materials s)))"
      by (intro exI [where x = ?s'] exI [where x = ?v] conjI)
    with True show ?thesis by simp
  qed
qed

lemma update_material_succeeds:
  assumes "find_one (\<lambda>x. m_id x = ident) (materials s) = Some m"
    and "find_one (\<lambda>c. c_id c = m_classroomId m) (classrooms s) = Some c"
    and "c_teacherId c = u_id u" and "\<not> order_overflows (mu_order data)"
  shows "\<exists>s' v. update_material now s ident data u = Inr (s', v)"
proof (cases "update_data_empty data")
  case True
  with assms show ?thesis by (simp add: update_material_def Let_def)
next
  case False
  have "find_one (\<lambda>x. m_id x = ident)
          (update_one (\<lambda>x. m_id x = ident) (set_material data now) (materials s))
        = Some (set_material data now m)"
    using assms(1)
    by (simp add: find_one_update_one_key [where g = m_id] set_material_def)
  with False assms show ?thesis by (simp add: update_material_def Let_def)
qed

lemma reorder_materials_succeeds:
  assumes "find_one (\<lambda>c. c_id c = cid) (classrooms s) = Some c" and "c_teacherId c = u_id u"
  shows "\<exists>s'. reorder_materials s cid ids u = Inr s'"
  using assms by (simp add: reorder_materials_def)

lemma ex_bulk_orders: "classroom_orders (ex_db_bulk n) ''c1'' = map int [1..<Suc n]"
  unfolding classroom_orders_def ex_db_bulk_simps ex_bulk_filter
  by (simp add: ex_bulk_simps)

lemma ex_bulk_dense: "dense_orders (ex_db_bulk n) ''c1''"
proof -
  have "distinct (map int [1..<Suc n])" by (simp add: distinct_map)
  then show ?thesis unfolding dense_orders_def ex_bulk_orders by simp
qed

lemma ex_bulk_two: "materials (ex_db_bulk 2) = [ex_bulk 1, ex_bulk 2]"
proof -
  have "[1..<Suc 2] = [1, 2]" by (simp add: upt_rec)
  then show ?thesis unfolding ex_db_bulk_simps by simp
qed

lemma ex_bulk_ids: "m_id (ex_bulk 1) = ''x''" "m_id (ex_bulk 2) = ''xx''"
  by (simp_all add: ex_bulk_simps numeral_2_eq_2)

lemma ex_gap_simps:
  "users ex_db_gap = [ex_teacher]" "classrooms ex_db_gap = [ex_classroom1]"
  "materials ex_db_gap = [ex_bulk 2]"
  by (simp_all add: ex_db_gap_def ex_db2_def ex_db1_def)

lemma ex_delete_first: "delete_material (ex_db_bulk 2) ''x'' ex_teacher = Inr ex_db_gap"
proof -
  have "find_one (\<lambda>m. m_id m = ''x'') (materials (ex_db_bulk 2)) = Some (ex_bulk 1)"
    unfolding ex_bulk_two by (simp add: find_one_def ex_bulk_simps)
  moreover have "find_one (\<lambda>c. c_id c = m_classroomId (ex_bulk 1)) (classrooms (ex_db_bulk 2))
      = Some ex_classroom1"
    by (simp add: find_one_def ex_db_bulk_simps ex_bulk_simps ex_classroom1_def)
  moreover have "delete_one (\<lambda>m. m_id m = ''x'') (materials (ex_db_bulk 2)) = [ex_bulk 2]"
    unfolding ex_bulk_two by (simp add: ex_bulk_simps numeral_2_eq_2)
  moreover have "ex_db_bulk 2\<lparr>materials := [ex_bulk 2]\<rparr> = ex_db_gap"
    by (simp add: ex_db_bulk_def ex_db_gap_def)
  ultimately show ?thesis using ex_teacher_owns by (simp add: delete_material_def)
qed

lemma ex_reachable_gap: "reachable ex_secret ex_db_gap"
proof -
  have "get_current_user ex_secret 3 (ex_db_bulk 2) ex_teacher_token = Inr ex_teacher"
    by (rule ex_teacher_authenticated_at)
       (simp_all add: ex_db_bulk_simps find_one_def ex_teacher_def)
  then have "step ex_secret (ex_db_bulk 2) ex_db_gap"
    using ex_delete_first by (rule step_delete_material)
  with ex_reachable_bulk [OF ex_small(3)] show ?thesis by (rule reachable_step)
qed

lemma ex_gap_orders: "classroom_orders ex_db_gap ''c1'' = [2]"
  by (simp add: classroom_orders_def ex_gap_simps ex_bulk_simps)

text \<open>
  Claim C9 as stated fails: the teacher creates two materials and deletes the first. The
  database is reachable and the one remaining material of the classroom has order 2.
\<close>

theorem orders_gap_counterexample:
  "reachable ex_secret (ex_db_bulk 2) \<and> dense_orders (ex_db_bulk 2) ''c1''
   \<and> delete_material (ex_db_bulk 2) ''x'' ex_teacher = Inr ex_db_gap
   \<and> reachable ex_secret ex_db_gap
   \<and> classroom_orders ex_db_gap ''c1'' = [2]
   \<and> \<not> dense_orders ex_db_gap ''c1''"
proof -
  have "\<not> dense_orders ex_db_gap ''c1''"
    unfolding dense_orders_def ex_gap_orders by (simp add: upt_rec)
  with ex_reachable_bulk [OF ex_small(3)] ex_bulk_dense [of 2] ex_delete_first ex_reachable_gap
    ex_gap_orders
  show ?thesis by blast
qed

text \<open>
  The teacher creates a third material in the dense classroom, renames the first material
  of the classroom with two, and reorders the classroom left with the single order 2.
  Deleting the first of the two materials leaves the order 2; giving it the order 5 leaves
  the orders 5 and 2; the order \<open>2 ^ 63\<close> is refused with \<^verbatim>\<open>OverflowError\<close>.
\<close>

theorem orders_density_witness:
  "dense_orders (ex_db_bulk 2) ''c1''
   \<and> create_material 3 (replicate (Suc 2) (CHR ''x'')) (ex_db_bulk 2) ''c1''
         (ex_bulk_create (Suc 2)) ex_teacher
       = Inr (ex_db_bulk (Suc 2), ex_bulk (Suc 2), Some (creator_summary ex_teacher))
   \<and> dense_orders (ex_db_bulk (Suc 2)) ''c1''
   \<and> (\<exists>s' v. update_material 9 (ex_db_bulk 2) ''x'' ex_mu ex_teacher = Inr (s', v)
         \<and> classroom_orders s' ''c1'' = map int [1..<Suc 2])
   \<and> classroom_orders ex_db_gap ''c1'' = [2]
   \<and> (\<exists>s'. reorder_materials ex_db_gap ''c1'' [''xx''] ex_teacher = Inr s'
         \<and> dense_orders s' ''c1'')
   \<and> delete_material (ex_db_bulk 2) ''x'' ex_teacher = Inr ex_db_gap
   \<and> classroom_orders ex_db_gap ''c1''
       = map m_order (filter (\<lambda>m. m_classroomId m = ''c1'' \<and> m_id m \<noteq> ''x'')
           (materials (ex_db_bulk 2)))
   \<and> (\<exists>s' v. update_material 9 (ex_db_bulk 2) ''x'' (ex_mu\<lparr>mu_order := Some 5\<rparr>) ex_teacher
                = Inr (s', v)
         \<and> m_order (fst v) = 5 \<and> classroom_orders s' ''c1'' = [5, 2])
   \<and> update_material 9 (ex_db_bulk 2) ''x'' (ex_mu\<lparr>mu_order := Some 9223372036854775808\<rparr>)
        ex_teacher = Inl OverflowError"
proof -
  note on_create = orders_density [of "ex_db_bulk 2", THEN conjunct1, rule_format]
  note on_update = orders_density [of "ex_db_bulk 2", THEN conjunct2, THEN conjunct1, rule_format]
  note on_reorder = orders_density [of ex_db_gap, THEN conjunct2, THEN conjunct2,
      THEN conjunct1, rule_format]
  note on_delete = orders_density [of "ex_db_bulk 2", THEN conjunct2, THEN conjunct2,
      THEN conjunct2, THEN conjunct1, rule_format]
  note on_order = orders_density [of "ex_db_bulk 2", THEN conjunct2, THEN conjunct2,
      THEN conjunct2, THEN conjunct2, rule_format]
  have a: "dense_orders (ex_db_bulk (Suc 2)) ''c1''"
    by (rule on_create [OF conjI [OF ex_bulk_dense [of 2] ex_bulk_create_step [OF ex_small(1)]]])
  have f1: "find_one (\<lambda>m. m_id m = ''x'') (materials (ex_db_bulk 2)) = Some (ex_bulk 1)"
    unfolding ex_bulk_two by (simp add: find_one_def ex_bulk_simps)
  have f2: "find_one (\<lambda>c. c_id c = m_classroomId (ex_bulk 1)) (classrooms (ex_db_bulk 2))
      = Some ex_classroom1"
    by (simp add: find_one_def ex_db_bulk_simps ex_bulk_simps ex_classroom1_def)
  have mu: "mu_order ex_mu = None" by (simp add: ex_mu_def)
  then have fits: "\<not> order_overflows (mu_order ex_mu)" by (simp add: order_overflows_def)
  have b: "\<exists>s' v. update_material 9 (ex_db_bulk 2) ''x'' ex_mu ex_teacher = Inr (s', v)
         \<and> classroom_orders s' ''c1'' = map int [1..<Suc 2]"
  proof -
    from update_material_succeeds [OF f1 f2 ex_teacher_owns fits, of 9]
    obtain s' v where
      upd: "update_material 9 (ex_db_bulk 2) ''x'' ex_mu ex_teacher = Inr (s', v)"
      by (elim exE)
    have "classroom_orders s' ''c1'' = classroom_orders (ex_db_bulk 2) ''c1''"
      by (rule on_update [OF conjI [OF mu upd]])
    then have "classroom_orders s' ''c1'' = map int [1..<Suc 2]"
      by (simp only: ex_bulk_orders)
    with upd show ?thesis by (intro exI conjI)
  qed
  have g: "find_one (\<lambda>c. c_id c = ''c1'') (classrooms ex_db_gap) = Some ex_classroom1"
    by (simp add: find_one_def ex_gap_simps ex_classroom1_def)
  have ids: "set [''xx''] = set (map m_id (filter (\<lambda>m. m_classroomId m = ''c1'') (materials ex_db_gap)))"
    by (simp add: ex_gap_simps ex_bulk_simps numeral_2_eq_2)
  have d1: "distinct [''xx'']" by simp
  have c: "\<exists>s'. reorder_materials ex_db_gap ''c1'' [''xx''] ex_teacher = Inr s'
         \<and> dense_orders s' ''c1''"
  proof -
    from reorder_materials_succeeds [OF g ex_teacher_owns, where ids = "[''xx'']"]
    obtain s'' where re: "reorder_materials ex_db_gap ''c1'' [''xx''] ex_teacher = Inr s''"
      by (elim exE)
    have "dense_orders s'' ''c1''"
      by (rule on_reorder
         [OF conjI [OF reachable_indexes_ok [OF ex_reachable_gap] conjI [OF d1 conjI [OF ids re]]]])
    with re show ?thesis by (intro exI conjI)
  qed
  have idx: "indexes_ok (ex_db_bulk 2)"
    by (rule reachable_indexes_ok [OF ex_reachable_bulk [OF ex_small(3)]])
  have d: "classroom_orders ex_db_gap ''c1''
       = map m_order (filter (\<lambda>m. m_classroomId m = ''c1'' \<and> m_id m \<noteq> ''x'')
           (materials (ex_db_bulk 2)))"
    by (rule on_delete [OF conjI [OF idx ex_delete_first]])
  have o5: "mu_order (ex_mu\<lparr>mu_order := Some 5\<rparr>) = Some 5" by simp
  have i5: "int64 5" by (simp add: int64_def)
  have e: "\<exists>s' v. update_material 9 (ex_db_bulk 2) ''x'' (ex_mu\<lparr>mu_order := Some 5\<rparr>) ex_teacher
                = Inr (s', v)
         \<and> m_order (fst v) = 5 \<and> classroom_orders s' ''c1'' = [5, 2]"
  proof -
    from on_order [where now = 9, OF conjI [OF idx conjI [OF f1 conjI [OF f2
          conjI [OF ex_teacher_owns o5]]]]] i5
    obtain s' v where
      upd: "update_material 9 (ex_db_bulk 2) ''x'' (ex_mu\<lparr>mu_order := Some 5\<rparr>) ex_teacher
              = Inr (s', v)"
      and ord: "m_order (fst v) = 5"
      and os: "\<forall>cid. classroom_orders s' cid
                 = map (\<lambda>x. if m_id x = ''x'' then 5 else m_order x)
                     (filter (\<lambda>x. m_classroomId x = cid) (materials (ex_db_bulk 2)))"
      by auto
    from os have "classroom_orders s' ''c1''
        = map (\<lambda>x. if m_id x = ''x'' then 5 else m_order x)
            (filter (\<lambda>x. m_classroomId x = ''c1'') (materials (ex_db_bulk 2)))"
      by (rule spec)
    also have "\<dots> = [5, 2]"
      unfolding ex_bulk_two by (simp add: ex_bulk_ids ex_bulk_simps(2,3) del: One_nat_def)
    finally have "classroom_orders s' ''c1'' = [5, 2]" .
    with upd ord show ?thesis by (intro exI conjI)
  qed
  have o63: "mu_order (ex_mu\<lparr>mu_order := Some 9223372036854775808\<rparr>) = Some 9223372036854775808"
    by simp
  have i63: "\<not> int64 9223372036854775808" by (simp add: int64_def)
  from on_order [where now = 9, OF conjI [OF idx conjI [OF f1 conjI [OF f2
        conjI [OF ex_teacher_owns o63]]]]] i63
  have f: "update_material 9 (ex_db_bulk 2) ''x'' (ex_mu\<lparr>mu_order := Some 9223372036854775808\<rparr>)
        ex_teacher = Inl OverflowError"
    by simp
  show ?thesis
    by (rule conjI [OF ex_bulk_dense [of 2] conjI [OF ex_bulk_create_step [OF ex_small(1)]
          conjI [OF a conjI [OF b conjI [OF ex_gap_orders conjI [OF c
          conjI [OF ex_delete_first conjI [OF d conjI [OF e f]]]]]]]]])
qed

section \<open>Creating a material after the greatest order\<close>

lemma ex_bulk_one: "materials (ex_db_bulk 1) = [ex_bulk 1]"
  unfolding ex_db_bulk_simps by (simp add: upt_rec)

lemma ex_max_order: "m_order (set_material ex_mu_max 9 (ex_bulk 1)) = 9223372036854775807"
  "m_id (set_material ex_mu_max 9 (ex_bulk 1)) = ''x''"
  "m_classroomId (set_material ex_mu_max 9 (ex_bulk 1)) = ''c1''"
  by (simp_all add: set_material_def ex_mu_max_def ex_bulk_ids ex_bulk_simps(2,3)
      del: One_nat_def)

lemma ex_update_max:
  "update_material 9 (ex_db_bulk 1) ''x'' ex_mu_max ex_teacher
   = Inr (ex_db_max, enrich_material ex_db_max (set_material ex_mu_max 9 (ex_bulk 1)))"
proof -
  have f1: "find_one (\<lambda>x. m_id x = ''x'') (materials (ex_db_bulk 1)) = Some (ex_bulk 1)"
    unfolding ex_bulk_one by (simp add: find_one_def ex_bulk_ids del: One_nat_def)
  have f2: "find_one (\<lambda>c. c_id c = m_classroomId (ex_bulk 1)) (classrooms (ex_db_bulk 1))
      = Some ex_classroom1"
    by (simp add: find_one_def ex_db_bulk_simps ex_bulk_simps ex_classroom1_def)
  have o: "mu_order ex_mu_max = Some 9223372036854775807" by (simp add: ex_mu_max_def)
  have i: "int64 9223372036854775807" by (simp add: int64_def)
  have "update_one (\<lambda>x. m_id x = ''x'') (set_material ex_mu_max 9) (materials (ex_db_bulk 1))
      = [set_material ex_mu_max 9 (ex_bulk 1)]"
    unfolding ex_bulk_one by (simp add: ex_bulk_ids del: One_nat_def)
  then have db: "ex_db_max = ex_db_bulk 1\<lparr>materials :=
      update_one (\<lambda>x. m_id x = ''x'') (set_material ex_mu_max 9) (materials (ex_db_bulk 1))\<rparr>"
    by (simp add: ex_db_max_def ex_db_bulk_def)
  show ?thesis by (rule update_material_order_exact [OF f1 f2 ex_teacher_owns o i db])
qed

lemma ex_reachable_max: "reachable ex_secret ex_db_max"
proof -
  have "get_current_user ex_secret 9 (ex_db_bulk 1) ex_teacher_token = Inr ex_teacher"
    by (rule ex_teacher_authenticated_at)
       (simp_all add: ex_db_bulk_simps find_one_def ex_teacher_def)
  then have "step ex_secret (ex_db_bulk 1) ex_db_max"
    using ex_update_max by (rule step_update_material)
  with ex_reachable_bulk [OF ex_small(4)] show ?thesis by (rule reachable_step)
qed

text \<open>
  Claim C6 as stated fails: the teacher creates one material and updates its order to
  \<open>2 ^ 63 - 1\<close>. The database is reachable, the classroom is the teacher's and the type
  MODEL3D is valid, but the next creation in the classroom raises \<^verbatim>\<open>OverflowError\<close> and
  assigns no order: the greatest order plus 1 is not a signed 64-bit integer.
\<close>

theorem create_material_overflow_counterexample:
  "reachable ex_secret ex_db_max
   \<and> find_one (\<lambda>c. c_id c = ''c1'') (classrooms ex_db_max) = Some ex_classroom1
   \<and> c_teacherId ex_classroom1 = u_id ex_teacher
   \<and> mc_type ex_mc = MODEL3D
   \<and> map m_order (filter (\<lambda>m. m_classroomId m = ''c1'') (materials ex_db_max))
       = [9223372036854775807]
   \<and> ''m4'' \<notin> set (map m_id (materials ex_db_max))
   \<and> create_material 10 ''m4'' ex_db_max ''c1'' ex_mc ex_teacher = Inl OverflowError"
proof -
  have cls: "find_one (\<lambda>c. c_id c = ''c1'') (classrooms ex_db_max) = Some ex_classroom1"
    by (simp add: find_one_def ex_db_max_def ex_db2_def ex_db1_def ex_classroom1_def)
  have ty: "mc_type ex_mc = MODEL3D" by (simp add: ex_mc_def)
  then have ty': "mc_type ex_mc \<in> {TEXT, FILE, VIDEO, MODEL3D}" by simp
  have os: "map m_order (filter (\<lambda>m. m_classroomId m = ''c1'') (materials ex_db_max))
       = [9223372036854775807]"
    by (simp add: ex_db_max_def ex_max_order del: One_nat_def)
  have fresh: "''m4'' \<notin> set (map m_id (materials ex_db_max))"
    by (simp add: ex_db_max_def ex_max_order del: One_nat_def)
  have "next_order ex_db_max ''c1'' = 9223372036854775808"
    by (simp add: next_order_def ex_db_max_def ex_max_order del: One_nat_def)
  then have "\<not> int64 (next_order ex_db_max ''c1'')" by (simp add: int64_def)
  from create_material_overflows [OF cls ex_teacher_owns ty' this]
  have "create_material 10 ''m4'' ex_db_max ''c1'' ex_mc ex_teacher = Inl OverflowError" .
  with ex_reachable_max cls ex_teacher_owns ty os fresh show ?thesis by (intro conjI)
qed

end
